theory Spec2Isabelle
  imports Main "HOL-Library.Sublist"
begin

text \<open>
  The adapters of the OpenStack provider whose properties are proved below: the
  load-balancer monitor (Create, Read, Update, Import), the database instance (Create,
  Read, Delete and the state refresh function), the port security-group association
  (Create, Read), the image IDs data source (Read), and the building and parsing of
  subnet route IDs.

  An adapter is a function of the resource data and of its environment; it returns its
  error or diagnostics, the resource data as it leaves them, and the trace of the calls
  it made. The environment holds what the adapter calls and does not define: the
  gophercloud calls and the helpers of the provider that live in other files. A call
  that reaches OpenStack is given the trace so far, so that it may answer differently
  each time. Logging is left out.
\<close>

section \<open>Go strings: the library functions the adapters call\<close>

text \<open>
  Go strings are byte sequences; \<^typ>\<open>string\<close> is a list of 8-bit characters.
  \<open>strings.Index s substr\<close> is the position of the first occurrence of \<open>substr\<close>
  in \<open>s\<close>; Go's \<open>-1\<close> is \<open>None\<close> here.
\<close>

fun Index :: "string \<Rightarrow> string \<Rightarrow> nat option" where
  "Index [] substr = (if substr = [] then Some 0 else None)"
| "Index (c # cs) substr =
     (if prefix substr (c # cs) then Some 0 else map_option Suc (Index cs substr))"

text \<open>
  \<open>strings.Count\<close>: the number of non-overlapping occurrences. Go's loop
  \<^verbatim>\<open>for { i := Index(s, substr); if i == -1 { return n }; n++; s = s[i+len(substr):] }\<close>
  is the recursion below; a one-byte \<open>substr\<close> is counted bytewise, as Go does.
  For the empty \<open>substr\<close> Go returns the number of UTF-8 runes plus one; bytes are
  counted here, and no caller in this development passes an empty separator.
\<close>

function Count_loop :: "string \<Rightarrow> string \<Rightarrow> nat" where
  "Count_loop s substr =
     (if substr = [] then length s + 1
      else case Index s substr of
             None \<Rightarrow> 0
           | Some i \<Rightarrow> Suc (Count_loop (drop (i + length substr) s) substr))"
  by pat_completeness auto
termination
proof (relation "measure (\<lambda>(s, substr). length s)")
  show "wf (measure (\<lambda>(s, substr). length s))" by simp
next
  fix s substr :: string and i :: nat
  assume ne: "substr \<noteq> []" and ix: "Index s substr = Some i"
  from ne ix have "s \<noteq> []" by (cases s) auto
  with ne show "((drop (i + length substr) s, substr), (s, substr))
                  \<in> measure (\<lambda>(s, substr). length s)"
    by (cases substr) auto
qed

definition Count :: "string \<Rightarrow> string \<Rightarrow> nat" where
  "Count s substr =
     (if length substr = 1 then length (filter (\<lambda>c. c = hd substr) s)
      else Count_loop s substr)"

text \<open>
  \<open>strings.explode s n\<close>, the split at an empty separator: at most \<open>n\<close> pieces, the
  last one the unsplit rest. Go cuts after each UTF-8 sequence; pieces are single bytes
  here, which is the same on ASCII, and no caller in this development passes an empty
  separator.
\<close>

definition explode :: "string \<Rightarrow> int \<Rightarrow> string list" where
  "explode s n =
     (let l = length s;
          n1 = (if n < 0 \<or> nat n > l then l else nat n)
      in if n1 = 0 then []
         else map (\<lambda>c. [c]) (take (n1 - 1) s) @ [drop (n1 - 1) s])"

text \<open>
  \<open>strings.genSplit s sep 0 n\<close>, the body shared by \<open>Split\<close> (\<open>n = -1\<close>) and
  \<open>SplitN\<close>. The loop \<^verbatim>\<open>for i < n { m := Index(s, sep); if m < 0 { break } ... }\<close>
  runs on the number of cuts still allowed.
\<close>

fun genSplit_loop :: "string \<Rightarrow> string \<Rightarrow> nat \<Rightarrow> string list" where
  "genSplit_loop s sep 0 = [s]"
| "genSplit_loop s sep (Suc k) =
     (case Index s sep of
        None \<Rightarrow> [s]
      | Some m \<Rightarrow> take m s # genSplit_loop (drop (m + length sep) s) sep k)"

definition genSplit :: "string \<Rightarrow> string \<Rightarrow> int \<Rightarrow> string list" where
  "genSplit s sep n =
     (if n = 0 then []
      else if sep = [] then explode s n
      else let n1 = (if n < 0 then Count s sep + 1 else nat n);
               n2 = (if n1 > length s + 1 then length s + 1 else n1)
           in genSplit_loop s sep (n2 - 1))"

definition Split :: "string \<Rightarrow> string \<Rightarrow> string list" where
  "Split s sep = genSplit s sep (- 1)"

definition SplitN :: "string \<Rightarrow> string \<Rightarrow> int \<Rightarrow> string list" where
  "SplitN s sep n = genSplit s sep n"

text \<open>\<open>strings.Join\<close>.\<close>

fun Join :: "string list \<Rightarrow> string \<Rightarrow> string" where
  "Join [] sep = []"
| "Join [x] sep = x"
| "Join (x # y # ys) sep = x @ sep @ Join (y # ys) sep"


section \<open>Subnet route IDs\<close>

text \<open>\<open>fmt.Sprintf("%s-route-%s-%s", subnetID, dstCIDR, nextHop)\<close>.\<close>

definition resourceNetworkingSubnetRouteV2BuildID :: "string \<Rightarrow> string \<Rightarrow> string \<Rightarrow> string" where
  "resourceNetworkingSubnetRouteV2BuildID subnetID dstCIDR nextHop =
     subnetID @ ''-route-'' @ dstCIDR @ ''-'' @ nextHop"

text \<open>
  The parser returns three strings and an error; the error is \<open>Inl\<close> with its message.
\<close>

definition resourceNetworkingSubnetRouteV2ParseID :: "string \<Rightarrow> string + (string \<times> string \<times> string)" where
  "resourceNetworkingSubnetRouteV2ParseID subnetID =
     (let routeIDAllParts = Split subnetID ''-route-'' in
      if length routeIDAllParts \<noteq> 2 then Inl (''invalid ID format: '' @ subnetID)
      else
        let routeIDLastPart = routeIDAllParts ! 1;
            routeIDLastParts = Split routeIDLastPart ''-'' in
        if length routeIDLastParts \<noteq> 2
        then Inl (''invalid last part format for '' @ subnetID @ '': '' @ routeIDLastPart)
        else Inr (routeIDAllParts ! 0, routeIDLastParts ! 0, routeIDLastParts ! 1))"

section \<open>Errors, diagnostics and the polling primitives of the plugin SDK\<close>

text \<open>
  \<open>time.Duration\<close> counts nanoseconds; the durations of this development are not
  negative.
\<close>

definition Microsecond :: nat where
  "Microsecond = 1000"

definition Millisecond :: nat where
  "Millisecond = 1000000"

definition Second :: nat where
  "Second = 1000000000"

text \<open>
  \<open>fmtInt\<close> writes a number in decimal (also what \<open>%d\<close> prints), \<open>fmtFrac\<close> the
  fraction \<open>v / 10^prec\<close> without trailing zeros, in front of \<open>buf\<close>, and returns
  the integer part with it; \<open>Duration.String\<close> of package \<open>time\<close> is built from the
  two.
\<close>

function fmtInt :: "nat \<Rightarrow> string" where
  "fmtInt v = (if v < 10 then [char_of (48 + v)]
               else fmtInt (v div 10) @ [char_of (48 + v mod 10)])"
  by pat_completeness auto

termination
  by (relation "measure (\<lambda>v. v)") auto

declare fmtInt.simps [simp del]

fun fmtFrac_loop :: "nat \<Rightarrow> nat \<Rightarrow> bool \<Rightarrow> string \<Rightarrow> string \<times> nat \<times> bool" where
  "fmtFrac_loop 0 v print buf = (buf, v, print)"
| "fmtFrac_loop (Suc i) v print buf =
     (let digit = v mod 10;
          print' = (print \<or> digit \<noteq> 0);
          buf' = (if print' then char_of (48 + digit) # buf else buf)
      in fmtFrac_loop i (v div 10) print' buf')"

definition fmtFrac :: "string \<Rightarrow> nat \<Rightarrow> nat \<Rightarrow> string \<times> nat" where
  "fmtFrac buf v prec =
     (case fmtFrac_loop prec v False buf of
        (buf', v', print) \<Rightarrow> (if print then CHR ''.'' # buf' else buf', v'))"

definition Duration_String :: "nat \<Rightarrow> string" where
  "Duration_String d =
     (if d < Second then
        (if d = 0 then ''0s''
         else
           let unit_prec =
                 (if d < Microsecond then (''ns'', 0)
                  else if d < Millisecond then ([CHR 0xC2, CHR 0xB5] @ ''s'', 3)
                  else (''ms'', 6))
           in case fmtFrac (fst unit_prec) d (snd unit_prec) of (buf, u) \<Rightarrow> fmtInt u @ buf)
      else
        (case fmtFrac ''s'' d 9 of
           (buf, u) \<Rightarrow>
             let buf1 = fmtInt (u mod 60) @ buf;
                 u1 = u div 60
             in if u1 > 0
                then
                  let buf2 = fmtInt (u1 mod 60) @ ''m'' @ buf1;
                      u2 = u1 div 60
                  in if u2 > 0 then fmtInt u2 @ ''h'' @ buf2 else buf2
                else buf1))"

text \<open>
  A Go \<open>error\<close> value has a dynamic type and a message. The adapters distinguish
  \<open>gophercloud.ErrDefault404\<close> by a type assertion. The polling primitive of the plugin
  SDK builds errors of its own, held here with the fields their messages are rendered
  from: \<open>TimeoutError\<close> with \<open>ExpectedState\<close>, \<open>LastState\<close> and \<open>Timeout\<close>,
  \<open>NotFoundError\<close> with \<open>Retries\<close>, \<open>UnexpectedStateError\<close> with \<open>State\<close> and
  \<open>ExpectedState\<close>; their \<open>LastError\<close> is nil wherever one is built, since a refresh
  that returns an error ends the polling with that error. Every other error (those of
  \<open>fmt.Errorf\<close> too) is \<open>ErrOther\<close>. A nil error is \<open>None\<close>.
\<close>

datatype gerror =
    ErrDefault404 string
  | TimeoutError "string list" string nat
  | NotFoundError nat
  | UnexpectedStateError string "string list"
  | ErrOther string

text \<open>\<open>'%s'\<close> in a format string.\<close>

definition quoted :: "string \<Rightarrow> string" where
  "quoted s = [CHR 0x27] @ s @ [CHR 0x27]"

text \<open>
  The \<open>Error()\<close> methods. \<open>%s\<close> of the nil \<open>LastError\<close> of an \<open>UnexpectedStateError\<close>
  prints \<open>%!s(<nil>)\<close>.
\<close>

fun errorString :: "gerror \<Rightarrow> string" where
  "errorString (ErrDefault404 m) = m"
| "errorString (TimeoutError expected lastState timeout) =
     (let expectedState =
            (if length expected > 0 then ''state to become '' @ quoted (Join expected '', '')
             else ''resource to be gone'');
          extraInfo =
            (if lastState \<noteq> [] then [''last state: '' @ quoted lastState] else [])
            @ (if timeout > 0 then [''timeout: '' @ Duration_String timeout] else []);
          suffix = (if length extraInfo > 0 then '' ('' @ Join extraInfo '', '' @ '')'' else [])
      in ''timeout while waiting for '' @ expectedState @ suffix)"
| "errorString (NotFoundError retries) =
     (if retries > 0
      then ''couldn'' @ [CHR 0x27] @ ''t find resource ('' @ fmtInt retries @ '' retries)''
      else ''couldn'' @ [CHR 0x27] @ ''t find resource'')"
| "errorString (UnexpectedStateError state expected) =
     ''unexpected state '' @ quoted state @ '', wanted target ''
       @ quoted (Join expected '', '') @ ''. last error: %!s(<nil>)''"
| "errorString (ErrOther m) = m"

definition fmt_Errorf :: "string \<Rightarrow> gerror" where
  "fmt_Errorf msg = ErrOther msg"

text \<open>
  \<open>diag.Diagnostics\<close> is a list of diagnostics, here of their summaries; nil is the empty
  list. \<open>diag.FromErr nil\<close> is nil.
\<close>

type_synonym diagnostics = "string list"

definition diag_Errorf :: "string \<Rightarrow> diagnostics" where
  "diag_Errorf msg = [msg]"

definition diag_FromErr :: "gerror option \<Rightarrow> diagnostics" where
  "diag_FromErr err = (case err of None \<Rightarrow> [] | Some e \<Rightarrow> [errorString e])"

text \<open>\<open>d.Get(key).(T)\<close> on an attribute that is not set gives the zero value of \<open>T\<close>.\<close>

definition getS :: "string option \<Rightarrow> string" where
  "getS a = (case a of None \<Rightarrow> [] | Some v \<Rightarrow> v)"

definition getI :: "int option \<Rightarrow> int" where
  "getI a = (case a of None \<Rightarrow> 0 | Some v \<Rightarrow> v)"

definition getB :: "bool option \<Rightarrow> bool" where
  "getB a = (case a of None \<Rightarrow> False | Some v \<Rightarrow> v)"

text \<open>
  \<open>d.GetOk(key)\<close>: the value, and whether it is set to something other than the zero
  value of its type.
\<close>

definition GetOkS :: "string option \<Rightarrow> string \<times> bool" where
  "GetOkS a = (getS a, a \<noteq> None \<and> getS a \<noteq> [])"

definition GetOkB :: "bool option \<Rightarrow> bool \<times> bool" where
  "GetOkB a = (getB a, a \<noteq> None \<and> getB a \<noteq> False)"

datatype timeoutKey = TimeoutCreate | TimeoutUpdate | TimeoutDelete

text \<open>
  \<open>resource.Retry(timeout, f)\<close> of the plugin SDK calls \<open>f\<close> until it reports success
  or an error that is not retryable, or until the timeout has passed. Real time is
  outside the model: the second argument is the number of calls of \<open>f\<close> that fit into
  the timeout. \<open>f\<close> works on the variables its closure captures (the state \<open>'s\<close>) and
  returns nil (\<open>None\<close>) or a \<open>RetryError\<close>, an error with its \<open>Retryable\<close> flag. On
  timeout the last error of \<open>f\<close> is returned, or, when \<open>f\<close> never ran, the timeout error
  of the \<open>StateChangeConf\<close> that \<open>Retry\<close> polls with (target \<open>success\<close>).
\<close>

fun Retry ::
  "nat \<Rightarrow> nat \<Rightarrow> ('s \<Rightarrow> (gerror \<times> bool) option \<times> 's) \<Rightarrow> gerror option \<Rightarrow> 's \<Rightarrow> gerror option \<times> 's" where
  "Retry timeout 0 f resultErr s =
     (case resultErr of
        None \<Rightarrow> (Some (TimeoutError [''success''] [] timeout), s)
      | Some e \<Rightarrow> (Some e, s))"
| "Retry timeout (Suc n) f resultErr s =
     (case f s of
        (None, s') \<Rightarrow> (None, s')
      | (Some (e, retryable), s') \<Rightarrow>
          if retryable then Retry timeout n f (Some e) s' else (Some e, s'))"

text \<open>
  \<open>StateChangeConf.WaitForState\<close> of the plugin SDK, with its defaults
  (\<open>NotFoundChecks = 20\<close>, \<open>ContinuousTargetOccurence = 1\<close>). \<open>Refresh\<close> returns the
  object (here only whether it is non-nil), the current state and an error. As for
  \<open>Retry\<close>, the time that passes is the number of refreshes that fit into the timeout;
  the other two arguments of the loop are \<open>notfoundTick\<close> and the state of the last
  refresh (empty before the first one), which the timeout error reports.
\<close>

record StateChangeConf =
  Pending :: "string list"
  Target :: "string list"
  Timeout :: nat
  Delay :: nat
  MinTimeout :: nat

fun WaitForState_loop ::
  "StateChangeConf \<Rightarrow> ('s \<Rightarrow> (bool \<times> string \<times> gerror option) \<times> 's) \<Rightarrow> nat \<Rightarrow> nat \<Rightarrow> string \<Rightarrow> 's
     \<Rightarrow> gerror option \<times> 's" where
  "WaitForState_loop conf Refresh 0 notfoundTick lastState s =
     (Some (TimeoutError (Target conf) lastState (Timeout conf)), s)"
| "WaitForState_loop conf Refresh (Suc n) notfoundTick lastState s =
     (case Refresh s of
        ((found, currentState, Some err), s') \<Rightarrow> (Some err, s')
      | ((found, currentState, None), s') \<Rightarrow>
          if \<not> found \<and> Target conf = [] then (None, s')
          else if \<not> found then
            (if notfoundTick + 1 > 20
             then (Some (NotFoundError (notfoundTick + 1)), s')
             else WaitForState_loop conf Refresh n (notfoundTick + 1) currentState s')
          else if currentState \<in> set (Target conf) then (None, s')
          else if currentState \<in> set (Pending conf)
            then WaitForState_loop conf Refresh n 0 currentState s'
          else if Pending conf \<noteq> []
            then (Some (UnexpectedStateError currentState (Target conf)), s')
          else WaitForState_loop conf Refresh n 0 currentState s')"

definition WaitForState ::
  "(nat \<Rightarrow> nat) \<Rightarrow> StateChangeConf \<Rightarrow> ('s \<Rightarrow> (bool \<times> string \<times> gerror option) \<times> 's) \<Rightarrow> 's
     \<Rightarrow> gerror option \<times> 's" where
  "WaitForState refreshes_within conf Refresh s =
     WaitForState_loop conf Refresh (refreshes_within (Timeout conf)) 0 [] s"

section \<open>The load-balancer monitor resource\<close>

text \<open>
  The gophercloud structures, with the fields the adapters read or write.
  A Go pointer field (\<open>*bool\<close>, \<open>*string\<close>) is an option.
\<close>

record Pool =
  pool_ID :: string

record PoolID =
  pid_ID :: string

record Monitor =
  m_ID :: string
  m_Name :: string
  m_ProjectID :: string
  m_Type :: string
  m_Delay :: int
  m_Timeout :: int
  m_MaxRetries :: int
  m_MaxRetriesDown :: int
  m_URLPath :: string
  m_HTTPMethod :: string
  m_ExpectedCodes :: string
  m_AdminStateUp :: bool
  m_Pools :: "PoolID list"

record CreateOpts =
  co_PoolID :: string
  co_TenantID :: string
  co_Type :: string
  co_Delay :: int
  co_Timeout :: int
  co_MaxRetries :: int
  co_MaxRetriesDown :: int
  co_URLPath :: string
  co_HTTPMethod :: string
  co_ExpectedCodes :: string
  co_Name :: string
  co_AdminStateUp :: "bool option"

record UpdateOpts =
  uo_URLPath :: string
  uo_ExpectedCodes :: string
  uo_Delay :: int
  uo_Timeout :: int
  uo_MaxRetries :: int
  uo_MaxRetriesDown :: int
  uo_AdminStateUp :: "bool option"
  uo_Name :: "string option"
  uo_HTTPMethod :: string

text \<open>\<open>var opts monitors.UpdateOpts\<close>: every field has its zero value.\<close>

definition zero_UpdateOpts :: UpdateOpts where
  "zero_UpdateOpts =
     \<lparr>uo_URLPath = [], uo_ExpectedCodes = [], uo_Delay = 0, uo_Timeout = 0, uo_MaxRetries = 0,
      uo_MaxRetriesDown = 0, uo_AdminStateUp = None, uo_Name = None, uo_HTTPMethod = []\<rparr>"

text \<open>
  The calls that leave the adapter, each with its arguments and its result, in the order
  in which they are made.
\<close>

datatype lb_event =
    E_LoadBalancerV2Client string "gerror option"
  | E_pools_Get string "gerror + Pool"
  | E_waitForLBV2Pool Pool string "string list" nat "gerror option"
  | E_monitors_Create CreateOpts "gerror + Monitor"
  | E_waitForLBV2Monitor Pool Monitor string "string list" nat "gerror option"
  | E_monitors_Get string "gerror + Monitor"
  | E_monitors_Update string UpdateOpts "gerror + Monitor"
  | E_monitors_Delete string "gerror option"

text \<open>
  \<open>schema.ResourceData\<close> of \<open>openstack_lb_monitor_v2\<close>: the ID (empty when unset), the
  attributes of the schema (\<open>None\<close> when unset), and what the plugin SDK answers to
  \<open>d.HasChange(key)\<close> and \<open>d.Timeout(key)\<close>.
\<close>

record monitorData =
  mon_Id :: string
  mon_region :: "string option"
  mon_pool_id :: "string option"
  mon_name :: "string option"
  mon_tenant_id :: "string option"
  mon_type :: "string option"
  mon_delay :: "int option"
  mon_timeout :: "int option"
  mon_max_retries :: "int option"
  mon_max_retries_down :: "int option"
  mon_url_path :: "string option"
  mon_http_method :: "string option"
  mon_expected_codes :: "string option"
  mon_admin_state_up :: "bool option"
  mon_HasChange :: "string \<Rightarrow> bool"
  mon_Timeout :: "timeoutKey \<Rightarrow> nat"

text \<open>
  What the adapter calls and does not define: the gophercloud calls, and the helpers of
  this provider that are defined in other files (\<open>GetRegion\<close>, \<open>CheckDeleted\<close>,
  \<open>waitForLBV2Pool\<close>, \<open>waitForLBV2Monitor\<close>, \<open>getLbPendingStatuses\<close>,
  \<open>getLbPendingDeleteStatuses\<close>, \<open>checkForRetryableError\<close>, the client constructor of
  \<open>Config\<close>). Each is a
  parameter. A call that reaches OpenStack may answer differently each time: its result
  depends on the calls made so far. \<open>checkForRetryableError\<close> is given by the
  \<open>Retryable\<close> flag of the error it returns.
\<close>

record lb_env =
  LoadBalancerV2Client :: "lb_event list \<Rightarrow> string \<Rightarrow> gerror option"
  GetRegion :: "monitorData \<Rightarrow> string"
  CheckDeleted :: "monitorData \<Rightarrow> gerror \<Rightarrow> string \<Rightarrow> gerror option \<times> monitorData"
  pools_Get :: "lb_event list \<Rightarrow> string \<Rightarrow> gerror + Pool"
  monitors_Create :: "lb_event list \<Rightarrow> CreateOpts \<Rightarrow> gerror + Monitor"
  monitors_Get :: "lb_event list \<Rightarrow> string \<Rightarrow> gerror + Monitor"
  monitors_Update :: "lb_event list \<Rightarrow> string \<Rightarrow> UpdateOpts \<Rightarrow> gerror + Monitor"
  monitors_Delete :: "lb_event list \<Rightarrow> string \<Rightarrow> gerror option"
  waitForLBV2Pool :: "lb_event list \<Rightarrow> Pool \<Rightarrow> string \<Rightarrow> string list \<Rightarrow> nat \<Rightarrow> gerror option"
  waitForLBV2Monitor ::
    "lb_event list \<Rightarrow> Pool \<Rightarrow> Monitor \<Rightarrow> string \<Rightarrow> string list \<Rightarrow> nat \<Rightarrow> gerror option"
  getLbPendingStatuses :: "string list"
  getLbPendingDeleteStatuses :: "string list"
  checkForRetryableError :: "gerror \<Rightarrow> bool"
  attempts_within :: "nat \<Rightarrow> nat"

text \<open>
  \<open>resourceMonitorV2Read\<close>. The result is the diagnostics, the resource data as the
  adapter leaves it, and the calls made.
\<close>

definition resourceMonitorV2Read ::
  "lb_env \<Rightarrow> monitorData \<Rightarrow> lb_event list \<Rightarrow> diagnostics \<times> monitorData \<times> lb_event list" where
  "resourceMonitorV2Read env d tr =
     (let c = LoadBalancerV2Client env tr (GetRegion env d);
          tr0 = tr @ [E_LoadBalancerV2Client (GetRegion env d) c]
      in case c of
        Some err \<Rightarrow>
          (diag_Errorf (''Error creating OpenStack networking client: '' @ errorString err), d, tr0)
      | None \<Rightarrow>
          let r = monitors_Get env tr0 (mon_Id d);
              tr1 = tr0 @ [E_monitors_Get (mon_Id d) r]
          in case r of
               Inl err \<Rightarrow>
                 (case CheckDeleted env d err ''monitor'' of
                    (e, d') \<Rightarrow> (diag_FromErr e, d', tr1))
             | Inr monitor \<Rightarrow>
                 let d1 = d\<lparr>mon_tenant_id := Some (m_ProjectID monitor),
                            mon_type := Some (m_Type monitor),
                            mon_delay := Some (m_Delay monitor),
                            mon_timeout := Some (m_Timeout monitor),
                            mon_max_retries := Some (m_MaxRetries monitor),
                            mon_max_retries_down := Some (m_MaxRetriesDown monitor),
                            mon_url_path := Some (m_URLPath monitor),
                            mon_http_method := Some (m_HTTPMethod monitor),
                            mon_expected_codes := Some (m_ExpectedCodes monitor),
                            mon_admin_state_up := Some (m_AdminStateUp monitor),
                            mon_name := Some (m_Name monitor)\<rparr>;
                     d2 = d1\<lparr>mon_region := Some (GetRegion env d1)\<rparr>;
                     d3 = (if length (m_Pools monitor) > 0 \<and> pid_ID (m_Pools monitor ! 0) \<noteq> []
                           then d2\<lparr>mon_pool_id := Some (pid_ID (m_Pools monitor ! 0))\<rparr>
                           else d2)
                 in ([], d3, tr1))"

text \<open>
  The function passed to \<open>resource.Retry\<close> in Create. It assigns the captured
  \<open>monitor\<close> (nil on an error) and records the call.
\<close>

definition create_attempt ::
  "lb_env \<Rightarrow> CreateOpts \<Rightarrow> lb_event list \<times> Monitor option
     \<Rightarrow> (gerror \<times> bool) option \<times> (lb_event list \<times> Monitor option)" where
  "create_attempt env createOpts s =
     (case s of (tr, monitor) \<Rightarrow>
        let r = monitors_Create env tr createOpts;
            tr' = tr @ [E_monitors_Create createOpts r]
        in case r of
             Inl err \<Rightarrow> (Some (err, checkForRetryableError env err), (tr', None))
           | Inr m \<Rightarrow> (None, (tr', Some m)))"

text \<open>
  The options Create builds before any call; \<open>AdminStateUp\<close> points to the local
  \<open>adminStateUp\<close>.
\<close>

definition monitor_createOpts :: "monitorData \<Rightarrow> CreateOpts" where
  "monitor_createOpts d =
     (let adminStateUp = getB (mon_admin_state_up d)
      in \<lparr>co_PoolID = getS (mon_pool_id d),
          co_TenantID = getS (mon_tenant_id d),
          co_Type = getS (mon_type d),
          co_Delay = getI (mon_delay d),
          co_Timeout = getI (mon_timeout d),
          co_MaxRetries = getI (mon_max_retries d),
          co_MaxRetriesDown = getI (mon_max_retries_down d),
          co_URLPath = getS (mon_url_path d),
          co_HTTPMethod = getS (mon_http_method d),
          co_ExpectedCodes = getS (mon_expected_codes d),
          co_Name = getS (mon_name d),
          co_AdminStateUp = Some adminStateUp\<rparr>)"

definition resourceMonitorV2Create ::
  "lb_env \<Rightarrow> monitorData \<Rightarrow> lb_event list \<Rightarrow> diagnostics \<times> monitorData \<times> lb_event list" where
  "resourceMonitorV2Create env d tr =
     (let c = LoadBalancerV2Client env tr (GetRegion env d);
          tr0 = tr @ [E_LoadBalancerV2Client (GetRegion env d) c]
      in case c of
        Some err \<Rightarrow>
          (diag_Errorf (''Error creating OpenStack networking client: '' @ errorString err), d, tr0)
      | None \<Rightarrow>
          let createOpts = monitor_createOpts d;
              poolID = getS (mon_pool_id d);
              r = pools_Get env tr0 poolID;
              tr1 = tr0 @ [E_pools_Get poolID r]
          in case r of
               Inl err \<Rightarrow>
                 (diag_Errorf (''Unable to retrieve parent openstack_lb_pool_v2 '' @ poolID @ '': ''
                               @ errorString err), d, tr1)
             | Inr parentPool \<Rightarrow>
                 let timeout = mon_Timeout d TimeoutCreate;
                     w = waitForLBV2Pool env tr1 parentPool ''ACTIVE'' (getLbPendingStatuses env) timeout;
                     tr2 = tr1 @ [E_waitForLBV2Pool parentPool ''ACTIVE'' (getLbPendingStatuses env) timeout w]
                 in case w of
                      Some err \<Rightarrow> (diag_FromErr (Some err), d, tr2)
                    | None \<Rightarrow>
                        (case Retry timeout (attempts_within env timeout) (create_attempt env createOpts)
                                None (tr2, None) of
                           (Some err, (tr3, monitor)) \<Rightarrow>
                             (diag_Errorf (''Unable to create openstack_lb_monitor_v2: ''
                                           @ errorString err), d, tr3)
                         | (None, (tr3, None)) \<Rightarrow>
                             ([''panic: nil pointer dereference''], d, tr3)
                         | (None, (tr3, Some monitor)) \<Rightarrow>
                             let w2 = waitForLBV2Monitor env tr3 parentPool monitor ''ACTIVE''
                                        (getLbPendingStatuses env) timeout;
                                 tr4 = tr3 @ [E_waitForLBV2Monitor parentPool monitor ''ACTIVE''
                                                (getLbPendingStatuses env) timeout w2]
                             in case w2 of
                                  Some err \<Rightarrow> (diag_FromErr (Some err), d, tr4)
                                | None \<Rightarrow>
                                    resourceMonitorV2Read env (d\<lparr>mon_Id := m_ID monitor\<rparr>) tr4))"

text \<open>The function passed to \<open>resource.Retry\<close> in Update; it captures nothing but \<open>err\<close>.\<close>

definition update_attempt ::
  "lb_env \<Rightarrow> string \<Rightarrow> UpdateOpts \<Rightarrow> lb_event list \<Rightarrow> (gerror \<times> bool) option \<times> lb_event list" where
  "update_attempt env monitorID opts tr =
     (let r = monitors_Update env tr monitorID opts;
          tr' = tr @ [E_monitors_Update monitorID opts r]
      in case r of
           Inl err \<Rightarrow> (Some (err, checkForRetryableError env err), tr')
         | Inr m \<Rightarrow> (None, tr'))"

text \<open>
  The nine \<open>if d.HasChange(...)\<close> blocks of Update, in the order of the source: the
  flag \<open>hasChange\<close> and the options built.
\<close>

definition update_opts :: "monitorData \<Rightarrow> bool \<times> UpdateOpts" where
  "update_opts d =
     (let s0 = (False, zero_UpdateOpts);
          s1 = (if mon_HasChange d ''url_path''
                then (True, (snd s0)\<lparr>uo_URLPath := getS (mon_url_path d)\<rparr>) else s0);
          s2 = (if mon_HasChange d ''expected_codes''
                then (True, (snd s1)\<lparr>uo_ExpectedCodes := getS (mon_expected_codes d)\<rparr>) else s1);
          s3 = (if mon_HasChange d ''delay''
                then (True, (snd s2)\<lparr>uo_Delay := getI (mon_delay d)\<rparr>) else s2);
          s4 = (if mon_HasChange d ''timeout''
                then (True, (snd s3)\<lparr>uo_Timeout := getI (mon_timeout d)\<rparr>) else s3);
          s5 = (if mon_HasChange d ''max_retries''
                then (True, (snd s4)\<lparr>uo_MaxRetries := getI (mon_max_retries d)\<rparr>) else s4);
          s6 = (if mon_HasChange d ''max_retries_down''
                then (True, (snd s5)\<lparr>uo_MaxRetriesDown := getI (mon_max_retries_down d)\<rparr>) else s5);
          s7 = (if mon_HasChange d ''admin_state_up''
                then (True, (snd s6)\<lparr>uo_AdminStateUp := Some (getB (mon_admin_state_up d))\<rparr>) else s6);
          s8 = (if mon_HasChange d ''name''
                then (True, (snd s7)\<lparr>uo_Name := Some (getS (mon_name d))\<rparr>) else s7);
          s9 = (if mon_HasChange d ''http_method''
                then (True, (snd s8)\<lparr>uo_HTTPMethod := getS (mon_http_method d)\<rparr>) else s8)
      in s9)"

definition resourceMonitorV2Update ::
  "lb_env \<Rightarrow> monitorData \<Rightarrow> lb_event list \<Rightarrow> diagnostics \<times> monitorData \<times> lb_event list" where
  "resourceMonitorV2Update env d tr =
     (let c = LoadBalancerV2Client env tr (GetRegion env d);
          tr0 = tr @ [E_LoadBalancerV2Client (GetRegion env d) c]
      in case c of
        Some err \<Rightarrow>
          (diag_Errorf (''Error creating OpenStack networking client: '' @ errorString err), d, tr0)
      | None \<Rightarrow>
          (case update_opts d of (hasChange, opts) \<Rightarrow>
             if \<not> hasChange then resourceMonitorV2Read env d tr0
             else
               let poolID = getS (mon_pool_id d);
                   r = pools_Get env tr0 poolID;
                   tr1 = tr0 @ [E_pools_Get poolID r]
               in case r of
                    Inl err \<Rightarrow>
                      (diag_Errorf (''Unable to retrieve parent openstack_lb_pool_v2 '' @ poolID
                                    @ '': '' @ errorString err), d, tr1)
                  | Inr parentPool \<Rightarrow>
                      let g = monitors_Get env tr1 (mon_Id d);
                          tr2 = tr1 @ [E_monitors_Get (mon_Id d) g]
                      in case g of
                           Inl err \<Rightarrow>
                             (diag_Errorf (''Unable to retrieve openstack_lb_monitor_v2 '' @ mon_Id d
                                           @ '': '' @ errorString err), d, tr2)
                         | Inr monitor \<Rightarrow>
                             let timeout = mon_Timeout d TimeoutUpdate;
                                 pend = getLbPendingStatuses env;
                                 w1 = waitForLBV2Pool env tr2 parentPool ''ACTIVE'' pend timeout;
                                 tr3 = tr2 @ [E_waitForLBV2Pool parentPool ''ACTIVE'' pend timeout w1]
                             in case w1 of
                                  Some err \<Rightarrow> (diag_FromErr (Some err), d, tr3)
                                | None \<Rightarrow>
                                    let w2 = waitForLBV2Monitor env tr3 parentPool monitor ''ACTIVE''
                                               pend timeout;
                                        tr4 = tr3 @ [E_waitForLBV2Monitor parentPool monitor ''ACTIVE''
                                                       pend timeout w2]
                                    in case w2 of
                                         Some err \<Rightarrow> (diag_FromErr (Some err), d, tr4)
                                       | None \<Rightarrow>
                                           (case Retry timeout (attempts_within env timeout)
                                                   (update_attempt env (mon_Id d) opts) None tr4 of
                                              (Some err, tr5) \<Rightarrow>
                                                (diag_Errorf (''Unable to update openstack_lb_monitor_v2 ''
                                                   @ mon_Id d @ '': '' @ errorString err), d, tr5)
                                            | (None, tr5) \<Rightarrow>
                                                let w3 = waitForLBV2Monitor env tr5 parentPool monitor
                                                           ''ACTIVE'' pend timeout;
                                                    tr6 = tr5 @ [E_waitForLBV2Monitor parentPool monitor
                                                                   ''ACTIVE'' pend timeout w3]
                                                in case w3 of
                                                     Some err \<Rightarrow> (diag_FromErr (Some err), d, tr6)
                                                   | None \<Rightarrow> resourceMonitorV2Read env d tr6)))"



text \<open>
  \<open>resourceMonitorV2Import\<close> returns the resource data and an error. \<open>parts[0]\<close> on an
  empty slice would panic; \<open>SplitN\<close> with a limit of 2 never returns one.
\<close>

definition resourceMonitorV2Import :: "monitorData \<Rightarrow> gerror + monitorData list" where
  "resourceMonitorV2Import d =
     (let parts = SplitN (mon_Id d) ''/'' 2 in
      case parts of
        [] \<Rightarrow> Inl (ErrOther ''panic: index out of range'')
      | monitorID # rest \<Rightarrow>
          if length monitorID = 0
          then Inl (fmt_Errorf ''Invalid format specified for openstack_lb_monitor_v2. Format must be <monitorID>[/<poolID>]'')
          else
            let d1 = d\<lparr>mon_Id := monitorID\<rparr>;
                d2 = (if length parts = 2 then d1\<lparr>mon_pool_id := Some (parts ! 1)\<rparr> else d1)
            in Inr [d2])"

section \<open>The database instance resource\<close>

record Flavor =
  fl_ID :: string

record DatastorePartial =
  dsp_Version :: string
  dsp_Type :: string

record Instance =
  i_ID :: string
  i_Name :: string
  i_Status :: string
  i_Flavor :: Flavor
  i_Datastore :: DatastorePartial

record DatastoreOpts =
  dso_Version :: string
  dso_Type :: string

record NetworkOpts =
  no_UUID :: string
  no_Port :: string
  no_V4FixedIP :: string
  no_V6FixedIP :: string

record db_CreateOpts =
  dbo_FlavorRef :: string
  dbo_Name :: string
  dbo_Size :: int
  dbo_Datastore :: "DatastoreOpts option"
  dbo_Networks :: "NetworkOpts list"

text \<open>The elements of the list attributes \<open>datastore\<close> and \<open>network\<close>.\<close>

record datastoreElem =
  ds_version :: string
  ds_type :: string

record networkElem =
  nw_uuid :: string
  nw_port :: string
  nw_fixed_ip_v4 :: string
  nw_fixed_ip_v6 :: string

datatype db_event =
    E_databaseV1Client string "gerror option"
  | E_instances_Create db_CreateOpts "gerror + Instance"
  | E_instances_Get string "gerror + Instance"
  | E_instances_Delete string "gerror option"

text \<open>
  The resource data of \<open>openstack_db_instance_v1\<close>. A list attribute that is not set
  reads as the empty list.
\<close>

record dbData =
  db_Id :: string
  db_region :: "string option"
  db_name :: "string option"
  db_flavor_id :: "string option"
  db_size :: "int option"
  db_datastore :: "datastoreElem list"
  db_network :: "networkElem list"
  db_Timeout :: "timeoutKey \<Rightarrow> nat"

text \<open>
  The parameters of the adapter: the gophercloud calls, the helpers defined in other
  files, the number of refreshes that fit into a timeout, and what \<open>d.Set\<close> of the
  plugin SDK stores in \<open>flavor_id\<close> and \<open>datastore\<close> when it is given the structures
  \<open>instance.Flavor\<close> and \<open>instance.Datastore\<close> (from the value written and the value
  stored before).
\<close>

record db_env =
  databaseV1Client :: "db_event list \<Rightarrow> string \<Rightarrow> gerror option"
  db_GetRegion :: "dbData \<Rightarrow> string"
  db_CheckDeleted :: "dbData \<Rightarrow> gerror \<Rightarrow> string \<Rightarrow> gerror option \<times> dbData"
  instances_Create :: "db_event list \<Rightarrow> db_CreateOpts \<Rightarrow> gerror + Instance"
  instances_Get :: "db_event list \<Rightarrow> string \<Rightarrow> gerror + Instance"
  instances_Delete :: "db_event list \<Rightarrow> string \<Rightarrow> gerror option"
  refreshes_within :: "nat \<Rightarrow> nat"
  Set_flavor_id :: "Flavor \<Rightarrow> string option \<Rightarrow> string option"
  Set_datastore :: "DatastorePartial \<Rightarrow> datastoreElem list \<Rightarrow> datastoreElem list"

text \<open>
  \<open>DatabaseInstanceV1StateRefreshFunc\<close>: one refresh. On a 404 the function returns the
  nil \<open>*Instance\<close> as an \<open>interface{}\<close>, which is not a nil interface: the object counts
  as found.
\<close>

definition DatabaseInstanceV1StateRefreshFunc ::
  "db_env \<Rightarrow> string \<Rightarrow> db_event list \<Rightarrow> (bool \<times> string \<times> gerror option) \<times> db_event list" where
  "DatabaseInstanceV1StateRefreshFunc env instanceID tr =
     (let r = instances_Get env tr instanceID;
          tr' = tr @ [E_instances_Get instanceID r]
      in case r of
           Inl err \<Rightarrow>
             (case err of
                ErrDefault404 m \<Rightarrow> ((True, ''DELETED'', None), tr')
              | _ \<Rightarrow> ((False, [], Some err), tr'))
         | Inr i \<Rightarrow>
             if i_Status i = ''error''
             then ((True, i_Status i, Some (fmt_Errorf ''There was an error creating the instance.'')), tr')
             else ((True, i_Status i, None), tr'))"

definition resourceDatabaseInstanceV1Read ::
  "db_env \<Rightarrow> dbData \<Rightarrow> db_event list \<Rightarrow> gerror option \<times> dbData \<times> db_event list" where
  "resourceDatabaseInstanceV1Read env d tr =
     (let c = databaseV1Client env tr (db_GetRegion env d);
          tr0 = tr @ [E_databaseV1Client (db_GetRegion env d) c]
      in case c of
           Some err \<Rightarrow>
             (Some (fmt_Errorf (''Error creating OpenStack cloud database client: '' @ errorString err)),
              d, tr0)
         | None \<Rightarrow>
             let r = instances_Get env tr0 (db_Id d);
                 tr1 = tr0 @ [E_instances_Get (db_Id d) r]
             in case r of
                  Inl err \<Rightarrow>
                    (case db_CheckDeleted env d err ''instance'' of (e, d') \<Rightarrow> (e, d', tr1))
                | Inr instance \<Rightarrow>
                    let d1 = d\<lparr>db_name := Some (i_Name instance)\<rparr>;
                        d2 = d1\<lparr>db_flavor_id := Set_flavor_id env (i_Flavor instance) (db_flavor_id d1)\<rparr>;
                        d3 = d2\<lparr>db_datastore := Set_datastore env (i_Datastore instance) (db_datastore d2)\<rparr>;
                        d4 = d3\<lparr>db_region := Some (db_GetRegion env d3)\<rparr>
                    in (None, d4, tr1))"

text \<open>The options Create builds before the call of \<open>instances.Create\<close>.\<close>

definition db_createOpts :: "dbData \<Rightarrow> db_CreateOpts" where
  "db_createOpts d =
     (let datastore =
            (case db_datastore d of
               [] \<Rightarrow> \<lparr>dso_Version = [], dso_Type = []\<rparr>
             | pV # _ \<Rightarrow> \<lparr>dso_Version = ds_version pV, dso_Type = ds_type pV\<rparr>);
          networks =
            (case db_network d of
               [] \<Rightarrow> []
             | pV # _ \<Rightarrow> [\<lparr>no_UUID = nw_uuid pV, no_Port = nw_port pV,
                           no_V4FixedIP = nw_fixed_ip_v4 pV, no_V6FixedIP = nw_fixed_ip_v6 pV\<rparr>])
      in \<lparr>dbo_FlavorRef = getS (db_flavor_id d),
          dbo_Name = getS (db_name d),
          dbo_Size = getI (db_size d),
          dbo_Datastore = Some datastore,
          dbo_Networks = networks\<rparr>)"

definition resourceDatabaseInstanceV1Create ::
  "db_env \<Rightarrow> dbData \<Rightarrow> db_event list \<Rightarrow> gerror option \<times> dbData \<times> db_event list" where
  "resourceDatabaseInstanceV1Create env d tr =
     (let c = databaseV1Client env tr (db_GetRegion env d);
          tr0 = tr @ [E_databaseV1Client (db_GetRegion env d) c]
      in case c of
           Some err \<Rightarrow>
             (Some (fmt_Errorf (''Error creating cloud database client: '' @ errorString err)), d, tr0)
         | None \<Rightarrow>
             let createOpts = db_createOpts d;
                 r = instances_Create env tr0 createOpts;
                 tr1 = tr0 @ [E_instances_Create createOpts r]
             in case r of
                  Inl err \<Rightarrow>
                    (Some (fmt_Errorf (''Error creating cloud database instance: '' @ errorString err)),
                     d, tr1)
                | Inr instance \<Rightarrow>
                    let stateConf =
                          \<lparr>Pending = [''BUILD''], Target = [''ACTIVE''],
                           Timeout = db_Timeout d TimeoutCreate,
                           Delay = 10 * Second, MinTimeout = 3 * Second\<rparr>
                    in case WaitForState (refreshes_within env) stateConf
                              (DatabaseInstanceV1StateRefreshFunc env (i_ID instance)) tr1 of
                         (Some err, tr2) \<Rightarrow>
                           (Some (fmt_Errorf (''Error waiting for instance ('' @ i_ID instance
                                   @ '') to become ready: '' @ errorString err)), d, tr2)
                       | (None, tr2) \<Rightarrow>
                           resourceDatabaseInstanceV1Read env (d\<lparr>db_Id := i_ID instance\<rparr>) tr2)"


section \<open>The port security-group association resource\<close>

record Port =
  port_ID :: string
  port_SecurityGroups :: "string list"

record ports_UpdateOpts =
  puo_SecurityGroups :: "string list option"

datatype port_event =
    E_networkingV2Client string "gerror option"
  | E_ports_Get string "gerror + Port"
  | E_ports_Update string ports_UpdateOpts "gerror + Port"
  | E_resourceNetworkingPortV2Read "gerror option"

text \<open>
  The schema declares \<open>enforce\<close> as \<open>Type: schema.TypeBool, Optional: true, Default: true\<close>:
  the plugin SDK fills in the default before an adapter runs. \<open>schema_enforce c\<close> is the
  value that \<open>d.Get("enforce")\<close> has for a configuration that sets \<open>enforce\<close> to \<open>v\<close>
  (\<open>c = Some v\<close>) or does not mention it (\<open>c = None\<close>).
\<close>

definition schema_enforce :: "bool option \<Rightarrow> bool" where
  "schema_enforce c = (case c of None \<Rightarrow> True | Some v \<Rightarrow> v)"

text \<open>
  The resource data of \<open>openstack_networking_port_secgroup_associate_v2\<close>. A set
  attribute is held as the list that \<open>(*schema.Set).List()\<close> returns. \<open>enforce\<close> is
  always set, by the configuration or by the default of the schema (the resource has no
  importer), so it is a \<open>bool\<close>. \<open>psg_old_security_group_ids\<close> is the old value that
  \<open>d.GetChange("security_group_ids")\<close> returns, and \<open>psg_HasChange\<close> what the plugin
  SDK answers to \<open>d.HasChange(key)\<close>.
\<close>

record psgData =
  psg_Id :: string
  psg_region :: "string option"
  psg_port_id :: "string option"
  psg_security_group_ids :: "string list"
  psg_enforce :: bool
  psg_all_security_group_ids :: "string list"
  psg_old_security_group_ids :: "string list"
  psg_HasChange :: "string \<Rightarrow> bool"

text \<open>
  The parameters: the gophercloud calls and the helpers defined in other files.
  \<open>sliceUnion\<close> and \<open>resourceNetworkingPortV2Read\<close> (the Read of the port resource,
  which Update ends with) are two of them. \<open>Set_of vs\<close> is the list of the
  \<open>schema.Set\<close> built from the values \<open>vs\<close>.
\<close>

record port_env =
  networkingV2Client :: "port_event list \<Rightarrow> string \<Rightarrow> gerror option"
  psg_GetRegion :: "psgData \<Rightarrow> string"
  psg_CheckDeleted :: "psgData \<Rightarrow> gerror \<Rightarrow> string \<Rightarrow> gerror option \<times> psgData"
  ports_Get :: "port_event list \<Rightarrow> string \<Rightarrow> gerror + Port"
  ports_Update :: "port_event list \<Rightarrow> string \<Rightarrow> ports_UpdateOpts \<Rightarrow> gerror + Port"
  sliceUnion :: "string list \<Rightarrow> string list \<Rightarrow> string list"
  Set_of :: "string list \<Rightarrow> string list"
  resourceNetworkingPortV2Read :: "port_event list \<Rightarrow> psgData \<Rightarrow> gerror option \<times> psgData"

text \<open>
  \<open>expandToStringSlice\<close> turns the \<open>[]interface{}\<close> of a set of strings into a
  \<open>[]string\<close>; on a list of strings it is the identity.
\<close>

definition expandToStringSlice :: "string list \<Rightarrow> string list" where
  "expandToStringSlice v = v"

definition resourceNetworkingPortSecGroupAssociateV2Read ::
  "port_env \<Rightarrow> psgData \<Rightarrow> port_event list \<Rightarrow> gerror option \<times> psgData \<times> port_event list" where
  "resourceNetworkingPortSecGroupAssociateV2Read env d tr =
     (let c = networkingV2Client env tr (psg_GetRegion env d);
          tr0 = tr @ [E_networkingV2Client (psg_GetRegion env d) c]
      in case c of
           Some err \<Rightarrow>
             (Some (fmt_Errorf (''Error creating OpenStack networking client: '' @ errorString err)),
              d, tr0)
         | None \<Rightarrow>
             let r = ports_Get env tr0 (psg_Id d);
                 tr1 = tr0 @ [E_ports_Get (psg_Id d) r]
             in case r of
                  Inl err \<Rightarrow>
                    (case psg_CheckDeleted env d err ''port'' of (e, d') \<Rightarrow> (e, d', tr1))
                | Inr port \<Rightarrow>
                    let d1 = (case GetOkB (Some (psg_enforce d)) of
                                (v, ok) \<Rightarrow>
                                  if ok \<and> v = True
                                  then d\<lparr>psg_security_group_ids := Set_of env (port_SecurityGroups port)\<rparr>
                                  else d);
                        d2 = d1\<lparr>psg_all_security_group_ids := Set_of env (port_SecurityGroups port)\<rparr>;
                        d3 = d2\<lparr>psg_region := Some (psg_GetRegion env d2)\<rparr>
                    in (None, d3, tr1))"

text \<open>
  Create. \<open>d.Set("old_security_group_ids", ...)\<close> names an attribute that the schema
  does not have: the plugin SDK rejects it, the adapter drops the error, and the
  resource data stays as it is.
\<close>

definition resourceNetworkingPortSecGroupAssociateV2Create ::
  "port_env \<Rightarrow> psgData \<Rightarrow> port_event list \<Rightarrow> gerror option \<times> psgData \<times> port_event list" where
  "resourceNetworkingPortSecGroupAssociateV2Create env d tr =
     (let c = networkingV2Client env tr (psg_GetRegion env d);
          tr0 = tr @ [E_networkingV2Client (psg_GetRegion env d) c]
      in case c of
           Some err \<Rightarrow>
             (Some (fmt_Errorf (''Error creating OpenStack networking client: '' @ errorString err)),
              d, tr0)
         | None \<Rightarrow>
             let securityGroups = expandToStringSlice (psg_security_group_ids d);
                 portID = getS (psg_port_id d);
                 r = ports_Get env tr0 portID;
                 tr1 = tr0 @ [E_ports_Get portID r]
             in case r of
                  Inl err \<Rightarrow>
                    (Some (fmt_Errorf (''Unable to get '' @ portID @ '' Port: '' @ errorString err)),
                     d, tr1)
                | Inr port \<Rightarrow>
                    let updateOpts =
                          (case GetOkB (Some (psg_enforce d)) of
                             (v, ok) \<Rightarrow>
                               if ok \<and> v = True
                               then \<lparr>puo_SecurityGroups = Some securityGroups\<rparr>
                               else \<lparr>puo_SecurityGroups =
                                       Some (sliceUnion env (port_SecurityGroups port) securityGroups)\<rparr>);
                        u = ports_Update env tr1 portID updateOpts;
                        tr2 = tr1 @ [E_ports_Update portID updateOpts u]
                    in case u of
                         Inl err \<Rightarrow>
                           (Some (fmt_Errorf (''Error associating '' @ portID @ '' port with ''
                                   @ [CHR 0x27] @ Join securityGroups '','' @ [CHR 0x27]
                                   @ '' security groups: '' @ errorString err)), d, tr2)
                       | Inr p \<Rightarrow>
                           resourceNetworkingPortSecGroupAssociateV2Read env (d\<lparr>psg_Id := portID\<rparr>) tr2)"



section \<open>The image IDs data source\<close>

record Image =
  img_ID :: string
  img_Name :: string

record ListOpts =
  lo_Name :: string
  lo_Visibility :: string
  lo_Owner :: string
  lo_Status :: string
  lo_SizeMin :: int
  lo_SizeMax :: int
  lo_Sort :: string
  lo_SortKey :: string
  lo_SortDir :: string
  lo_Tags :: "string list"
  lo_MemberStatus :: string

datatype img_event =
    E_ImageV2Client string "gerror option"
  | E_images_List ListOpts "gerror option"

text \<open>
  The resource data of \<open>openstack_images_image_ids_v2\<close>. The defaults of the schema
  (\<open>sort_key\<close>, \<open>sort_direction\<close>) are filled in by the plugin SDK before the adapter
  runs; here they are values like any other.
\<close>

record idsData =
  ids_Id :: string
  ids_region :: "string option"
  ids_name :: "string option"
  ids_visibility :: "string option"
  ids_member_status :: "string option"
  ids_owner :: "string option"
  ids_size_min :: "int option"
  ids_size_max :: "int option"
  ids_sort :: "string option"
  ids_sort_key :: "string option"
  ids_sort_direction :: "string option"
  ids_tag :: "string option"
  ids_properties :: "(string \<times> string) list"
  ids_name_regex :: "string option"
  ids_ids :: "string list"

text \<open>
  The parameters: the gophercloud calls (\<open>images.List(...).AllPages()\<close> with pages of
  type \<open>'p\<close>, \<open>images.ExtractImages\<close>), the helpers defined in other files,
  \<open>hashcode.String\<close> and the decimal rendering of \<open>fmt.Sprintf("%d", ...)\<close>.
\<close>

record 'p img_env =
  ImageV2Client :: "img_event list \<Rightarrow> string \<Rightarrow> gerror option"
  ids_GetRegion :: "idsData \<Rightarrow> string"
  images_List_AllPages :: "img_event list \<Rightarrow> ListOpts \<Rightarrow> gerror + 'p"
  images_ExtractImages :: "'p \<Rightarrow> gerror + Image list"
  resourceImagesImageV2VisibilityFromString :: "string \<Rightarrow> string"
  resourceImagesImageV2MemberStatusFromString :: "string \<Rightarrow> string"
  resourceImagesImageV2ExpandProperties :: "(string \<times> string) list \<Rightarrow> (string \<times> string) list"
  imagesFilterByProperties :: "Image list \<Rightarrow> (string \<times> string) list \<Rightarrow> Image list"
  imagesFilterByRegex :: "Image list \<Rightarrow> string \<Rightarrow> Image list"
  hashcode_String :: "string \<Rightarrow> int"
  Sprintf_d :: "int \<Rightarrow> string"

definition ImageStatusActive :: string where
  "ImageStatusActive = ''active''"

definition dataSourceImagesImageIdsV2Read ::
  "'p img_env \<Rightarrow> idsData \<Rightarrow> img_event list \<Rightarrow> gerror option \<times> idsData \<times> img_event list" where
  "dataSourceImagesImageIdsV2Read env d tr =
     (let c = ImageV2Client env tr (ids_GetRegion env d);
          tr0 = tr @ [E_ImageV2Client (ids_GetRegion env d) c]
      in case c of
           Some err \<Rightarrow>
             (Some (fmt_Errorf (''Error creating OpenStack image client: '' @ errorString err)), d, tr0)
         | None \<Rightarrow>
             let nameOk = snd (GetOkS (ids_name d));
                 nameRegexOk = snd (GetOkS (ids_name_regex d))
             in if nameOk \<and> nameRegexOk
                then (Some (fmt_Errorf ''Attributes name and name_regexp can not be used at the same time''),
                      d, tr0)
                else
                  let sortOk = snd (GetOkS (ids_sort d));
                      sortKeyValue = (if sortOk then [] else getS (ids_sort_key d));
                      sortDirectionValue = (if sortOk then [] else getS (ids_sort_direction d));
                      visibility = resourceImagesImageV2VisibilityFromString env (getS (ids_visibility d));
                      member_status =
                        resourceImagesImageV2MemberStatusFromString env (getS (ids_member_status d));
                      properties = resourceImagesImageV2ExpandProperties env (ids_properties d);
                      tags = (if getS (ids_tag d) \<noteq> [] then [getS (ids_tag d)] else []);
                      listOpts =
                        \<lparr>lo_Name = getS (ids_name d),
                         lo_Visibility = visibility,
                         lo_Owner = getS (ids_owner d),
                         lo_Status = ImageStatusActive,
                         lo_SizeMin = getI (ids_size_min d),
                         lo_SizeMax = getI (ids_size_max d),
                         lo_Sort = getS (ids_sort d),
                         lo_SortKey = sortKeyValue,
                         lo_SortDir = sortDirectionValue,
                         lo_Tags = tags,
                         lo_MemberStatus = member_status\<rparr>;
                      r = images_List_AllPages env tr0 listOpts;
                      tr1 = tr0 @ [E_images_List listOpts (case r of Inl e \<Rightarrow> Some e | Inr p \<Rightarrow> None)]
                  in case r of
                       Inl err \<Rightarrow>
                         (Some (fmt_Errorf (''Unable to list images in openstack_images_image_ids_v2: ''
                                 @ errorString err)), d, tr1)
                     | Inr allPages \<Rightarrow>
                         (case images_ExtractImages env allPages of
                            Inl err \<Rightarrow>
                              (Some (fmt_Errorf (''Unable to retrieve images in openstack_images_image_ids_v2: ''
                                      @ errorString err)), d, tr1)
                          | Inr allImages \<Rightarrow>
                              let allImages1 = imagesFilterByProperties env allImages properties;
                                  allImages2 =
                                    (if nameRegexOk
                                     then imagesFilterByRegex env allImages1 (getS (ids_name_regex d))
                                     else allImages1);
                                  imageIDs = map img_ID allImages2
                              in (None,
                                  d\<lparr>ids_Id := Sprintf_d env (hashcode_String env (Join imageIDs '','')),
                                    ids_ids := imageIDs\<rparr>,
                                  tr1)))"

section \<open>The image membership resource\<close>











section \<open>The block storage quota set resource\<close>












section \<open>The networking quota resource\<close>












section \<open>The object storage temporary URL resource\<close>







section \<open>Reading a trace\<close>

text \<open>Which call an event of the load-balancer trace records.\<close>

fun is_pools_Get :: "lb_event \<Rightarrow> bool" where
  "is_pools_Get (E_pools_Get poolID r) = True"
| "is_pools_Get ev = False"

fun is_waitForLBV2Pool :: "lb_event \<Rightarrow> bool" where
  "is_waitForLBV2Pool (E_waitForLBV2Pool p st pend t r) = True"
| "is_waitForLBV2Pool ev = False"

fun is_waitForLBV2Monitor :: "lb_event \<Rightarrow> bool" where
  "is_waitForLBV2Monitor (E_waitForLBV2Monitor p m st pend t r) = True"
| "is_waitForLBV2Monitor ev = False"

fun is_monitors_Create :: "lb_event \<Rightarrow> bool" where
  "is_monitors_Create (E_monitors_Create opts r) = True"
| "is_monitors_Create ev = False"

fun is_monitors_Update :: "lb_event \<Rightarrow> bool" where
  "is_monitors_Update (E_monitors_Update monitorID opts r) = True"
| "is_monitors_Update ev = False"

text \<open>The calls of \<open>resourceMonitorV2Read\<close>: the client constructor and \<open>monitors.Get\<close>.\<close>

fun is_Read_call :: "lb_event \<Rightarrow> bool" where
  "is_Read_call (E_LoadBalancerV2Client region r) = True"
| "is_Read_call (E_monitors_Get monitorID r) = True"
| "is_Read_call ev = False"

text \<open>A call that failed: its recorded result is an error.\<close>

fun failed_pool_step :: "lb_event \<Rightarrow> bool" where
  "failed_pool_step (E_pools_Get poolID (Inl e)) = True"
| "failed_pool_step (E_waitForLBV2Pool p st pend t (Some e)) = True"
| "failed_pool_step ev = False"

text \<open>The attributes that \<open>resourceMonitorV2Update\<close> tests with \<open>d.HasChange\<close>.\<close>

definition monitor_tracked :: "string list" where
  "monitor_tracked =
     [''url_path'', ''expected_codes'', ''delay'', ''timeout'', ''max_retries'',
      ''max_retries_down'', ''admin_state_up'', ''name'', ''http_method'']"

text \<open>The events of the database trace that are not a call of \<open>instances.Create\<close>.\<close>

fun is_instances_Create :: "db_event \<Rightarrow> bool" where
  "is_instances_Create (E_instances_Create opts r) = True"
| "is_instances_Create ev = False"

fun is_ports_Update :: "port_event \<Rightarrow> bool" where
  "is_ports_Update (E_ports_Update portID opts r) = True"
| "is_ports_Update ev = False"

fun is_images_List :: "img_event \<Rightarrow> bool" where
  "is_images_List (E_images_List opts r) = True"
| "is_images_List ev = False"




fun is_monitors_Delete :: "lb_event \<Rightarrow> bool" where
  "is_monitors_Delete (E_monitors_Delete monitorID r) = True"
| "is_monitors_Delete ev = False"





section \<open>Concrete inputs\<close>

text \<open>
  A monitor configuration and an OpenStack that answers every call with success: the
  created monitor carries the options it was created with, under the ID \<open>mon-1\<close>.
  \<open>CheckDeleted\<close> here clears the ID on a 404 and returns any other error wrapped.
\<close>

definition ex_monitorData :: monitorData where
  "ex_monitorData =
     \<lparr>mon_Id = [], mon_region = None, mon_pool_id = Some ''pool-1'', mon_name = Some ''probe'',
      mon_tenant_id = None, mon_type = Some ''HTTP'', mon_delay = Some 5, mon_timeout = Some 3,
      mon_max_retries = Some 2, mon_max_retries_down = None, mon_url_path = Some ''/health'',
      mon_http_method = Some ''GET'', mon_expected_codes = Some ''200'',
      mon_admin_state_up = Some True,
      mon_HasChange = (\<lambda>k. False), mon_Timeout = (\<lambda>k. 600 * Second)\<rparr>"

definition ex_Monitor :: Monitor where
  "ex_Monitor =
     \<lparr>m_ID = ''mon-1'', m_Name = ''probe'', m_ProjectID = ''tenant-1'', m_Type = ''HTTP'',
      m_Delay = 5, m_Timeout = 3, m_MaxRetries = 2, m_MaxRetriesDown = 3,
      m_URLPath = ''/health'', m_HTTPMethod = ''GET'', m_ExpectedCodes = ''200'',
      m_AdminStateUp = True, m_Pools = [\<lparr>pid_ID = ''pool-1''\<rparr>]\<rparr>"

definition ex_CheckDeleted :: "monitorData \<Rightarrow> gerror \<Rightarrow> string \<Rightarrow> gerror option \<times> monitorData" where
  "ex_CheckDeleted d err msg =
     (case err of
        ErrDefault404 m \<Rightarrow> (None, d\<lparr>mon_Id := []\<rparr>)
      | _ \<Rightarrow> (Some (fmt_Errorf (msg @ '' '' @ mon_Id d @ '': '' @ errorString err)), d))"

definition ex_lb_env :: lb_env where
  "ex_lb_env =
     \<lparr>LoadBalancerV2Client = (\<lambda>tr region. None),
      GetRegion = (\<lambda>d. ''RegionOne''),
      CheckDeleted = ex_CheckDeleted,
      pools_Get = (\<lambda>tr poolID. Inr \<lparr>pool_ID = poolID\<rparr>),
      monitors_Create = (\<lambda>tr opts. Inr ex_Monitor),
      monitors_Get = (\<lambda>tr monitorID. Inr ex_Monitor),
      monitors_Update = (\<lambda>tr monitorID opts. Inr ex_Monitor),
      monitors_Delete = (\<lambda>tr monitorID. None),
      waitForLBV2Pool = (\<lambda>tr p st pend t. None),
      waitForLBV2Monitor = (\<lambda>tr p m st pend t. None),
      getLbPendingStatuses = [''PENDING_CREATE'', ''PENDING_UPDATE''],
      getLbPendingDeleteStatuses = [''PENDING_UPDATE'', ''PENDING_DELETE'', ''ACTIVE''],
      checkForRetryableError = (\<lambda>e. case e of ErrOther m \<Rightarrow> m = ''409'' | _ \<Rightarrow> False),
      attempts_within = (\<lambda>t. Suc (Suc (Suc 0)))\<rparr>"

text \<open>An OpenStack where the parent pool cannot be retrieved.\<close>

definition ex_lb_env_no_pool :: lb_env where
  "ex_lb_env_no_pool =
     ex_lb_env\<lparr>pools_Get := (\<lambda>tr poolID. Inl (ErrDefault404 ''Resource not found''))\<rparr>"

text \<open>
  An OpenStack without an endpoint for the client, one where the monitor cannot be
  retrieved, one where the parent pool and one where the monitor stays in
  \<open>PENDING_UPDATE\<close> until the wait gives up, and a timeout that leaves no room for an
  attempt.
\<close>

definition ex_lb_env_no_client :: lb_env where
  "ex_lb_env_no_client =
     ex_lb_env\<lparr>LoadBalancerV2Client := (\<lambda>tr region. Some (ErrOther ''No suitable endpoint''))\<rparr>"

definition ex_lb_env_no_monitor :: lb_env where
  "ex_lb_env_no_monitor =
     ex_lb_env\<lparr>monitors_Get := (\<lambda>tr monitorID. Inl (ErrDefault404 ''Resource not found''))\<rparr>"

definition ex_lb_env_pool_stuck :: lb_env where
  "ex_lb_env_pool_stuck =
     ex_lb_env\<lparr>waitForLBV2Pool :=
       (\<lambda>tr p st pend t. Some (TimeoutError [st] ''PENDING_UPDATE'' t))\<rparr>"

definition ex_lb_env_monitor_stuck :: lb_env where
  "ex_lb_env_monitor_stuck =
     ex_lb_env\<lparr>waitForLBV2Monitor :=
       (\<lambda>tr p m st pend t. Some (TimeoutError [st] ''PENDING_UPDATE'' t))\<rparr>"

definition ex_lb_env_no_time :: lb_env where
  "ex_lb_env_no_time = ex_lb_env\<lparr>attempts_within := (\<lambda>t. 0)\<rparr>"

text \<open>The same configuration in an Update where \<open>url_path\<close> has changed.\<close>

definition ex_monitorData_changed :: monitorData where
  "ex_monitorData_changed =
     ex_monitorData\<lparr>mon_Id := ''mon-1'', mon_HasChange := (\<lambda>k. k = ''url_path'')\<rparr>"

text \<open>
  A database instance configuration, and an OpenStack that creates the instance
  \<open>inst-1\<close> and reports it in \<open>BUILD\<close> at the first refresh and \<open>ACTIVE\<close> from the
  second on.
\<close>

definition ex_dbData :: dbData where
  "ex_dbData =
     \<lparr>db_Id = [], db_region = None, db_name = Some ''db1'', db_flavor_id = Some ''flavor-1'',
      db_size = Some 10, db_datastore = [\<lparr>ds_version = ''5.7'', ds_type = ''mysql''\<rparr>],
      db_network = [], db_Timeout = (\<lambda>k. 600 * Second)\<rparr>"

definition ex_Instance :: "string \<Rightarrow> Instance" where
  "ex_Instance status =
     \<lparr>i_ID = ''inst-1'', i_Name = ''db1'', i_Status = status, i_Flavor = \<lparr>fl_ID = ''flavor-1''\<rparr>,
      i_Datastore = \<lparr>dsp_Version = ''5.7'', dsp_Type = ''mysql''\<rparr>\<rparr>"

definition ex_db_CheckDeleted :: "dbData \<Rightarrow> gerror \<Rightarrow> string \<Rightarrow> gerror option \<times> dbData" where
  "ex_db_CheckDeleted d err msg =
     (case err of
        ErrDefault404 m \<Rightarrow> (None, d\<lparr>db_Id := []\<rparr>)
      | _ \<Rightarrow> (Some (fmt_Errorf (msg @ '' '' @ db_Id d @ '': '' @ errorString err)), d))"

definition ex_db_env :: db_env where
  "ex_db_env =
     \<lparr>databaseV1Client = (\<lambda>tr region. None),
      db_GetRegion = (\<lambda>d. ''RegionOne''),
      db_CheckDeleted = ex_db_CheckDeleted,
      instances_Create = (\<lambda>tr opts. Inr (ex_Instance ''BUILD'')),
      instances_Get = (\<lambda>tr instanceID.
         Inr (ex_Instance (if length tr < 3 then ''BUILD'' else ''ACTIVE''))),
      instances_Delete = (\<lambda>tr instanceID. None),
      refreshes_within = (\<lambda>t. Suc (Suc (Suc 0))),
      Set_flavor_id = (\<lambda>v old. old),
      Set_datastore = (\<lambda>v old. old)\<rparr>"



text \<open>An OpenStack where the instance stays in \<open>BUILD\<close>.\<close>

definition ex_db_env_slow :: db_env where
  "ex_db_env_slow =
     ex_db_env\<lparr>instances_Get := (\<lambda>tr instanceID. Inr (ex_Instance ''BUILD''))\<rparr>"


text \<open>
  A port with the security groups \<open>sg-a\<close> and \<open>sg-b\<close>, a configuration that associates
  \<open>sg-b\<close> and \<open>sg-c\<close> with it, and a \<open>sliceUnion\<close> that returns the elements of its two
  arguments without repetition.
\<close>

definition ex_Port :: Port where
  "ex_Port = \<lparr>port_ID = ''port-1'', port_SecurityGroups = [''sg-a'', ''sg-b'']\<rparr>"

definition ex_psgData :: "bool \<Rightarrow> psgData" where
  "ex_psgData enforce =
     \<lparr>psg_Id = [], psg_region = None, psg_port_id = Some ''port-1'',
      psg_security_group_ids = [''sg-b'', ''sg-c''], psg_enforce = enforce,
      psg_all_security_group_ids = [], psg_old_security_group_ids = [],
      psg_HasChange = (\<lambda>k. False)\<rparr>"

definition ex_psg_CheckDeleted :: "psgData \<Rightarrow> gerror \<Rightarrow> string \<Rightarrow> gerror option \<times> psgData" where
  "ex_psg_CheckDeleted d err msg =
     (case err of
        ErrDefault404 m \<Rightarrow> (None, d\<lparr>psg_Id := []\<rparr>)
      | _ \<Rightarrow> (Some (fmt_Errorf (msg @ '' '' @ psg_Id d @ '': '' @ errorString err)), d))"

definition ex_port_env :: port_env where
  "ex_port_env =
     \<lparr>networkingV2Client = (\<lambda>tr region. None),
      psg_GetRegion = (\<lambda>d. ''RegionOne''),
      psg_CheckDeleted = ex_psg_CheckDeleted,
      ports_Get = (\<lambda>tr portID. Inr ex_Port),
      ports_Update = (\<lambda>tr portID opts. Inr ex_Port),
      sliceUnion = (\<lambda>a b. remdups (a @ b)),
      Set_of = remdups,
      resourceNetworkingPortV2Read = (\<lambda>tr d. (None, d))\<rparr>"


text \<open>
  An image data source configuration, and an OpenStack with the two images \<open>img-1\<close> and
  \<open>img-2\<close>; pages are image lists, and the filters keep every image.
\<close>

definition ex_idsData :: "string option \<Rightarrow> string option \<Rightarrow> idsData" where
  "ex_idsData name name_regex =
     \<lparr>ids_Id = [], ids_region = None, ids_name = name, ids_visibility = None,
      ids_member_status = None, ids_owner = None, ids_size_min = None, ids_size_max = None,
      ids_sort = None, ids_sort_key = Some ''name'', ids_sort_direction = Some ''asc'',
      ids_tag = None, ids_properties = [], ids_name_regex = name_regex, ids_ids = []\<rparr>"

definition ex_img_env :: "(Image list) img_env" where
  "ex_img_env =
     \<lparr>ImageV2Client = (\<lambda>tr region. None),
      ids_GetRegion = (\<lambda>d. ''RegionOne''),
      images_List_AllPages = (\<lambda>tr opts.
         Inr [\<lparr>img_ID = ''img-1'', img_Name = ''cirros''\<rparr>, \<lparr>img_ID = ''img-2'', img_Name = ''ubuntu''\<rparr>]),
      images_ExtractImages = (\<lambda>p. Inr p),
      resourceImagesImageV2VisibilityFromString = (\<lambda>v. v),
      resourceImagesImageV2MemberStatusFromString = (\<lambda>v. v),
      resourceImagesImageV2ExpandProperties = (\<lambda>m. m),
      imagesFilterByProperties = (\<lambda>images props. images),
      imagesFilterByRegex = (\<lambda>images re. images),
      hashcode_String = (\<lambda>s. int (length s)),
      Sprintf_d = (\<lambda>n. if n = 11 then ''11'' else ''0'')\<rparr>"

































section \<open>Properties of the string functions\<close>

lemma Index_None_iff: "substr \<noteq> [] \<Longrightarrow> Index s substr = None \<longleftrightarrow> \<not> sublist substr s"
  by (induction s) (auto simp: sublist_Cons_right)

lemma Index_append_first:
  assumes "\<And>ys. ys \<noteq> [] \<Longrightarrow> suffix ys a \<Longrightarrow> \<not> prefix sep (ys @ t)"
      and "prefix sep t"
  shows "Index (a @ t) sep = Some (length a)"
  using assms
proof (induction a)
  case Nil
  then show ?case by (cases t) auto
next
  case (Cons c cs)
  have np: "\<not> prefix sep ((c # cs) @ t)"
    using Cons.prems(1)[of "c # cs"] by simp
  have "Index (cs @ t) sep = Some (length cs)"
  proof (rule Cons.IH)
    fix ys assume "ys \<noteq> []" "suffix ys cs"
    then show "\<not> prefix sep (ys @ t)"
      using Cons.prems(1)[of ys] by (simp add: suffix_Cons)
  qed (rule Cons.prems(2))
  with np show ?case by simp
qed

lemma dash_count:
  assumes "sublist ''-route-'' s"
  shows "2 \<le> length (filter (\<lambda>c. c = CHR ''-'') s)"
proof -
  from assms obtain ps ss where "s = ps @ ''-route-'' @ ss"
    by (auto simp: sublist_def)
  then show ?thesis by simp
qed

text \<open>
  An occurrence of the separator that starts inside \<open>a\<close> and runs into the separator
  that follows \<open>a\<close> needs \<open>a\<close> to end in \<open>-route\<close>: the only proper overlap of
  \<open>-route-\<close> with itself is the single dash.
\<close>

lemma route_overlap:
  assumes ne: "ys \<noteq> []" and suf: "suffix ys a"
      and nsub: "\<not> sublist ''-route-'' a" and nend: "\<not> suffix ''-route'' a"
  shows "\<not> prefix ''-route-'' (ys @ ''-route-'' @ rest)"
proof
  assume p: "prefix ''-route-'' (ys @ ''-route-'' @ rest)"
  consider (short) "length ys < 6" | (six) "length ys = 6" | (long) "7 \<le> length ys"
    by linarith
  then show False
  proof cases
    case short
    with ne p show False
      by (cases ys; simp; cases "tl ys"; simp; cases "tl (tl ys)"; simp; cases "tl (tl (tl ys))"; simp;
          cases "tl (tl (tl (tl ys)))"; simp)
  next
    case six
    then obtain y1 y2 y3 y4 y5 y6 where "ys = [y1, y2, y3, y4, y5, y6]"
      by (auto simp: eval_nat_numeral length_Suc_conv)
    with p have "ys = ''-route''" by simp
    with suf nend show False by simp
  next
    case long
    with p have "prefix ''-route-'' ys"
    proof -
      have "length ''-route-'' \<le> length ys" using long by simp
      with p show ?thesis
        by (metis prefix_length_prefix prefixI)
    qed
    then have "sublist ''-route-'' ys" by (rule prefix_imp_sublist)
    with suf have "sublist ''-route-'' a"
      using sublist_order.order.trans suffix_imp_sublist by blast
    with nsub show False by simp
  qed
qed

lemma Split_route:
  assumes nsub: "\<not> sublist ''-route-'' a" and nend: "\<not> suffix ''-route'' a"
      and one: "length (filter (\<lambda>c. c = CHR ''-'') rest) < 2"
  shows "Split (a @ ''-route-'' @ rest) ''-route-'' = [a, rest]"
proof -
  let ?sep = "''-route-''"
  let ?s = "a @ ?sep @ rest"
  have ix: "Index ?s ?sep = Some (length a)"
  proof (rule Index_append_first)
    fix ys assume "ys \<noteq> []" "suffix ys a"
    then show "\<not> prefix ?sep (ys @ ?sep @ rest)"
      by (rule route_overlap[OF _ _ nsub nend])
  qed simp
  have "\<not> sublist ?sep rest" using dash_count one by fastforce
  then have ir: "Index rest ?sep = None" by (simp add: Index_None_iff)
  have "Count_loop rest ?sep = 0"
    using ir by (subst Count_loop.simps) simp
  then have cl: "Count_loop ?s ?sep = 1"
    using ix by (subst Count_loop.simps) simp
  have "genSplit ?s ?sep (- 1) = genSplit_loop ?s ?sep 1"
    using cl by (simp add: genSplit_def Count_def)
  also have "\<dots> = [a, rest]" using ix by simp
  finally show ?thesis by (simp add: Split_def)
qed

lemma Split_dash:
  assumes d: "CHR ''-'' \<notin> set d" and n: "CHR ''-'' \<notin> set n"
  shows "Split (d @ ''-'' @ n) ''-'' = [d, n]"
proof -
  let ?s = "d @ ''-'' @ n"
  have ix: "Index ?s ''-'' = Some (length d)"
  proof (rule Index_append_first)
    fix ys assume "ys \<noteq> []" "suffix ys d"
    then have "hd ys \<in> set d"
      by (metis hd_in_set set_mono_suffix subsetD)
    with d have "hd ys \<noteq> CHR ''-''" by auto
    with \<open>ys \<noteq> []\<close> show "\<not> prefix ''-'' (ys @ ''-'' @ n)"
      by (cases ys) auto
  qed simp
  have "filter (\<lambda>c. c = CHR ''-'') d = []" "filter (\<lambda>c. c = CHR ''-'') n = []"
    using d n by (auto simp: filter_empty_conv)
  then have "Count ?s ''-'' = 1" by (simp add: Count_def)
  then have "genSplit ?s ''-'' (- 1) = genSplit_loop ?s ''-'' 1"
    by (simp add: genSplit_def)
  also have "\<dots> = [d, n]" using ix by simp
  finally show ?thesis by (simp add: Split_def)
qed

lemma Index_char:
  "Index s [c] = (if c \<in> set s then Some (length (takeWhile (\<lambda>x. x \<noteq> c) s)) else None)"
  by (induction s) auto

lemma SplitN_slash:
  "SplitN s ''/'' 2 =
     (if CHR ''/'' \<in> set s
      then [takeWhile (\<lambda>x. x \<noteq> CHR ''/'') s, tl (dropWhile (\<lambda>x. x \<noteq> CHR ''/'') s)]
      else [s])"
proof (cases "CHR ''/'' \<in> set s")
  case False
  then show ?thesis
    by (cases "s = []") (simp_all add: SplitN_def genSplit_def Index_char)
next
  case True
  then have ne: "s \<noteq> []" by auto
  then have "genSplit s ''/'' 2 = genSplit_loop s ''/'' 1"
    by (simp add: genSplit_def)
  also have "\<dots> = [take (length (takeWhile (\<lambda>x. x \<noteq> CHR ''/'') s)) s,
                     drop (length (takeWhile (\<lambda>x. x \<noteq> CHR ''/'') s) + 1) s]"
    using True by (simp add: Index_char)
  also have "\<dots> = [takeWhile (\<lambda>x. x \<noteq> CHR ''/'') s, tl (dropWhile (\<lambda>x. x \<noteq> CHR ''/'') s)]"
    by (simp add: takeWhile_eq_take[symmetric] dropWhile_eq_drop drop_Suc tl_drop)
  finally show ?thesis using True by (simp add: SplitN_def)
qed

section \<open>The shape of a monitor Create\<close>

lemma Read_trace:
  assumes "resourceMonitorV2Read env d tr = (g, d', tr')"
  shows "\<exists>evs. tr' = tr @ evs \<and> (\<forall>ev \<in> set evs. is_Read_call ev)"
  using assms
  by (auto simp: resourceMonitorV2Read_def Let_def split: option.splits sum.splits prod.splits)

lemma create_attempt_pair:
  "create_attempt env opts (tr, mon) =
     (case monitors_Create env tr opts of
        Inl err \<Rightarrow> (Some (err, checkForRetryableError env err),
                    (tr @ [E_monitors_Create opts (Inl err)], None))
      | Inr m \<Rightarrow> (None, (tr @ [E_monitors_Create opts (Inr m)], Some m)))"
  by (simp add: create_attempt_def Let_def split: sum.splits)

lemma Retry_create_trace:
  assumes "Retry t n (create_attempt env opts) resultErr (tr, mon) = (res, (tr', mon'))"
  shows "\<exists>evs. tr' = tr @ evs \<and> (\<forall>ev \<in> set evs. \<exists>r. ev = E_monitors_Create opts r)"
  using assms
proof (induction n arbitrary: resultErr tr mon)
  case 0
  then show ?case by (auto split: option.splits)
next
  case (Suc n)
  show ?case
  proof (cases "monitors_Create env tr opts")
    case (Inr m)
    with Suc.prems show ?thesis
      by (auto simp: create_attempt_pair)
  next
    case (Inl e)
    show ?thesis
    proof (cases "checkForRetryableError env e")
      case False
      with Inl Suc.prems show ?thesis
        by (auto simp: create_attempt_pair)
    next
      case True
      with Inl Suc.prems
      have "Retry t n (create_attempt env opts) (Some e)
              (tr @ [E_monitors_Create opts (Inl e)], None) = (res, (tr', mon'))"
        by (simp add: create_attempt_pair)
      from Suc.IH[OF this] show ?thesis by auto
    qed
  qed
qed



lemma prefix3:
  assumes "a # b # c # rest = pre @ x # post" and "x \<noteq> a" and "x \<noteq> b" and "x \<noteq> c"
  shows "prefix [a, b, c] pre"
  using assms
  by (cases pre; simp; cases "tl pre"; simp; cases "tl (tl pre)"; simp; auto)


lemma Create_cases:
  assumes "resourceMonitorV2Create env d [] = (diags, d', tr)"
  obtains
    (client) e where "tr = [E_LoadBalancerV2Client (GetRegion env d) (Some e)]"
      and "diags = [''Error creating OpenStack networking client: '' @ errorString e]" and "d' = d"
  | (pool) e where
      "tr = [E_LoadBalancerV2Client (GetRegion env d) None,
             E_pools_Get (getS (mon_pool_id d)) (Inl e)]"
      and "diags = [''Unable to retrieve parent openstack_lb_pool_v2 '' @ getS (mon_pool_id d)
                    @ '': '' @ errorString e]" and "d' = d"
  | (wait) p e where
      "tr = [E_LoadBalancerV2Client (GetRegion env d) None,
             E_pools_Get (getS (mon_pool_id d)) (Inr p),
             E_waitForLBV2Pool p ''ACTIVE'' (getLbPendingStatuses env) (mon_Timeout d TimeoutCreate) (Some e)]"
      and "diags = [errorString e]" and "d' = d"
  | (go) p rest where
      "tr = [E_LoadBalancerV2Client (GetRegion env d) None,
             E_pools_Get (getS (mon_pool_id d)) (Inr p),
             E_waitForLBV2Pool p ''ACTIVE'' (getLbPendingStatuses env) (mon_Timeout d TimeoutCreate) None]
            @ rest"
      and "\<forall>ev \<in> set rest. (\<exists>r. ev = E_monitors_Create (monitor_createOpts d) r)
                             \<or> is_waitForLBV2Monitor ev \<or> is_Read_call ev"
proof (cases "LoadBalancerV2Client env [] (GetRegion env d)")
  case (Some e)
  with assms show ?thesis
    by (intro client[of e]) (auto simp: resourceMonitorV2Create_def Let_def diag_Errorf_def)
next
  case None
  note c = this
  let ?tr0 = "[E_LoadBalancerV2Client (GetRegion env d) None]"
  show ?thesis
  proof (cases "pools_Get env ?tr0 (getS (mon_pool_id d))")
    case (Inl e)
    with c assms show ?thesis
      by (intro pool[of e]) (auto simp: resourceMonitorV2Create_def Let_def diag_Errorf_def)
  next
    case (Inr p)
    note pg = this
    let ?tr1 = "?tr0 @ [E_pools_Get (getS (mon_pool_id d)) (Inr p)]"
    let ?t = "mon_Timeout d TimeoutCreate"
    show ?thesis
    proof (cases "waitForLBV2Pool env ?tr1 p ''ACTIVE'' (getLbPendingStatuses env) ?t")
      case (Some e)
      with c pg assms show ?thesis
        by (intro wait[of p e]) (auto simp: resourceMonitorV2Create_def Let_def diag_FromErr_def)
    next
      case None
      note w = this
      let ?tr2 = "?tr1 @ [E_waitForLBV2Pool p ''ACTIVE'' (getLbPendingStatuses env) ?t None]"
      obtain res tr3 mon where
        r: "Retry ?t (attempts_within env ?t) (create_attempt env (monitor_createOpts d)) None (?tr2, None)
              = (res, (tr3, mon))"
        by (metis prod.exhaust)
      from Retry_create_trace[OF r] obtain evs where
        evs: "tr3 = ?tr2 @ evs" "\<forall>ev \<in> set evs. \<exists>r. ev = E_monitors_Create (monitor_createOpts d) r"
        by blast
      have "\<exists>rest. tr = ?tr2 @ rest \<and>
              (\<forall>ev \<in> set rest. (\<exists>r. ev = E_monitors_Create (monitor_createOpts d) r)
                             \<or> is_waitForLBV2Monitor ev \<or> is_Read_call ev)"
      proof (cases res)
        case (Some e)
        with c pg w r assms have "tr = tr3"
          by (auto simp: resourceMonitorV2Create_def Let_def)
        with evs show ?thesis by auto
      next
        case None
        note rn = this
        show ?thesis
        proof (cases mon)
          case None
          with rn c pg w r assms have "tr = tr3"
            by (auto simp: resourceMonitorV2Create_def Let_def)
          with evs show ?thesis by auto
        next
          case (Some m)
          let ?w2 = "waitForLBV2Monitor env tr3 p m ''ACTIVE'' (getLbPendingStatuses env) ?t"
          let ?tr4 = "tr3 @ [E_waitForLBV2Monitor p m ''ACTIVE'' (getLbPendingStatuses env) ?t ?w2]"
          show ?thesis
          proof (cases ?w2)
            case (Some e)
            with \<open>mon = Some m\<close> rn c pg w r assms have "tr = ?tr4"
              by (auto simp: resourceMonitorV2Create_def Let_def)
            with evs show ?thesis by auto
          next
            case None
            with \<open>mon = Some m\<close> rn c pg w r assms
            have "resourceMonitorV2Read env (d\<lparr>mon_Id := m_ID m\<rparr>) ?tr4 = (diags, d', tr)"
              by (auto simp: resourceMonitorV2Create_def Let_def)
            from Read_trace[OF this] obtain revs where
              "tr = ?tr4 @ revs" "\<forall>ev \<in> set revs. is_Read_call ev" by blast
            with evs show ?thesis by auto
          qed
        qed
      qed
      then obtain rest where "tr = ?tr2 @ rest"
        "\<forall>ev \<in> set rest. (\<exists>r. ev = E_monitors_Create (monitor_createOpts d) r)
                             \<or> is_waitForLBV2Monitor ev \<or> is_Read_call ev" by blast
      then show ?thesis by (intro go[of p rest]) auto
    qed
  qed
qed

lemma ex_Create_run:
  "resourceMonitorV2Create ex_lb_env ex_monitorData [] =
     ([],
      ex_monitorData\<lparr>mon_Id := ''mon-1'', mon_tenant_id := Some ''tenant-1'',
        mon_max_retries_down := Some 3, mon_region := Some ''RegionOne''\<rparr>,
      [E_LoadBalancerV2Client ''RegionOne'' None,
       E_pools_Get ''pool-1'' (Inr \<lparr>pool_ID = ''pool-1''\<rparr>),
       E_waitForLBV2Pool \<lparr>pool_ID = ''pool-1''\<rparr> ''ACTIVE'' [''PENDING_CREATE'', ''PENDING_UPDATE'']
         (600 * Second) None,
       E_monitors_Create (monitor_createOpts ex_monitorData) (Inr ex_Monitor),
       E_waitForLBV2Monitor \<lparr>pool_ID = ''pool-1''\<rparr> ex_Monitor ''ACTIVE''
         [''PENDING_CREATE'', ''PENDING_UPDATE''] (600 * Second) None,
       E_LoadBalancerV2Client ''RegionOne'' None,
       E_monitors_Get ''mon-1'' (Inr ex_Monitor)])"
  by (simp add: resourceMonitorV2Create_def resourceMonitorV2Read_def ex_lb_env_def Let_def
      create_attempt_pair getS_def ex_monitorData_def ex_Monitor_def)

section \<open>The shape of a monitor Update\<close>

lemma update_opts_fst:
  "fst (update_opts d) \<longleftrightarrow> (\<exists>k \<in> set monitor_tracked. mon_HasChange d k)"
  by (simp add: update_opts_def monitor_tracked_def Let_def)


lemma update_attempt_Inl:
  "monitors_Update env tr mid opts = Inl e \<Longrightarrow>
   update_attempt env mid opts tr =
     (Some (e, checkForRetryableError env e), tr @ [E_monitors_Update mid opts (Inl e)])"
  by (simp add: update_attempt_def)

lemma update_attempt_Inr:
  "monitors_Update env tr mid opts = Inr m \<Longrightarrow>
   update_attempt env mid opts tr = (None, tr @ [E_monitors_Update mid opts (Inr m)])"
  by (simp add: update_attempt_def)

lemma Retry_update_trace:
  assumes "Retry t n (update_attempt env mid opts) resultErr tr = (res, tr')"
  shows "\<exists>evs. tr' = tr @ evs \<and> (\<forall>ev \<in> set evs. \<exists>r. ev = E_monitors_Update mid opts r)
               \<and> (0 < n \<longrightarrow> evs \<noteq> [])"
  using assms
proof (induction n arbitrary: resultErr tr)
  case 0
  then show ?case by (auto split: option.splits)
next
  case (Suc n)
  show ?case
  proof (cases "monitors_Update env tr mid opts")
    case (Inr m)
    with Suc.prems show ?thesis
      by (auto simp: update_attempt_Inr)
  next
    case (Inl e)
    show ?thesis
    proof (cases "checkForRetryableError env e")
      case False
      with Inl Suc.prems show ?thesis
        by (auto simp: update_attempt_Inl)
    next
      case True
      with Inl Suc.prems
      have "Retry t n (update_attempt env mid opts) (Some e)
              (tr @ [E_monitors_Update mid opts (Inl e)]) = (res, tr')"
        by (simp add: update_attempt_Inl)
      from Suc.IH[OF this] show ?thesis by auto
    qed
  qed
qed

lemma Update_unchanged:
  assumes "\<not> fst (update_opts d)"
      and "resourceMonitorV2Update env d [] = (diags, d', tr)"
  shows "(\<forall>ev \<in> set tr. is_Read_call ev)
       \<and> (LoadBalancerV2Client env [] (GetRegion env d) = None \<longrightarrow>
            resourceMonitorV2Read env d [E_LoadBalancerV2Client (GetRegion env d) None] = (diags, d', tr))"
proof (cases "LoadBalancerV2Client env [] (GetRegion env d)")
  case (Some e)
  with assms show ?thesis
    by (auto simp: resourceMonitorV2Update_def Let_def)
next
  case None
  with assms have r: "resourceMonitorV2Read env d [E_LoadBalancerV2Client (GetRegion env d) None]
                        = (diags, d', tr)"
    by (auto simp: resourceMonitorV2Update_def Let_def split: prod.splits)
  from Read_trace[OF r] None r show ?thesis by auto
qed

lemma Update_changed:
  assumes ch: "fst (update_opts d)"
      and c: "LoadBalancerV2Client env [] (GetRegion env d) = None"
      and pg: "pools_Get env [E_LoadBalancerV2Client (GetRegion env d) None] (getS (mon_pool_id d)) = Inr p"
      and mg: "monitors_Get env
                 [E_LoadBalancerV2Client (GetRegion env d) None,
                  E_pools_Get (getS (mon_pool_id d)) (Inr p)] (mon_Id d) = Inr m"
      and w1: "waitForLBV2Pool env
                 [E_LoadBalancerV2Client (GetRegion env d) None,
                  E_pools_Get (getS (mon_pool_id d)) (Inr p),
                  E_monitors_Get (mon_Id d) (Inr m)]
                 p ''ACTIVE'' (getLbPendingStatuses env) (mon_Timeout d TimeoutUpdate) = None"
      and w2: "waitForLBV2Monitor env
                 [E_LoadBalancerV2Client (GetRegion env d) None,
                  E_pools_Get (getS (mon_pool_id d)) (Inr p),
                  E_monitors_Get (mon_Id d) (Inr m),
                  E_waitForLBV2Pool p ''ACTIVE'' (getLbPendingStatuses env)
                    (mon_Timeout d TimeoutUpdate) None]
                 p m ''ACTIVE'' (getLbPendingStatuses env) (mon_Timeout d TimeoutUpdate) = None"
      and n: "0 < attempts_within env (mon_Timeout d TimeoutUpdate)"
      and run: "resourceMonitorV2Update env d [] = (diags, d', tr)"
  shows "\<exists>r rest. tr =
           [E_LoadBalancerV2Client (GetRegion env d) None,
            E_pools_Get (getS (mon_pool_id d)) (Inr p),
            E_monitors_Get (mon_Id d) (Inr m),
            E_waitForLBV2Pool p ''ACTIVE'' (getLbPendingStatuses env)
              (mon_Timeout d TimeoutUpdate) None,
            E_waitForLBV2Monitor p m ''ACTIVE'' (getLbPendingStatuses env)
              (mon_Timeout d TimeoutUpdate) None]
           @ E_monitors_Update (mon_Id d) (snd (update_opts d)) r # rest"
proof -
  let ?t = "mon_Timeout d TimeoutUpdate"
  let ?tr4 = "[E_LoadBalancerV2Client (GetRegion env d) None,
            E_pools_Get (getS (mon_pool_id d)) (Inr p),
            E_monitors_Get (mon_Id d) (Inr m),
            E_waitForLBV2Pool p ''ACTIVE'' (getLbPendingStatuses env) ?t None,
            E_waitForLBV2Monitor p m ''ACTIVE'' (getLbPendingStatuses env) ?t None]"
  obtain res tr5 where
    r: "Retry ?t (attempts_within env ?t) (update_attempt env (mon_Id d) (snd (update_opts d))) None ?tr4
          = (res, tr5)"
    by (metis prod.exhaust)
  from Retry_update_trace[OF r] n obtain evs where
    evs: "tr5 = ?tr4 @ evs" "\<forall>ev \<in> set evs. \<exists>r. ev = E_monitors_Update (mon_Id d) (snd (update_opts d)) r"
         "evs \<noteq> []"
    by blast
  then obtain r0 evs' where e0: "evs = E_monitors_Update (mon_Id d) (snd (update_opts d)) r0 # evs'"
    by (cases evs) auto
  have "\<exists>more. tr = tr5 @ more"
  proof (cases res)
    case (Some e)
    with ch c pg mg w1 w2 r run have "tr = tr5"
      by (auto simp: resourceMonitorV2Update_def Let_def split: prod.splits)
    then show ?thesis by simp
  next
    case None
    note rn = this
    let ?w3 = "waitForLBV2Monitor env tr5 p m ''ACTIVE'' (getLbPendingStatuses env) ?t"
    let ?tr6 = "tr5 @ [E_waitForLBV2Monitor p m ''ACTIVE'' (getLbPendingStatuses env) ?t ?w3]"
    show ?thesis
    proof (cases ?w3)
      case (Some e)
      with rn ch c pg mg w1 w2 r run have "tr = ?tr6"
        by (auto simp: resourceMonitorV2Update_def Let_def split: prod.splits)
      then show ?thesis by simp
    next
      case None
      with rn ch c pg mg w1 w2 r run
      have "resourceMonitorV2Read env d ?tr6 = (diags, d', tr)"
        by (auto simp: resourceMonitorV2Update_def Let_def split: prod.splits)
      from Read_trace[OF this] show ?thesis by auto
    qed
  qed
  with evs(1) e0 show ?thesis by auto
qed

lemma Update_failure:
  assumes run: "resourceMonitorV2Update env d [] = (diags, d', tr)"
  shows "LoadBalancerV2Client env [] (GetRegion env d) = Some e
       \<Longrightarrow> diags = diag_Errorf (''Error creating OpenStack networking client: '' @ errorString e)
           \<and> d' = d
           \<and> tr = [E_LoadBalancerV2Client (GetRegion env d) (Some e)]"
    and "fst (update_opts d)
       \<Longrightarrow> LoadBalancerV2Client env [] (GetRegion env d) = None
       \<Longrightarrow> pools_Get env [E_LoadBalancerV2Client (GetRegion env d) None] (getS (mon_pool_id d)) = Inl e
       \<Longrightarrow> diags = diag_Errorf (''Unable to retrieve parent openstack_lb_pool_v2 '' @ getS (mon_pool_id d)
                         @ '': '' @ errorString e)
           \<and> d' = d
           \<and> tr = [E_LoadBalancerV2Client (GetRegion env d) None,
                 E_pools_Get (getS (mon_pool_id d)) (Inl e)]"
    and "fst (update_opts d)
       \<Longrightarrow> LoadBalancerV2Client env [] (GetRegion env d) = None
       \<Longrightarrow> pools_Get env [E_LoadBalancerV2Client (GetRegion env d) None] (getS (mon_pool_id d)) = Inr p
       \<Longrightarrow> monitors_Get env
               [E_LoadBalancerV2Client (GetRegion env d) None,
                E_pools_Get (getS (mon_pool_id d)) (Inr p)] (mon_Id d) = Inl e
       \<Longrightarrow> diags = diag_Errorf (''Unable to retrieve openstack_lb_monitor_v2 '' @ mon_Id d
                         @ '': '' @ errorString e)
           \<and> d' = d
           \<and> tr = [E_LoadBalancerV2Client (GetRegion env d) None,
                 E_pools_Get (getS (mon_pool_id d)) (Inr p),
                 E_monitors_Get (mon_Id d) (Inl e)]"
    and "fst (update_opts d)
       \<Longrightarrow> LoadBalancerV2Client env [] (GetRegion env d) = None
       \<Longrightarrow> pools_Get env [E_LoadBalancerV2Client (GetRegion env d) None] (getS (mon_pool_id d)) = Inr p
       \<Longrightarrow> monitors_Get env
               [E_LoadBalancerV2Client (GetRegion env d) None,
                E_pools_Get (getS (mon_pool_id d)) (Inr p)] (mon_Id d) = Inr m
       \<Longrightarrow> waitForLBV2Pool env
               [E_LoadBalancerV2Client (GetRegion env d) None,
                E_pools_Get (getS (mon_pool_id d)) (Inr p),
                E_monitors_Get (mon_Id d) (Inr m)]
               p ''ACTIVE'' (getLbPendingStatuses env) (mon_Timeout d TimeoutUpdate) = Some e
       \<Longrightarrow> diags = diag_FromErr (Some e)
           \<and> d' = d
           \<and> tr = [E_LoadBalancerV2Client (GetRegion env d) None,
                 E_pools_Get (getS (mon_pool_id d)) (Inr p),
                 E_monitors_Get (mon_Id d) (Inr m),
                 E_waitForLBV2Pool p ''ACTIVE'' (getLbPendingStatuses env) (mon_Timeout d TimeoutUpdate) (Some e)]"
    and "fst (update_opts d)
       \<Longrightarrow> LoadBalancerV2Client env [] (GetRegion env d) = None
       \<Longrightarrow> pools_Get env [E_LoadBalancerV2Client (GetRegion env d) None] (getS (mon_pool_id d)) = Inr p
       \<Longrightarrow> monitors_Get env
               [E_LoadBalancerV2Client (GetRegion env d) None,
                E_pools_Get (getS (mon_pool_id d)) (Inr p)] (mon_Id d) = Inr m
       \<Longrightarrow> waitForLBV2Pool env
               [E_LoadBalancerV2Client (GetRegion env d) None,
                E_pools_Get (getS (mon_pool_id d)) (Inr p),
                E_monitors_Get (mon_Id d) (Inr m)]
               p ''ACTIVE'' (getLbPendingStatuses env) (mon_Timeout d TimeoutUpdate) = None
       \<Longrightarrow> waitForLBV2Monitor env
               [E_LoadBalancerV2Client (GetRegion env d) None,
                E_pools_Get (getS (mon_pool_id d)) (Inr p),
                E_monitors_Get (mon_Id d) (Inr m),
                E_waitForLBV2Pool p ''ACTIVE'' (getLbPendingStatuses env) (mon_Timeout d TimeoutUpdate) None]
               p m ''ACTIVE'' (getLbPendingStatuses env) (mon_Timeout d TimeoutUpdate) = Some e
       \<Longrightarrow> diags = diag_FromErr (Some e)
           \<and> d' = d
           \<and> tr = [E_LoadBalancerV2Client (GetRegion env d) None,
                 E_pools_Get (getS (mon_pool_id d)) (Inr p),
                 E_monitors_Get (mon_Id d) (Inr m),
                 E_waitForLBV2Pool p ''ACTIVE'' (getLbPendingStatuses env) (mon_Timeout d TimeoutUpdate) None,
                 E_waitForLBV2Monitor p m ''ACTIVE'' (getLbPendingStatuses env) (mon_Timeout d TimeoutUpdate) (Some e)]"
    and "fst (update_opts d)
       \<Longrightarrow> LoadBalancerV2Client env [] (GetRegion env d) = None
       \<Longrightarrow> pools_Get env [E_LoadBalancerV2Client (GetRegion env d) None] (getS (mon_pool_id d)) = Inr p
       \<Longrightarrow> monitors_Get env
               [E_LoadBalancerV2Client (GetRegion env d) None,
                E_pools_Get (getS (mon_pool_id d)) (Inr p)] (mon_Id d) = Inr m
       \<Longrightarrow> waitForLBV2Pool env
               [E_LoadBalancerV2Client (GetRegion env d) None,
                E_pools_Get (getS (mon_pool_id d)) (Inr p),
                E_monitors_Get (mon_Id d) (Inr m)]
               p ''ACTIVE'' (getLbPendingStatuses env) (mon_Timeout d TimeoutUpdate) = None
       \<Longrightarrow> waitForLBV2Monitor env
               [E_LoadBalancerV2Client (GetRegion env d) None,
                E_pools_Get (getS (mon_pool_id d)) (Inr p),
                E_monitors_Get (mon_Id d) (Inr m),
                E_waitForLBV2Pool p ''ACTIVE'' (getLbPendingStatuses env) (mon_Timeout d TimeoutUpdate) None]
               p m ''ACTIVE'' (getLbPendingStatuses env) (mon_Timeout d TimeoutUpdate) = None
       \<Longrightarrow> attempts_within env (mon_Timeout d TimeoutUpdate) = 0
       \<Longrightarrow> diags = diag_Errorf (''Unable to update openstack_lb_monitor_v2 '' @ mon_Id d @ '': ''
                         @ errorString (TimeoutError [''success''] [] (mon_Timeout d TimeoutUpdate)))
           \<and> d' = d
           \<and> tr = [E_LoadBalancerV2Client (GetRegion env d) None,
                 E_pools_Get (getS (mon_pool_id d)) (Inr p),
                 E_monitors_Get (mon_Id d) (Inr m),
                 E_waitForLBV2Pool p ''ACTIVE'' (getLbPendingStatuses env) (mon_Timeout d TimeoutUpdate) None,
                 E_waitForLBV2Monitor p m ''ACTIVE'' (getLbPendingStatuses env) (mon_Timeout d TimeoutUpdate) None]"
  using run
  by (auto simp: resourceMonitorV2Update_def Let_def split: prod.splits)

lemma Update_event_changed:
  assumes run: "resourceMonitorV2Update env d [] = (diags, d', tr)"
      and ev: "ev \<in> set tr" "is_monitors_Update ev"
  shows "fst (update_opts d)"
proof (rule ccontr)
  assume "\<not> fst (update_opts d)"
  from Update_unchanged[OF this run] ev show False
    by (auto elim!: is_Read_call.elims)
qed

lemma ex_Read_run:
  "resourceMonitorV2Read ex_lb_env (ex_monitorData\<lparr>mon_pool_id := None\<rparr>) [] =
     ([],
      ex_monitorData\<lparr>mon_pool_id := Some ''pool-1'', mon_tenant_id := Some ''tenant-1'',
        mon_max_retries_down := Some 3, mon_region := Some ''RegionOne''\<rparr>,
      [E_LoadBalancerV2Client ''RegionOne'' None, E_monitors_Get [] (Inr ex_Monitor)])"
  by (simp add: resourceMonitorV2Read_def ex_lb_env_def Let_def ex_monitorData_def ex_Monitor_def)

lemma ex_Update_run:
  "resourceMonitorV2Update ex_lb_env ex_monitorData_changed [] =
     ([],
      ex_monitorData_changed\<lparr>mon_tenant_id := Some ''tenant-1'',
        mon_max_retries_down := Some 3, mon_region := Some ''RegionOne''\<rparr>,
      [E_LoadBalancerV2Client ''RegionOne'' None,
       E_pools_Get ''pool-1'' (Inr \<lparr>pool_ID = ''pool-1''\<rparr>),
       E_monitors_Get ''mon-1'' (Inr ex_Monitor),
       E_waitForLBV2Pool \<lparr>pool_ID = ''pool-1''\<rparr> ''ACTIVE'' [''PENDING_CREATE'', ''PENDING_UPDATE'']
         (600 * Second) None,
       E_waitForLBV2Monitor \<lparr>pool_ID = ''pool-1''\<rparr> ex_Monitor ''ACTIVE''
         [''PENDING_CREATE'', ''PENDING_UPDATE''] (600 * Second) None,
       E_monitors_Update ''mon-1'' (zero_UpdateOpts\<lparr>uo_URLPath := ''/health''\<rparr>) (Inr ex_Monitor),
       E_waitForLBV2Monitor \<lparr>pool_ID = ''pool-1''\<rparr> ex_Monitor ''ACTIVE''
         [''PENDING_CREATE'', ''PENDING_UPDATE''] (600 * Second) None,
       E_LoadBalancerV2Client ''RegionOne'' None,
       E_monitors_Get ''mon-1'' (Inr ex_Monitor)])"
  by (simp add: resourceMonitorV2Update_def resourceMonitorV2Read_def ex_lb_env_def Let_def
      update_attempt_def update_opts_def getS_def ex_monitorData_changed_def ex_monitorData_def
      ex_Monitor_def)

lemma ex_Update_no_pool_run:
  "resourceMonitorV2Update ex_lb_env_no_pool ex_monitorData_changed [] =
     ([''Unable to retrieve parent openstack_lb_pool_v2 pool-1: Resource not found''],
      ex_monitorData_changed,
      [E_LoadBalancerV2Client ''RegionOne'' None,
       E_pools_Get ''pool-1'' (Inl (ErrDefault404 ''Resource not found''))])"
  by (simp add: resourceMonitorV2Update_def ex_lb_env_no_pool_def ex_lb_env_def Let_def
      update_opts_def getS_def ex_monitorData_changed_def ex_monitorData_def diag_Errorf_def)

lemma ex_Update_unchanged_run:
  "resourceMonitorV2Update ex_lb_env ex_monitorData [] =
     ([],
      ex_monitorData\<lparr>mon_tenant_id := Some ''tenant-1'',
        mon_max_retries_down := Some 3, mon_region := Some ''RegionOne''\<rparr>,
      [E_LoadBalancerV2Client ''RegionOne'' None,
       E_LoadBalancerV2Client ''RegionOne'' None,
       E_monitors_Get [] (Inr ex_Monitor)])"
  by (simp add: resourceMonitorV2Update_def resourceMonitorV2Read_def ex_lb_env_def Let_def
      update_opts_def ex_monitorData_def ex_Monitor_def)

lemma ex_Update_no_client_run:
  "resourceMonitorV2Update ex_lb_env_no_client ex_monitorData_changed [] =
     ([''Error creating OpenStack networking client: No suitable endpoint''],
      ex_monitorData_changed,
      [E_LoadBalancerV2Client ''RegionOne'' (Some (ErrOther ''No suitable endpoint''))])"
  by (simp add: resourceMonitorV2Update_def ex_lb_env_no_client_def ex_lb_env_def Let_def
      diag_Errorf_def)


section \<open>Polling a database instance\<close>

lemma Refresh_result:
  assumes "DatabaseInstanceV1StateRefreshFunc env iid tr = ((found, st, err), tr')"
  shows "tr' = tr @ [E_instances_Get iid (instances_Get env tr iid)]"
    and "err = None \<Longrightarrow> found"
    and "err = None \<Longrightarrow> st = ''ACTIVE'' \<Longrightarrow>
           \<exists>i. instances_Get env tr iid = Inr i \<and> i_Status i = ''ACTIVE''"
  using assms
  by (auto simp: DatabaseInstanceV1StateRefreshFunc_def Let_def
           split: sum.splits gerror.splits if_splits)

lemma poll_trace:
  assumes "WaitForState_loop conf (DatabaseInstanceV1StateRefreshFunc env iid) n k ls tr = (w, tr')"
  shows "\<exists>evs. tr' = tr @ evs \<and> (\<forall>ev \<in> set evs. \<exists>r. ev = E_instances_Get iid r)"
  using assms
proof (induction n arbitrary: k ls tr)
  case 0
  then show ?case by simp
next
  case (Suc n)
  obtain found st err tr1 where
    rf: "DatabaseInstanceV1StateRefreshFunc env iid tr = ((found, st, err), tr1)"
    by (metis prod.exhaust)
  note r = Refresh_result[OF rf]
  have step: "\<And>k' ls'. WaitForState_loop conf (DatabaseInstanceV1StateRefreshFunc env iid) n k' ls' tr1 = (w, tr')
            \<Longrightarrow> ?case"
  proof -
    fix k' ls'
    assume "WaitForState_loop conf (DatabaseInstanceV1StateRefreshFunc env iid) n k' ls' tr1 = (w, tr')"
    from Suc.IH[OF this] r(1) show ?case by auto
  qed
  from Suc.prems rf r(1) show ?case
    by (auto split: option.splits if_splits intro: step)
qed

lemma poll_active:
  assumes "WaitForState_loop conf (DatabaseInstanceV1StateRefreshFunc env iid) n k ls tr = (None, tr')"
      and "Target conf = [''ACTIVE'']"
  shows "\<exists>i. tr' \<noteq> [] \<and> last tr' = E_instances_Get iid (Inr i) \<and> i_Status i = ''ACTIVE''"
  using assms
proof (induction n arbitrary: k ls tr)
  case 0
  then show ?case by simp
next
  case (Suc n)
  obtain found st err tr1 where
    rf: "DatabaseInstanceV1StateRefreshFunc env iid tr = ((found, st, err), tr1)"
    by (metis prod.exhaust)
  note r = Refresh_result[OF rf]
  show ?case
  proof (cases err)
    case (Some e)
    with Suc.prems rf show ?thesis by simp
  next
    case None
    note en = this
    with r(2) have f: found by simp
    show ?thesis
    proof (cases "st = ''ACTIVE''")
      case True
      with en r(3) obtain i where "instances_Get env tr iid = Inr i" "i_Status i = ''ACTIVE''"
        by blast
      moreover from True en f Suc.prems rf have "tr' = tr1" by simp
      ultimately show ?thesis using r(1) by simp
    next
      case False
      with en f Suc.prems rf
      have "\<exists>k' ls'. WaitForState_loop conf (DatabaseInstanceV1StateRefreshFunc env iid) n k' ls' tr1 = (None, tr')"
        by (auto split: if_splits)
      then obtain k' ls' where
        "WaitForState_loop conf (DatabaseInstanceV1StateRefreshFunc env iid) n k' ls' tr1 = (None, tr')" by blast
      from Suc.IH[OF this Suc.prems(2)] show ?thesis .
    qed
  qed
qed

lemma db_Read_trace:
  assumes "resourceDatabaseInstanceV1Read env d tr = (g, d', tr')"
  shows "\<exists>evs. tr' = tr @ evs \<and> (\<forall>ev \<in> set evs. \<not> is_instances_Create ev)"
  using assms
  by (auto simp: resourceDatabaseInstanceV1Read_def Let_def split: option.splits sum.splits prod.splits)

lemma ex_db_Create_run:
  "resourceDatabaseInstanceV1Create ex_db_env ex_dbData [] =
     (None,
      ex_dbData\<lparr>db_Id := ''inst-1'', db_region := Some ''RegionOne''\<rparr>,
      [E_databaseV1Client ''RegionOne'' None,
       E_instances_Create (db_createOpts ex_dbData) (Inr (ex_Instance ''BUILD'')),
       E_instances_Get ''inst-1'' (Inr (ex_Instance ''BUILD'')),
       E_instances_Get ''inst-1'' (Inr (ex_Instance ''ACTIVE'')),
       E_databaseV1Client ''RegionOne'' None,
       E_instances_Get ''inst-1'' (Inr (ex_Instance ''ACTIVE''))])"
  by (simp add: resourceDatabaseInstanceV1Create_def resourceDatabaseInstanceV1Read_def
        ex_db_env_def Let_def WaitForState_def DatabaseInstanceV1StateRefreshFunc_def
        ex_Instance_def ex_dbData_def)

lemma ex_db_Create_slow_run:
  "resourceDatabaseInstanceV1Create ex_db_env_slow ex_dbData [] =
     (Some (ErrOther (''Error waiting for instance (inst-1) to become ready: ''
              @ errorString (TimeoutError [''ACTIVE''] ''BUILD'' (600 * Second)))),
      ex_dbData,
      [E_databaseV1Client ''RegionOne'' None,
       E_instances_Create (db_createOpts ex_dbData) (Inr (ex_Instance ''BUILD'')),
       E_instances_Get ''inst-1'' (Inr (ex_Instance ''BUILD'')),
       E_instances_Get ''inst-1'' (Inr (ex_Instance ''BUILD'')),
       E_instances_Get ''inst-1'' (Inr (ex_Instance ''BUILD''))])"
  by (simp add: resourceDatabaseInstanceV1Create_def ex_db_env_slow_def
        ex_db_env_def Let_def WaitForState_def DatabaseInstanceV1StateRefreshFunc_def
        ex_Instance_def fmt_Errorf_def ex_dbData_def)

lemma ex_db_wait:
  "WaitForState (refreshes_within ex_db_env)
     \<lparr>Pending = [''BUILD''], Target = [''ACTIVE''],
      Timeout = db_Timeout ex_dbData TimeoutCreate, Delay = 10 * Second, MinTimeout = 3 * Second\<rparr>
     (DatabaseInstanceV1StateRefreshFunc ex_db_env ''inst-1'')
     [E_databaseV1Client (db_GetRegion ex_db_env ex_dbData) None,
      E_instances_Create (db_createOpts ex_dbData) (Inr (ex_Instance ''BUILD''))]
   = (None,
      [E_databaseV1Client ''RegionOne'' None,
       E_instances_Create (db_createOpts ex_dbData) (Inr (ex_Instance ''BUILD'')),
       E_instances_Get ''inst-1'' (Inr (ex_Instance ''BUILD'')),
       E_instances_Get ''inst-1'' (Inr (ex_Instance ''ACTIVE''))])"
  by (simp add: ex_db_env_def Let_def WaitForState_def DatabaseInstanceV1StateRefreshFunc_def
        ex_Instance_def)

lemma ex_db_wait_slow:
  "WaitForState (refreshes_within ex_db_env_slow)
     \<lparr>Pending = [''BUILD''], Target = [''ACTIVE''],
      Timeout = db_Timeout ex_dbData TimeoutCreate, Delay = 10 * Second, MinTimeout = 3 * Second\<rparr>
     (DatabaseInstanceV1StateRefreshFunc ex_db_env_slow ''inst-1'')
     [E_databaseV1Client (db_GetRegion ex_db_env_slow ex_dbData) None,
      E_instances_Create (db_createOpts ex_dbData) (Inr (ex_Instance ''BUILD''))]
   = (Some (TimeoutError [''ACTIVE''] ''BUILD'' (600 * Second)),
      [E_databaseV1Client ''RegionOne'' None,
       E_instances_Create (db_createOpts ex_dbData) (Inr (ex_Instance ''BUILD'')),
       E_instances_Get ''inst-1'' (Inr (ex_Instance ''BUILD'')),
       E_instances_Get ''inst-1'' (Inr (ex_Instance ''BUILD'')),
       E_instances_Get ''inst-1'' (Inr (ex_Instance ''BUILD''))])"
  by (simp add: ex_db_env_slow_def ex_db_env_def Let_def WaitForState_def
        DatabaseInstanceV1StateRefreshFunc_def ex_Instance_def ex_dbData_def)

section \<open>The text of a timeout\<close>

lemma fmtInt_0: "fmtInt 0 = ''0''"
  by code_simp

lemma fmtInt_10: "fmtInt 10 = ''10''"
  by code_simp

lemma fmtFrac_loop_whole_seconds:
  "fmtFrac_loop 9 600000000000 False ''s'' = (''s'', 600, False)"
proof -
  have n9: "(9::nat) = Suc (Suc (Suc (Suc (Suc (Suc (Suc (Suc (Suc 0))))))))" by simp
  show ?thesis unfolding n9 by (simp add: Let_def)
qed

lemma Duration_String_ten_minutes: "Duration_String (600 * Second) = ''10m0s''"
  by (simp add: Duration_String_def Second_def fmtFrac_def fmtFrac_loop_whole_seconds
        fmtInt_0 fmtInt_10 Let_def)

lemma ex_timeout_text:
  "errorString (TimeoutError [''ACTIVE''] ''BUILD'' (600 * Second)) =
     ''timeout while waiting for state to become '' @ quoted ''ACTIVE''
       @ '' (last state: '' @ quoted ''BUILD'' @ '', timeout: 10m0s)''"
proof -
  have p: "0 < 600 * Second" by (simp add: Second_def)
  show ?thesis
    by (simp only: errorString.simps Let_def Duration_String_ten_minutes p Join.simps
          list.size if_True if_False append.simps length_greater_0_conv)
       (simp add: quoted_def)
qed

section \<open>Monitor Update and Delete: the error returns\<close>












section \<open>Database instance: the error returns\<close>








section \<open>The other adapters: the error returns\<close>
























section \<open>Error messages, the port association Create, and the example runs\<close>



lemma psg_Read_trace:
  assumes "resourceNetworkingPortSecGroupAssociateV2Read env d tr = (g, d', tr')"
  shows "\<exists>evs. tr' = tr @ evs \<and> (\<forall>ev \<in> set evs. \<not> is_ports_Update ev)"
  using assms
  by (auto simp: resourceNetworkingPortSecGroupAssociateV2Read_def Let_def
           split: option.splits sum.splits prod.splits)

lemma psg_Create_sends:
  assumes run: "resourceNetworkingPortSecGroupAssociateV2Create env d [] = (res, d', tr)"
      and c: "networkingV2Client env [] (psg_GetRegion env d) = None"
      and g: "ports_Get env [E_networkingV2Client (psg_GetRegion env d) None] (getS (psg_port_id d))
                = Inr port"
  shows "\<exists>u rest.
           tr = [E_networkingV2Client (psg_GetRegion env d) None,
                 E_ports_Get (getS (psg_port_id d)) (Inr port)]
                @ E_ports_Update (getS (psg_port_id d))
                    \<lparr>puo_SecurityGroups =
                       Some (if psg_enforce d
                             then psg_security_group_ids d
                             else sliceUnion env (port_SecurityGroups port) (psg_security_group_ids d))\<rparr>
                    u
                # rest
           \<and> (\<forall>ev \<in> set rest. \<not> is_ports_Update ev)
           \<and> (\<forall>e. u = Inl e \<longrightarrow>
                res = Some (fmt_Errorf (''Error associating '' @ getS (psg_port_id d) @ '' port with ''
                              @ [CHR 0x27] @ Join (psg_security_group_ids d) '','' @ [CHR 0x27]
                              @ '' security groups: '' @ errorString e))
                \<and> d' = d)"
proof -
  let ?pid = "getS (psg_port_id d)"
  let ?tr1 = "[E_networkingV2Client (psg_GetRegion env d) None, E_ports_Get ?pid (Inr port)]"
  define opts where
    "opts = \<lparr>puo_SecurityGroups =
                       Some (if psg_enforce d
                             then psg_security_group_ids d
                             else sliceUnion env (port_SecurityGroups port) (psg_security_group_ids d))\<rparr>"
  let ?u = "ports_Update env ?tr1 ?pid opts"
  let ?tr2 = "?tr1 @ [E_ports_Update ?pid opts ?u]"
  have en: "(case GetOkB (Some (psg_enforce d)) of
               (v, ok) \<Rightarrow>
                 if ok \<and> v
                 then \<lparr>puo_SecurityGroups = Some (psg_security_group_ids d)\<rparr>
                 else \<lparr>puo_SecurityGroups =
                         Some (sliceUnion env (port_SecurityGroups port)
                                 (psg_security_group_ids d))\<rparr>) = opts"
    by (cases "psg_enforce d") (auto simp: GetOkB_def getB_def opts_def)
  have unf: "resourceNetworkingPortSecGroupAssociateV2Create env d [] =
     (case ?u of
        Inl err \<Rightarrow>
          (Some (fmt_Errorf (''Error associating '' @ ?pid @ '' port with ''
                   @ [CHR 0x27] @ Join (psg_security_group_ids d) '','' @ [CHR 0x27]
                   @ '' security groups: '' @ errorString err)), d, ?tr2)
      | Inr p \<Rightarrow> resourceNetworkingPortSecGroupAssociateV2Read env (d\<lparr>psg_Id := ?pid\<rparr>) ?tr2)"
    using c g
    by (simp add: resourceNetworkingPortSecGroupAssociateV2Create_def Let_def
                  expandToStringSlice_def en cong: sum.case_cong)
  have "\<exists>rest. tr = ?tr1 @ E_ports_Update ?pid opts ?u # rest
           \<and> (\<forall>ev \<in> set rest. \<not> is_ports_Update ev)
           \<and> (\<forall>e. ?u = Inl e \<longrightarrow>
                res = Some (fmt_Errorf (''Error associating '' @ getS (psg_port_id d) @ '' port with ''
                              @ [CHR 0x27] @ Join (psg_security_group_ids d) '','' @ [CHR 0x27]
                              @ '' security groups: '' @ errorString e))
                \<and> d' = d)"
  proof (cases ?u)
    case (Inl e)
    with run unf show ?thesis by auto
  next
    case (Inr p)
    with run unf
    have "resourceNetworkingPortSecGroupAssociateV2Read env (d\<lparr>psg_Id := ?pid\<rparr>) ?tr2 = (res, d', tr)"
      by simp
    from psg_Read_trace[OF this] Inr show ?thesis by auto
  qed
  then show ?thesis unfolding opts_def by blast
qed

lemma ex_psg_Create_enforce_run:
  "resourceNetworkingPortSecGroupAssociateV2Create ex_port_env (ex_psgData True) [] =
     (None,
      (ex_psgData True)\<lparr>psg_Id := ''port-1'', psg_security_group_ids := [''sg-a'', ''sg-b''],
         psg_all_security_group_ids := [''sg-a'', ''sg-b''], psg_region := Some ''RegionOne''\<rparr>,
      [E_networkingV2Client ''RegionOne'' None,
       E_ports_Get ''port-1'' (Inr ex_Port),
       E_ports_Update ''port-1'' \<lparr>puo_SecurityGroups = Some [''sg-b'', ''sg-c'']\<rparr> (Inr ex_Port),
       E_networkingV2Client ''RegionOne'' None,
       E_ports_Get ''port-1'' (Inr ex_Port)])"
  by (simp add: resourceNetworkingPortSecGroupAssociateV2Create_def
        resourceNetworkingPortSecGroupAssociateV2Read_def
        ex_port_env_def Let_def ex_psgData_def getS_def GetOkB_def getB_def
        expandToStringSlice_def ex_Port_def)

lemma ex_psg_Create_append_run:
  "resourceNetworkingPortSecGroupAssociateV2Create ex_port_env (ex_psgData False) [] =
     (None,
      (ex_psgData False)\<lparr>psg_Id := ''port-1'',
         psg_all_security_group_ids := [''sg-a'', ''sg-b''], psg_region := Some ''RegionOne''\<rparr>,
      [E_networkingV2Client ''RegionOne'' None,
       E_ports_Get ''port-1'' (Inr ex_Port),
       E_ports_Update ''port-1'' \<lparr>puo_SecurityGroups = Some [''sg-a'', ''sg-b'', ''sg-c'']\<rparr> (Inr ex_Port),
       E_networkingV2Client ''RegionOne'' None,
       E_ports_Get ''port-1'' (Inr ex_Port)])"
  by (simp add: resourceNetworkingPortSecGroupAssociateV2Create_def
        resourceNetworkingPortSecGroupAssociateV2Read_def
        ex_port_env_def Let_def ex_psgData_def getS_def GetOkB_def getB_def
        expandToStringSlice_def ex_Port_def)

lemma ex_ids_both_run:
  "dataSourceImagesImageIdsV2Read ex_img_env (ex_idsData (Some ''cirros'') (Some ''^c'')) [] =
     (Some (ErrOther ''Attributes name and name_regexp can not be used at the same time''),
      ex_idsData (Some ''cirros'') (Some ''^c''),
      [E_ImageV2Client ''RegionOne'' None])"
  by (simp add: dataSourceImagesImageIdsV2Read_def ex_img_env_def Let_def ex_idsData_def
        GetOkS_def getS_def fmt_Errorf_def)

lemma ex_ids_name_run:
  "dataSourceImagesImageIdsV2Read ex_img_env (ex_idsData (Some ''cirros'') None) [] =
     (None,
      (ex_idsData (Some ''cirros'') None)\<lparr>ids_Id := ''11'', ids_ids := [''img-1'', ''img-2'']\<rparr>,
      [E_ImageV2Client ''RegionOne'' None,
       E_images_List
         \<lparr>lo_Name = ''cirros'', lo_Visibility = [], lo_Owner = [], lo_Status = ''active'',
          lo_SizeMin = 0, lo_SizeMax = 0, lo_Sort = [], lo_SortKey = ''name'', lo_SortDir = ''asc'',
          lo_Tags = [], lo_MemberStatus = []\<rparr> None])"
  by (simp add: dataSourceImagesImageIdsV2Read_def ex_img_env_def Let_def ex_idsData_def
        GetOkS_def getS_def getI_def ImageStatusActive_def)

section \<open>Runs in which a call fails\<close>




























section \<open>Create adapters: the error returns\<close>












section \<open>From the error returned to the message it embeds\<close>



section \<open>Monitor Create: the order of the calls\<close>

text \<open>
  C1. In the trace of every invocation of \<open>resourceMonitorV2Create\<close>, whatever
  precedes a call of \<open>monitors.Create\<close> begins with the client, the successful
  \<open>pools.Get\<close> of the parent pool and the successful \<open>waitForLBV2Pool\<close> of that pool
  for \<open>ACTIVE\<close>. If \<open>pools.Get\<close> or \<open>waitForLBV2Pool\<close> fails, Create returns
  diagnostics and the trace has no call of \<open>monitors.Create\<close>.
\<close>

theorem C1_create_after_pool_wait:
  assumes "resourceMonitorV2Create env d [] = (diags, d', tr)"
  shows "(\<forall>pre opts r post. tr = pre @ E_monitors_Create opts r # post \<longrightarrow>
            (\<exists>p. prefix [E_LoadBalancerV2Client (GetRegion env d) None,
                         E_pools_Get (getS (mon_pool_id d)) (Inr p),
                         E_waitForLBV2Pool p ''ACTIVE'' (getLbPendingStatuses env)
                           (mon_Timeout d TimeoutCreate) None] pre))
       \<and> ((\<exists>ev \<in> set tr. failed_pool_step ev) \<longrightarrow>
            diags \<noteq> [] \<and> (\<forall>ev \<in> set tr. \<not> is_monitors_Create ev))"
  using assms
proof (cases rule: Create_cases)
  case (client e)
  then show ?thesis by (auto simp: append_eq_Cons_conv Cons_eq_append_conv)
next
  case (pool e)
  then show ?thesis by (auto simp: append_eq_Cons_conv Cons_eq_append_conv)
next
  case (wait p e)
  then show ?thesis by (auto simp: append_eq_Cons_conv Cons_eq_append_conv)
next
  case (go p rest)
  have a: "\<forall>ev \<in> set rest. \<not> failed_pool_step ev"
    using go(2) by (auto elim!: is_waitForLBV2Monitor.elims is_Read_call.elims)
  have b: "\<And>pre opts r post. tr = pre @ E_monitors_Create opts r # post \<Longrightarrow>
          prefix [E_LoadBalancerV2Client (GetRegion env d) None,
                  E_pools_Get (getS (mon_pool_id d)) (Inr p),
                  E_waitForLBV2Pool p ''ACTIVE'' (getLbPendingStatuses env)
                    (mon_Timeout d TimeoutCreate) None] pre"
    using go(1) by (intro prefix3[where rest = rest]) auto
  have c: "\<not> (\<exists>ev \<in> set tr. failed_pool_step ev)"
    using a go(1) by auto
  show ?thesis
  proof (intro conjI allI impI)
    fix pre opts r post
    assume "tr = pre @ E_monitors_Create opts r # post"
    from b[OF this] show "\<exists>p. prefix [E_LoadBalancerV2Client (GetRegion env d) None,
                  E_pools_Get (getS (mon_pool_id d)) (Inr p),
                  E_waitForLBV2Pool p ''ACTIVE'' (getLbPendingStatuses env)
                    (mon_Timeout d TimeoutCreate) None] pre" by blast
  qed (use c in blast)+
qed

theorem C1_create_after_pool_wait_witness:
  "snd (snd (resourceMonitorV2Create ex_lb_env ex_monitorData [])) =
     [E_LoadBalancerV2Client ''RegionOne'' None,
      E_pools_Get ''pool-1'' (Inr \<lparr>pool_ID = ''pool-1''\<rparr>),
      E_waitForLBV2Pool \<lparr>pool_ID = ''pool-1''\<rparr> ''ACTIVE'' [''PENDING_CREATE'', ''PENDING_UPDATE'']
        (600 * Second) None]
     @ E_monitors_Create (monitor_createOpts ex_monitorData) (Inr ex_Monitor)
     # [E_waitForLBV2Monitor \<lparr>pool_ID = ''pool-1''\<rparr> ex_Monitor ''ACTIVE''
          [''PENDING_CREATE'', ''PENDING_UPDATE''] (600 * Second) None,
        E_LoadBalancerV2Client ''RegionOne'' None,
        E_monitors_Get ''mon-1'' (Inr ex_Monitor)]
   \<and> prefix [E_LoadBalancerV2Client ''RegionOne'' None,
           E_pools_Get ''pool-1'' (Inr \<lparr>pool_ID = ''pool-1''\<rparr>),
           E_waitForLBV2Pool \<lparr>pool_ID = ''pool-1''\<rparr> ''ACTIVE'' [''PENDING_CREATE'', ''PENDING_UPDATE'']
             (600 * Second) None]
          [E_LoadBalancerV2Client ''RegionOne'' None,
           E_pools_Get ''pool-1'' (Inr \<lparr>pool_ID = ''pool-1''\<rparr>),
           E_waitForLBV2Pool \<lparr>pool_ID = ''pool-1''\<rparr> ''ACTIVE'' [''PENDING_CREATE'', ''PENDING_UPDATE'']
             (600 * Second) None]
   \<and> resourceMonitorV2Create ex_lb_env_no_pool ex_monitorData [] =
       ([''Unable to retrieve parent openstack_lb_pool_v2 pool-1: Resource not found''],
        ex_monitorData,
        [E_LoadBalancerV2Client ''RegionOne'' None,
         E_pools_Get ''pool-1'' (Inl (ErrDefault404 ''Resource not found''))])"
proof -
  have fail: "resourceMonitorV2Create ex_lb_env_no_pool ex_monitorData [] =
       ([''Unable to retrieve parent openstack_lb_pool_v2 pool-1: Resource not found''],
        ex_monitorData,
        [E_LoadBalancerV2Client ''RegionOne'' None,
         E_pools_Get ''pool-1'' (Inl (ErrDefault404 ''Resource not found''))])"
    by (simp add: resourceMonitorV2Create_def ex_lb_env_no_pool_def ex_lb_env_def Let_def
        diag_Errorf_def getS_def ex_monitorData_def)
  have eq: "[E_LoadBalancerV2Client ''RegionOne'' None,
       E_pools_Get ''pool-1'' (Inr \<lparr>pool_ID = ''pool-1''\<rparr>),
       E_waitForLBV2Pool \<lparr>pool_ID = ''pool-1''\<rparr> ''ACTIVE'' [''PENDING_CREATE'', ''PENDING_UPDATE'']
         (600 * Second) None,
       E_monitors_Create (monitor_createOpts ex_monitorData) (Inr ex_Monitor),
       E_waitForLBV2Monitor \<lparr>pool_ID = ''pool-1''\<rparr> ex_Monitor ''ACTIVE''
         [''PENDING_CREATE'', ''PENDING_UPDATE''] (600 * Second) None,
       E_LoadBalancerV2Client ''RegionOne'' None,
       E_monitors_Get ''mon-1'' (Inr ex_Monitor)]
     = [E_LoadBalancerV2Client ''RegionOne'' None,
        E_pools_Get ''pool-1'' (Inr \<lparr>pool_ID = ''pool-1''\<rparr>),
        E_waitForLBV2Pool \<lparr>pool_ID = ''pool-1''\<rparr> ''ACTIVE'' [''PENDING_CREATE'', ''PENDING_UPDATE'']
          (600 * Second) None]
       @ E_monitors_Create (monitor_createOpts ex_monitorData) (Inr ex_Monitor)
       # [E_waitForLBV2Monitor \<lparr>pool_ID = ''pool-1''\<rparr> ex_Monitor ''ACTIVE''
            [''PENDING_CREATE'', ''PENDING_UPDATE''] (600 * Second) None,
          E_LoadBalancerV2Client ''RegionOne'' None,
          E_monitors_Get ''mon-1'' (Inr ex_Monitor)]" by simp
  have "prefix [E_LoadBalancerV2Client ''RegionOne'' None,
           E_pools_Get ''pool-1'' (Inr \<lparr>pool_ID = ''pool-1''\<rparr>),
           E_waitForLBV2Pool \<lparr>pool_ID = ''pool-1''\<rparr> ''ACTIVE'' [''PENDING_CREATE'', ''PENDING_UPDATE'']
             (600 * Second) None]
          [E_LoadBalancerV2Client ''RegionOne'' None,
           E_pools_Get ''pool-1'' (Inr \<lparr>pool_ID = ''pool-1''\<rparr>),
           E_waitForLBV2Pool \<lparr>pool_ID = ''pool-1''\<rparr> ''ACTIVE'' [''PENDING_CREATE'', ''PENDING_UPDATE'']
             (600 * Second) None]"
    using C1_create_after_pool_wait[OF ex_Create_run, THEN conjunct1, rule_format, OF eq]
    by simp
  moreover have "[''Unable to retrieve parent openstack_lb_pool_v2 pool-1: Resource not found''] \<noteq> []"
    using C1_create_after_pool_wait[OF fail] by simp
  ultimately show ?thesis using fail by (simp add: ex_Create_run)
qed

section \<open>SDK errors and what the adapters return\<close>




section \<open>Monitor Create: the options sent\<close>



section \<open>Database instance Create: waiting for ACTIVE\<close>

text \<open>
  C4. In every invocation of \<open>resourceDatabaseInstanceV1Create\<close> in which
  \<open>instances.Create\<close> succeeds, the adapter next runs \<open>WaitForState\<close> with the pending
  state \<open>BUILD\<close>, the target state \<open>ACTIVE\<close> and
  \<open>DatabaseInstanceV1StateRefreshFunc\<close> of the new instance. If that wait returns an
  error (the refresh fails, the state is unexpected, or the timeout passes), Create
  returns an error and leaves the resource data, the ID with it, as it was. If the wait
  succeeds, its last refresh has read the status \<open>ACTIVE\<close>, and only then is the ID set
  and the resource read.
\<close>

theorem C4_db_create_waits_for_active:
  assumes run: "resourceDatabaseInstanceV1Create env d [] = (res, d', tr)"
      and created: "E_instances_Create opts (Inr instance) \<in> set tr"
  shows "\<exists>w tr2.
           WaitForState (refreshes_within env)
             \<lparr>Pending = [''BUILD''], Target = [''ACTIVE''],
              Timeout = db_Timeout d TimeoutCreate, Delay = 10 * Second, MinTimeout = 3 * Second\<rparr>
             (DatabaseInstanceV1StateRefreshFunc env (i_ID instance))
             [E_databaseV1Client (db_GetRegion env d) None, E_instances_Create opts (Inr instance)]
           = (w, tr2)
         \<and> (\<forall>err. w = Some err \<longrightarrow>
                res = Some (fmt_Errorf (''Error waiting for instance ('' @ i_ID instance
                              @ '') to become ready: '' @ errorString err))
                \<and> d' = d \<and> tr = tr2)
         \<and> (w = None \<longrightarrow>
                (\<exists>i. last tr2 = E_instances_Get (i_ID instance) (Inr i) \<and> i_Status i = ''ACTIVE'')
                \<and> resourceDatabaseInstanceV1Read env (d\<lparr>db_Id := i_ID instance\<rparr>) tr2 = (res, d', tr))"
proof (cases "databaseV1Client env [] (db_GetRegion env d)")
  case (Some e)
  with run created show ?thesis
    by (auto simp: resourceDatabaseInstanceV1Create_def Let_def)
next
  case None
  note c = this
  let ?tr0 = "[E_databaseV1Client (db_GetRegion env d) None]"
  show ?thesis
  proof (cases "instances_Create env ?tr0 (db_createOpts d)")
    case (Inl e)
    with c run created show ?thesis
      by (auto simp: resourceDatabaseInstanceV1Create_def Let_def)
  next
    case (Inr inst0)
    note cr = this
    let ?tr1 = "[E_databaseV1Client (db_GetRegion env d) None,
                 E_instances_Create (db_createOpts d) (Inr inst0)]"
    let ?conf = "\<lparr>Pending = [''BUILD''], Target = [''ACTIVE''],
              Timeout = db_Timeout d TimeoutCreate, Delay = 10 * Second, MinTimeout = 3 * Second\<rparr>"
    obtain w tr2 where
      p: "WaitForState (refreshes_within env) ?conf
            (DatabaseInstanceV1StateRefreshFunc env (i_ID inst0)) ?tr1 = (w, tr2)"
      by (metis prod.exhaust)
    from p obtain evs where
      evs: "tr2 = ?tr1 @ evs" "\<forall>ev \<in> set evs. \<exists>r. ev = E_instances_Get (i_ID inst0) r"
      unfolding WaitForState_def using poll_trace by blast
    have res: "(case w of
                  Some err \<Rightarrow>
                    (Some (fmt_Errorf (''Error waiting for instance ('' @ i_ID inst0
                              @ '') to become ready: '' @ errorString err)), d, tr2)
                | None \<Rightarrow> resourceDatabaseInstanceV1Read env (d\<lparr>db_Id := i_ID inst0\<rparr>) tr2)
               = (res, d', tr)"
      using c cr p run
      by (auto simp: resourceDatabaseInstanceV1Create_def Let_def split: option.splits)
    have "\<exists>more. tr = tr2 @ more \<and> (\<forall>ev \<in> set more. \<not> is_instances_Create ev)"
    proof (cases w)
      case (Some err)
      with res show ?thesis by simp
    next
      case None
      with res have "resourceDatabaseInstanceV1Read env (d\<lparr>db_Id := i_ID inst0\<rparr>) tr2 = (res, d', tr)"
        by simp
      from db_Read_trace[OF this] show ?thesis .
    qed
    then obtain more where more: "tr = tr2 @ more" "\<forall>ev \<in> set more. \<not> is_instances_Create ev"
      by blast
    from created evs more have same: "opts = db_createOpts d" "instance = inst0"
      by auto
    have act: "w = None \<Longrightarrow>
                 \<exists>i. last tr2 = E_instances_Get (i_ID inst0) (Inr i) \<and> i_Status i = ''ACTIVE''"
      using p poll_active[of ?conf env "i_ID inst0" _ 0 "[]" ?tr1 tr2]
      unfolding WaitForState_def by auto
    show ?thesis
      unfolding same using p res act by (intro exI[of _ w] exI[of _ tr2]) auto
  qed
qed

theorem C4_db_create_waits_for_active_witness:
  "E_instances_Create (db_createOpts ex_dbData) (Inr (ex_Instance ''BUILD''))
     \<in> set (snd (snd (resourceDatabaseInstanceV1Create ex_db_env ex_dbData [])))
   \<and> resourceDatabaseInstanceV1Read ex_db_env (ex_dbData\<lparr>db_Id := ''inst-1''\<rparr>)
       [E_databaseV1Client ''RegionOne'' None,
        E_instances_Create (db_createOpts ex_dbData) (Inr (ex_Instance ''BUILD'')),
        E_instances_Get ''inst-1'' (Inr (ex_Instance ''BUILD'')),
        E_instances_Get ''inst-1'' (Inr (ex_Instance ''ACTIVE''))]
     = resourceDatabaseInstanceV1Create ex_db_env ex_dbData []
   \<and> db_Id (fst (snd (resourceDatabaseInstanceV1Create ex_db_env ex_dbData []))) = ''inst-1''
   \<and> E_instances_Create (db_createOpts ex_dbData) (Inr (ex_Instance ''BUILD''))
     \<in> set (snd (snd (resourceDatabaseInstanceV1Create ex_db_env_slow ex_dbData [])))
   \<and> fst (resourceDatabaseInstanceV1Create ex_db_env_slow ex_dbData [])
     = Some (fmt_Errorf (''Error waiting for instance (inst-1) to become ready: ''
                          @ errorString (TimeoutError [''ACTIVE''] ''BUILD'' (600 * Second))))
   \<and> db_Id (fst (snd (resourceDatabaseInstanceV1Create ex_db_env_slow ex_dbData []))) = []"
proof -
  have m1: "E_instances_Create (db_createOpts ex_dbData) (Inr (ex_Instance ''BUILD''))
     \<in> set [E_databaseV1Client ''RegionOne'' None,
       E_instances_Create (db_createOpts ex_dbData) (Inr (ex_Instance ''BUILD'')),
       E_instances_Get ''inst-1'' (Inr (ex_Instance ''BUILD'')),
       E_instances_Get ''inst-1'' (Inr (ex_Instance ''ACTIVE'')),
       E_databaseV1Client ''RegionOne'' None,
       E_instances_Get ''inst-1'' (Inr (ex_Instance ''ACTIVE''))]" by simp
  have m2: "E_instances_Create (db_createOpts ex_dbData) (Inr (ex_Instance ''BUILD''))
     \<in> set [E_databaseV1Client ''RegionOne'' None,
       E_instances_Create (db_createOpts ex_dbData) (Inr (ex_Instance ''BUILD'')),
       E_instances_Get ''inst-1'' (Inr (ex_Instance ''BUILD'')),
       E_instances_Get ''inst-1'' (Inr (ex_Instance ''BUILD'')),
       E_instances_Get ''inst-1'' (Inr (ex_Instance ''BUILD''))]" by simp
  have id: "i_ID (ex_Instance ''BUILD'') = ''inst-1''" by (simp add: ex_Instance_def)
  from C4_db_create_waits_for_active[OF ex_db_Create_run m1]
  have a: "resourceDatabaseInstanceV1Read ex_db_env (ex_dbData\<lparr>db_Id := ''inst-1''\<rparr>)
       [E_databaseV1Client ''RegionOne'' None,
        E_instances_Create (db_createOpts ex_dbData) (Inr (ex_Instance ''BUILD'')),
        E_instances_Get ''inst-1'' (Inr (ex_Instance ''BUILD'')),
        E_instances_Get ''inst-1'' (Inr (ex_Instance ''ACTIVE''))]
     = resourceDatabaseInstanceV1Create ex_db_env ex_dbData []"
    by (simp add: ex_db_wait id ex_db_Create_run)
  from C4_db_create_waits_for_active[OF ex_db_Create_slow_run m2]
  have b: "fst (resourceDatabaseInstanceV1Create ex_db_env_slow ex_dbData [])
     = Some (fmt_Errorf (''Error waiting for instance (inst-1) to become ready: ''
                          @ errorString (TimeoutError [''ACTIVE''] ''BUILD'' (600 * Second))))"
    by (simp add: ex_db_wait_slow id ex_db_Create_slow_run)
  show ?thesis
    using a b m1 m2 by (simp add: ex_db_Create_run ex_db_Create_slow_run) (simp add: ex_dbData_def)
qed

section \<open>Monitor Read: what is written to the state\<close>

text \<open>
  C5. When \<open>monitors.Get\<close> returns a monitor, \<open>resourceMonitorV2Read\<close> returns no
  diagnostics and sets \<open>tenant_id\<close>, \<open>type\<close>, \<open>delay\<close>, \<open>timeout\<close>, \<open>max_retries\<close>,
  \<open>max_retries_down\<close>, \<open>url_path\<close>, \<open>http_method\<close>, \<open>expected_codes\<close>,
  \<open>admin_state_up\<close> and \<open>name\<close> from the response. It sets \<open>pool_id\<close> to the ID of the
  first pool of the response when the response lists a pool and that ID is not empty;
  otherwise \<open>pool_id\<close> stays as it was. The resource ID is not changed.
\<close>

theorem C5_read_sets_state:
  assumes "LoadBalancerV2Client env tr (GetRegion env d) = None"
      and "monitors_Get env (tr @ [E_LoadBalancerV2Client (GetRegion env d) None]) (mon_Id d) = Inr monitor"
      and "resourceMonitorV2Read env d tr = (diags, d', tr')"
  shows "diags = []
       \<and> mon_tenant_id d' = Some (m_ProjectID monitor)
       \<and> mon_type d' = Some (m_Type monitor)
       \<and> mon_delay d' = Some (m_Delay monitor)
       \<and> mon_timeout d' = Some (m_Timeout monitor)
       \<and> mon_max_retries d' = Some (m_MaxRetries monitor)
       \<and> mon_max_retries_down d' = Some (m_MaxRetriesDown monitor)
       \<and> mon_url_path d' = Some (m_URLPath monitor)
       \<and> mon_http_method d' = Some (m_HTTPMethod monitor)
       \<and> mon_expected_codes d' = Some (m_ExpectedCodes monitor)
       \<and> mon_admin_state_up d' = Some (m_AdminStateUp monitor)
       \<and> mon_name d' = Some (m_Name monitor)
       \<and> mon_pool_id d' =
            (if m_Pools monitor \<noteq> [] \<and> pid_ID (hd (m_Pools monitor)) \<noteq> []
             then Some (pid_ID (hd (m_Pools monitor)))
             else mon_pool_id d)
       \<and> mon_Id d' = mon_Id d"
  using assms
  by (auto simp: resourceMonitorV2Read_def Let_def hd_conv_nth)

theorem C5_read_sets_state_witness:
  "LoadBalancerV2Client ex_lb_env [] ''RegionOne'' = None
   \<and> monitors_Get ex_lb_env [E_LoadBalancerV2Client ''RegionOne'' None] [] = Inr ex_Monitor
   \<and> mon_pool_id (fst (snd (resourceMonitorV2Read ex_lb_env (ex_monitorData\<lparr>mon_pool_id := None\<rparr>) [])))
       = Some ''pool-1''
   \<and> mon_tenant_id (fst (snd (resourceMonitorV2Read ex_lb_env (ex_monitorData\<lparr>mon_pool_id := None\<rparr>) [])))
       = Some ''tenant-1''"
proof -
  have c: "LoadBalancerV2Client ex_lb_env []
             (GetRegion ex_lb_env (ex_monitorData\<lparr>mon_pool_id := None\<rparr>)) = None"
    by (simp add: ex_lb_env_def)
  have g: "monitors_Get ex_lb_env
             ([] @ [E_LoadBalancerV2Client (GetRegion ex_lb_env (ex_monitorData\<lparr>mon_pool_id := None\<rparr>)) None])
             (mon_Id (ex_monitorData\<lparr>mon_pool_id := None\<rparr>)) = Inr ex_Monitor"
    by (simp add: ex_lb_env_def)
  have c0: "LoadBalancerV2Client ex_lb_env [] ''RegionOne'' = None"
    by (simp add: ex_lb_env_def)
  have g0: "monitors_Get ex_lb_env [E_LoadBalancerV2Client ''RegionOne'' None] [] = Inr ex_Monitor"
    by (simp add: ex_lb_env_def)
  from C5_read_sets_state[OF c g ex_Read_run] show ?thesis
    by (simp add: ex_Read_run c0 g0 ex_Monitor_def)
qed

section \<open>Monitor Update: when the update is sent\<close>

text \<open>
  C6, as stated: \<open>monitors.Update\<close> is called if and only if one of the nine tracked
  attributes has changed. The direction from a change to the call fails: here
  \<open>url_path\<close> has changed, \<open>pools.Get\<close> of the parent pool fails, and Update returns the
  diagnostics after two calls, none of them \<open>monitors.Update\<close>.
\<close>

theorem C6_update_iff_changed_counterexample:
  "mon_HasChange ex_monitorData_changed ''url_path''
   \<and> resourceMonitorV2Update ex_lb_env_no_pool ex_monitorData_changed [] =
     ([''Unable to retrieve parent openstack_lb_pool_v2 pool-1: Resource not found''],
      ex_monitorData_changed,
      [E_LoadBalancerV2Client ''RegionOne'' None,
       E_pools_Get ''pool-1'' (Inl (ErrDefault404 ''Resource not found''))])"
  by (simp add: ex_Update_no_pool_run) (simp add: ex_monitorData_changed_def)

text \<open>
  C6, amended. \<open>monitors.Update\<close> is called only if one of the nine tracked attributes
  has changed. When one has changed, and the client, \<open>pools.Get\<close>, \<open>monitors.Get\<close>, the
  wait for the pool and the wait for the monitor succeed, and the timeout leaves room for
  one attempt, \<open>monitors.Update\<close> is called with the ID and the options built, right
  after these calls. When none has changed, Update makes no call but those of Read (no
  \<open>monitors.Update\<close>, no \<open>pools.Get\<close>, no wait), and once its client is built it
  returns what Read returns. When a step before the update fails, Update returns the
  diagnostics of that step, leaves the resource data as it is, and has made the calls up
  to that step and no other, so no \<open>monitors.Update\<close>: this holds when the client
  cannot be built and, with an attribute changed, when \<open>pools.Get\<close> fails, when
  \<open>monitors.Get\<close> fails, when the wait for the pool fails, when the wait for the
  monitor fails, and when the timeout leaves no room for an attempt (the error is then
  the timeout error of \<open>resource.Retry\<close>).
\<close>

theorem C6_update_only_on_change:
  assumes run: "resourceMonitorV2Update env d [] = (diags, d', tr)"
  shows "((\<exists>ev \<in> set tr. is_monitors_Update ev) \<longrightarrow> (\<exists>k \<in> set monitor_tracked. mon_HasChange d k))
   \<and> ((\<exists>k \<in> set monitor_tracked. mon_HasChange d k)
        \<and> LoadBalancerV2Client env [] (GetRegion env d) = None
        \<and> pools_Get env [E_LoadBalancerV2Client (GetRegion env d) None] (getS (mon_pool_id d)) = Inr p
        \<and> monitors_Get env
             [E_LoadBalancerV2Client (GetRegion env d) None,
              E_pools_Get (getS (mon_pool_id d)) (Inr p)] (mon_Id d) = Inr m
        \<and> waitForLBV2Pool env
             [E_LoadBalancerV2Client (GetRegion env d) None,
              E_pools_Get (getS (mon_pool_id d)) (Inr p),
              E_monitors_Get (mon_Id d) (Inr m)]
             p ''ACTIVE'' (getLbPendingStatuses env) (mon_Timeout d TimeoutUpdate) = None
        \<and> waitForLBV2Monitor env
             [E_LoadBalancerV2Client (GetRegion env d) None,
              E_pools_Get (getS (mon_pool_id d)) (Inr p),
              E_monitors_Get (mon_Id d) (Inr m),
              E_waitForLBV2Pool p ''ACTIVE'' (getLbPendingStatuses env)
                (mon_Timeout d TimeoutUpdate) None]
             p m ''ACTIVE'' (getLbPendingStatuses env) (mon_Timeout d TimeoutUpdate) = None
        \<and> 0 < attempts_within env (mon_Timeout d TimeoutUpdate)
      \<longrightarrow> (\<exists>r rest. tr =
             [E_LoadBalancerV2Client (GetRegion env d) None,
              E_pools_Get (getS (mon_pool_id d)) (Inr p),
              E_monitors_Get (mon_Id d) (Inr m),
              E_waitForLBV2Pool p ''ACTIVE'' (getLbPendingStatuses env)
                (mon_Timeout d TimeoutUpdate) None,
              E_waitForLBV2Monitor p m ''ACTIVE'' (getLbPendingStatuses env)
                (mon_Timeout d TimeoutUpdate) None]
             @ E_monitors_Update (mon_Id d) (snd (update_opts d)) r # rest))
   \<and> (\<not> (\<exists>k \<in> set monitor_tracked. mon_HasChange d k) \<longrightarrow>
        (\<forall>ev \<in> set tr. is_Read_call ev)
        \<and> (LoadBalancerV2Client env [] (GetRegion env d) = None \<longrightarrow>
             resourceMonitorV2Read env d [E_LoadBalancerV2Client (GetRegion env d) None]
               = (diags, d', tr)))
   \<and> (LoadBalancerV2Client env [] (GetRegion env d) = Some e
      \<longrightarrow> diags = diag_Errorf (''Error creating OpenStack networking client: '' @ errorString e)
         \<and> d' = d
         \<and> tr = [E_LoadBalancerV2Client (GetRegion env d) (Some e)])
   \<and> ((\<exists>k \<in> set monitor_tracked. mon_HasChange d k)
        \<and> LoadBalancerV2Client env [] (GetRegion env d) = None
        \<and> pools_Get env [E_LoadBalancerV2Client (GetRegion env d) None] (getS (mon_pool_id d)) = Inl e
      \<longrightarrow> diags = diag_Errorf (''Unable to retrieve parent openstack_lb_pool_v2 '' @ getS (mon_pool_id d)
                       @ '': '' @ errorString e)
         \<and> d' = d
         \<and> tr = [E_LoadBalancerV2Client (GetRegion env d) None,
               E_pools_Get (getS (mon_pool_id d)) (Inl e)])
   \<and> ((\<exists>k \<in> set monitor_tracked. mon_HasChange d k)
        \<and> LoadBalancerV2Client env [] (GetRegion env d) = None
        \<and> pools_Get env [E_LoadBalancerV2Client (GetRegion env d) None] (getS (mon_pool_id d)) = Inr p
        \<and> monitors_Get env
        [E_LoadBalancerV2Client (GetRegion env d) None,
         E_pools_Get (getS (mon_pool_id d)) (Inr p)] (mon_Id d) = Inl e
      \<longrightarrow> diags = diag_Errorf (''Unable to retrieve openstack_lb_monitor_v2 '' @ mon_Id d
                       @ '': '' @ errorString e)
         \<and> d' = d
         \<and> tr = [E_LoadBalancerV2Client (GetRegion env d) None,
               E_pools_Get (getS (mon_pool_id d)) (Inr p),
               E_monitors_Get (mon_Id d) (Inl e)])
   \<and> ((\<exists>k \<in> set monitor_tracked. mon_HasChange d k)
        \<and> LoadBalancerV2Client env [] (GetRegion env d) = None
        \<and> pools_Get env [E_LoadBalancerV2Client (GetRegion env d) None] (getS (mon_pool_id d)) = Inr p
        \<and> monitors_Get env
        [E_LoadBalancerV2Client (GetRegion env d) None,
         E_pools_Get (getS (mon_pool_id d)) (Inr p)] (mon_Id d) = Inr m
        \<and> waitForLBV2Pool env
        [E_LoadBalancerV2Client (GetRegion env d) None,
         E_pools_Get (getS (mon_pool_id d)) (Inr p),
         E_monitors_Get (mon_Id d) (Inr m)]
        p ''ACTIVE'' (getLbPendingStatuses env) (mon_Timeout d TimeoutUpdate) = Some e
      \<longrightarrow> diags = diag_FromErr (Some e)
         \<and> d' = d
         \<and> tr = [E_LoadBalancerV2Client (GetRegion env d) None,
               E_pools_Get (getS (mon_pool_id d)) (Inr p),
               E_monitors_Get (mon_Id d) (Inr m),
               E_waitForLBV2Pool p ''ACTIVE'' (getLbPendingStatuses env) (mon_Timeout d TimeoutUpdate) (Some e)])
   \<and> ((\<exists>k \<in> set monitor_tracked. mon_HasChange d k)
        \<and> LoadBalancerV2Client env [] (GetRegion env d) = None
        \<and> pools_Get env [E_LoadBalancerV2Client (GetRegion env d) None] (getS (mon_pool_id d)) = Inr p
        \<and> monitors_Get env
        [E_LoadBalancerV2Client (GetRegion env d) None,
         E_pools_Get (getS (mon_pool_id d)) (Inr p)] (mon_Id d) = Inr m
        \<and> waitForLBV2Pool env
        [E_LoadBalancerV2Client (GetRegion env d) None,
         E_pools_Get (getS (mon_pool_id d)) (Inr p),
         E_monitors_Get (mon_Id d) (Inr m)]
        p ''ACTIVE'' (getLbPendingStatuses env) (mon_Timeout d TimeoutUpdate) = None
        \<and> waitForLBV2Monitor env
        [E_LoadBalancerV2Client (GetRegion env d) None,
         E_pools_Get (getS (mon_pool_id d)) (Inr p),
         E_monitors_Get (mon_Id d) (Inr m),
         E_waitForLBV2Pool p ''ACTIVE'' (getLbPendingStatuses env) (mon_Timeout d TimeoutUpdate) None]
        p m ''ACTIVE'' (getLbPendingStatuses env) (mon_Timeout d TimeoutUpdate) = Some e
      \<longrightarrow> diags = diag_FromErr (Some e)
         \<and> d' = d
         \<and> tr = [E_LoadBalancerV2Client (GetRegion env d) None,
               E_pools_Get (getS (mon_pool_id d)) (Inr p),
               E_monitors_Get (mon_Id d) (Inr m),
               E_waitForLBV2Pool p ''ACTIVE'' (getLbPendingStatuses env) (mon_Timeout d TimeoutUpdate) None,
               E_waitForLBV2Monitor p m ''ACTIVE'' (getLbPendingStatuses env) (mon_Timeout d TimeoutUpdate) (Some e)])
   \<and> ((\<exists>k \<in> set monitor_tracked. mon_HasChange d k)
        \<and> LoadBalancerV2Client env [] (GetRegion env d) = None
        \<and> pools_Get env [E_LoadBalancerV2Client (GetRegion env d) None] (getS (mon_pool_id d)) = Inr p
        \<and> monitors_Get env
        [E_LoadBalancerV2Client (GetRegion env d) None,
         E_pools_Get (getS (mon_pool_id d)) (Inr p)] (mon_Id d) = Inr m
        \<and> waitForLBV2Pool env
        [E_LoadBalancerV2Client (GetRegion env d) None,
         E_pools_Get (getS (mon_pool_id d)) (Inr p),
         E_monitors_Get (mon_Id d) (Inr m)]
        p ''ACTIVE'' (getLbPendingStatuses env) (mon_Timeout d TimeoutUpdate) = None
        \<and> waitForLBV2Monitor env
        [E_LoadBalancerV2Client (GetRegion env d) None,
         E_pools_Get (getS (mon_pool_id d)) (Inr p),
         E_monitors_Get (mon_Id d) (Inr m),
         E_waitForLBV2Pool p ''ACTIVE'' (getLbPendingStatuses env) (mon_Timeout d TimeoutUpdate) None]
        p m ''ACTIVE'' (getLbPendingStatuses env) (mon_Timeout d TimeoutUpdate) = None
        \<and> attempts_within env (mon_Timeout d TimeoutUpdate) = 0
      \<longrightarrow> diags = diag_Errorf (''Unable to update openstack_lb_monitor_v2 '' @ mon_Id d @ '': ''
                       @ errorString (TimeoutError [''success''] [] (mon_Timeout d TimeoutUpdate)))
         \<and> d' = d
         \<and> tr = [E_LoadBalancerV2Client (GetRegion env d) None,
               E_pools_Get (getS (mon_pool_id d)) (Inr p),
               E_monitors_Get (mon_Id d) (Inr m),
               E_waitForLBV2Pool p ''ACTIVE'' (getLbPendingStatuses env) (mon_Timeout d TimeoutUpdate) None,
               E_waitForLBV2Monitor p m ''ACTIVE'' (getLbPendingStatuses env) (mon_Timeout d TimeoutUpdate) None])"
proof -
  have old: "((\<exists>ev \<in> set tr. is_monitors_Update ev) \<longrightarrow> (\<exists>k \<in> set monitor_tracked. mon_HasChange d k))
   \<and> ((\<exists>k \<in> set monitor_tracked. mon_HasChange d k)
        \<and> LoadBalancerV2Client env [] (GetRegion env d) = None
        \<and> pools_Get env [E_LoadBalancerV2Client (GetRegion env d) None] (getS (mon_pool_id d)) = Inr p
        \<and> monitors_Get env
             [E_LoadBalancerV2Client (GetRegion env d) None,
              E_pools_Get (getS (mon_pool_id d)) (Inr p)] (mon_Id d) = Inr m
        \<and> waitForLBV2Pool env
             [E_LoadBalancerV2Client (GetRegion env d) None,
              E_pools_Get (getS (mon_pool_id d)) (Inr p),
              E_monitors_Get (mon_Id d) (Inr m)]
             p ''ACTIVE'' (getLbPendingStatuses env) (mon_Timeout d TimeoutUpdate) = None
        \<and> waitForLBV2Monitor env
             [E_LoadBalancerV2Client (GetRegion env d) None,
              E_pools_Get (getS (mon_pool_id d)) (Inr p),
              E_monitors_Get (mon_Id d) (Inr m),
              E_waitForLBV2Pool p ''ACTIVE'' (getLbPendingStatuses env)
                (mon_Timeout d TimeoutUpdate) None]
             p m ''ACTIVE'' (getLbPendingStatuses env) (mon_Timeout d TimeoutUpdate) = None
        \<and> 0 < attempts_within env (mon_Timeout d TimeoutUpdate)
      \<longrightarrow> (\<exists>r rest. tr =
             [E_LoadBalancerV2Client (GetRegion env d) None,
              E_pools_Get (getS (mon_pool_id d)) (Inr p),
              E_monitors_Get (mon_Id d) (Inr m),
              E_waitForLBV2Pool p ''ACTIVE'' (getLbPendingStatuses env)
                (mon_Timeout d TimeoutUpdate) None,
              E_waitForLBV2Monitor p m ''ACTIVE'' (getLbPendingStatuses env)
                (mon_Timeout d TimeoutUpdate) None]
             @ E_monitors_Update (mon_Id d) (snd (update_opts d)) r # rest))
   \<and> (\<not> (\<exists>k \<in> set monitor_tracked. mon_HasChange d k) \<longrightarrow>
        (\<forall>ev \<in> set tr. is_Read_call ev)
        \<and> (LoadBalancerV2Client env [] (GetRegion env d) = None \<longrightarrow>
             resourceMonitorV2Read env d [E_LoadBalancerV2Client (GetRegion env d) None]
               = (diags, d', tr)))"
  proof (intro conjI impI)
  assume "\<exists>ev \<in> set tr. is_monitors_Update ev"
  then show "\<exists>k \<in> set monitor_tracked. mon_HasChange d k"
    using Update_event_changed[OF run] update_opts_fst by blast
next
  assume a: "(\<exists>k \<in> set monitor_tracked. mon_HasChange d k)
        \<and> LoadBalancerV2Client env [] (GetRegion env d) = None
        \<and> pools_Get env [E_LoadBalancerV2Client (GetRegion env d) None] (getS (mon_pool_id d)) = Inr p
        \<and> monitors_Get env
             [E_LoadBalancerV2Client (GetRegion env d) None,
              E_pools_Get (getS (mon_pool_id d)) (Inr p)] (mon_Id d) = Inr m
        \<and> waitForLBV2Pool env
             [E_LoadBalancerV2Client (GetRegion env d) None,
              E_pools_Get (getS (mon_pool_id d)) (Inr p),
              E_monitors_Get (mon_Id d) (Inr m)]
             p ''ACTIVE'' (getLbPendingStatuses env) (mon_Timeout d TimeoutUpdate) = None
        \<and> waitForLBV2Monitor env
             [E_LoadBalancerV2Client (GetRegion env d) None,
              E_pools_Get (getS (mon_pool_id d)) (Inr p),
              E_monitors_Get (mon_Id d) (Inr m),
              E_waitForLBV2Pool p ''ACTIVE'' (getLbPendingStatuses env)
                (mon_Timeout d TimeoutUpdate) None]
             p m ''ACTIVE'' (getLbPendingStatuses env) (mon_Timeout d TimeoutUpdate) = None
        \<and> 0 < attempts_within env (mon_Timeout d TimeoutUpdate)"
  then have "fst (update_opts d)" by (simp add: update_opts_fst)
  with a show "\<exists>r rest. tr =
             [E_LoadBalancerV2Client (GetRegion env d) None,
              E_pools_Get (getS (mon_pool_id d)) (Inr p),
              E_monitors_Get (mon_Id d) (Inr m),
              E_waitForLBV2Pool p ''ACTIVE'' (getLbPendingStatuses env)
                (mon_Timeout d TimeoutUpdate) None,
              E_waitForLBV2Monitor p m ''ACTIVE'' (getLbPendingStatuses env)
                (mon_Timeout d TimeoutUpdate) None]
             @ E_monitors_Update (mon_Id d) (snd (update_opts d)) r # rest"
    by (intro Update_changed[OF _ _ _ _ _ _ _ run]) simp_all
next
  assume "\<not> (\<exists>k \<in> set monitor_tracked. mon_HasChange d k)"
  then have n: "\<not> fst (update_opts d)" by (simp add: update_opts_fst)
  from Update_unchanged[OF n run] show "\<forall>ev \<in> set tr. is_Read_call ev" by blast
next
  assume "\<not> (\<exists>k \<in> set monitor_tracked. mon_HasChange d k)"
     and c: "LoadBalancerV2Client env [] (GetRegion env d) = None"
  then have n: "\<not> fst (update_opts d)" by (simp add: update_opts_fst)
  from Update_unchanged[OF n run] c
  show "resourceMonitorV2Read env d [E_LoadBalancerV2Client (GetRegion env d) None] = (diags, d', tr)"
    by blast
  qed
  have f0: "(LoadBalancerV2Client env [] (GetRegion env d) = Some e
        \<longrightarrow> diags = diag_Errorf (''Error creating OpenStack networking client: '' @ errorString e)
           \<and> d' = d
           \<and> tr = [E_LoadBalancerV2Client (GetRegion env d) (Some e)])"
    by (intro impI, (elim conjE)?, rule Update_failure(1)[OF run]) (simp_all add: update_opts_fst)
  have f1: "((\<exists>k \<in> set monitor_tracked. mon_HasChange d k)
          \<and> LoadBalancerV2Client env [] (GetRegion env d) = None
          \<and> pools_Get env [E_LoadBalancerV2Client (GetRegion env d) None] (getS (mon_pool_id d)) = Inl e
        \<longrightarrow> diags = diag_Errorf (''Unable to retrieve parent openstack_lb_pool_v2 '' @ getS (mon_pool_id d)
                         @ '': '' @ errorString e)
           \<and> d' = d
           \<and> tr = [E_LoadBalancerV2Client (GetRegion env d) None,
                 E_pools_Get (getS (mon_pool_id d)) (Inl e)])"
    by (intro impI, (elim conjE)?, rule Update_failure(2)[OF run]) (simp_all add: update_opts_fst)
  have f2: "((\<exists>k \<in> set monitor_tracked. mon_HasChange d k)
          \<and> LoadBalancerV2Client env [] (GetRegion env d) = None
          \<and> pools_Get env [E_LoadBalancerV2Client (GetRegion env d) None] (getS (mon_pool_id d)) = Inr p
          \<and> monitors_Get env
          [E_LoadBalancerV2Client (GetRegion env d) None,
           E_pools_Get (getS (mon_pool_id d)) (Inr p)] (mon_Id d) = Inl e
        \<longrightarrow> diags = diag_Errorf (''Unable to retrieve openstack_lb_monitor_v2 '' @ mon_Id d
                         @ '': '' @ errorString e)
           \<and> d' = d
           \<and> tr = [E_LoadBalancerV2Client (GetRegion env d) None,
                 E_pools_Get (getS (mon_pool_id d)) (Inr p),
                 E_monitors_Get (mon_Id d) (Inl e)])"
    by (intro impI, (elim conjE)?, rule Update_failure(3)[OF run]) (simp_all add: update_opts_fst)
  have f3: "((\<exists>k \<in> set monitor_tracked. mon_HasChange d k)
          \<and> LoadBalancerV2Client env [] (GetRegion env d) = None
          \<and> pools_Get env [E_LoadBalancerV2Client (GetRegion env d) None] (getS (mon_pool_id d)) = Inr p
          \<and> monitors_Get env
          [E_LoadBalancerV2Client (GetRegion env d) None,
           E_pools_Get (getS (mon_pool_id d)) (Inr p)] (mon_Id d) = Inr m
          \<and> waitForLBV2Pool env
          [E_LoadBalancerV2Client (GetRegion env d) None,
           E_pools_Get (getS (mon_pool_id d)) (Inr p),
           E_monitors_Get (mon_Id d) (Inr m)]
          p ''ACTIVE'' (getLbPendingStatuses env) (mon_Timeout d TimeoutUpdate) = Some e
        \<longrightarrow> diags = diag_FromErr (Some e)
           \<and> d' = d
           \<and> tr = [E_LoadBalancerV2Client (GetRegion env d) None,
                 E_pools_Get (getS (mon_pool_id d)) (Inr p),
                 E_monitors_Get (mon_Id d) (Inr m),
                 E_waitForLBV2Pool p ''ACTIVE'' (getLbPendingStatuses env) (mon_Timeout d TimeoutUpdate) (Some e)])"
    by (intro impI, (elim conjE)?, rule Update_failure(4)[OF run]) (simp_all add: update_opts_fst)
  have f4: "((\<exists>k \<in> set monitor_tracked. mon_HasChange d k)
          \<and> LoadBalancerV2Client env [] (GetRegion env d) = None
          \<and> pools_Get env [E_LoadBalancerV2Client (GetRegion env d) None] (getS (mon_pool_id d)) = Inr p
          \<and> monitors_Get env
          [E_LoadBalancerV2Client (GetRegion env d) None,
           E_pools_Get (getS (mon_pool_id d)) (Inr p)] (mon_Id d) = Inr m
          \<and> waitForLBV2Pool env
          [E_LoadBalancerV2Client (GetRegion env d) None,
           E_pools_Get (getS (mon_pool_id d)) (Inr p),
           E_monitors_Get (mon_Id d) (Inr m)]
          p ''ACTIVE'' (getLbPendingStatuses env) (mon_Timeout d TimeoutUpdate) = None
          \<and> waitForLBV2Monitor env
          [E_LoadBalancerV2Client (GetRegion env d) None,
           E_pools_Get (getS (mon_pool_id d)) (Inr p),
           E_monitors_Get (mon_Id d) (Inr m),
           E_waitForLBV2Pool p ''ACTIVE'' (getLbPendingStatuses env) (mon_Timeout d TimeoutUpdate) None]
          p m ''ACTIVE'' (getLbPendingStatuses env) (mon_Timeout d TimeoutUpdate) = Some e
        \<longrightarrow> diags = diag_FromErr (Some e)
           \<and> d' = d
           \<and> tr = [E_LoadBalancerV2Client (GetRegion env d) None,
                 E_pools_Get (getS (mon_pool_id d)) (Inr p),
                 E_monitors_Get (mon_Id d) (Inr m),
                 E_waitForLBV2Pool p ''ACTIVE'' (getLbPendingStatuses env) (mon_Timeout d TimeoutUpdate) None,
                 E_waitForLBV2Monitor p m ''ACTIVE'' (getLbPendingStatuses env) (mon_Timeout d TimeoutUpdate) (Some e)])"
    by (intro impI, (elim conjE)?, rule Update_failure(5)[OF run]) (simp_all add: update_opts_fst)
  have f5: "((\<exists>k \<in> set monitor_tracked. mon_HasChange d k)
          \<and> LoadBalancerV2Client env [] (GetRegion env d) = None
          \<and> pools_Get env [E_LoadBalancerV2Client (GetRegion env d) None] (getS (mon_pool_id d)) = Inr p
          \<and> monitors_Get env
          [E_LoadBalancerV2Client (GetRegion env d) None,
           E_pools_Get (getS (mon_pool_id d)) (Inr p)] (mon_Id d) = Inr m
          \<and> waitForLBV2Pool env
          [E_LoadBalancerV2Client (GetRegion env d) None,
           E_pools_Get (getS (mon_pool_id d)) (Inr p),
           E_monitors_Get (mon_Id d) (Inr m)]
          p ''ACTIVE'' (getLbPendingStatuses env) (mon_Timeout d TimeoutUpdate) = None
          \<and> waitForLBV2Monitor env
          [E_LoadBalancerV2Client (GetRegion env d) None,
           E_pools_Get (getS (mon_pool_id d)) (Inr p),
           E_monitors_Get (mon_Id d) (Inr m),
           E_waitForLBV2Pool p ''ACTIVE'' (getLbPendingStatuses env) (mon_Timeout d TimeoutUpdate) None]
          p m ''ACTIVE'' (getLbPendingStatuses env) (mon_Timeout d TimeoutUpdate) = None
          \<and> attempts_within env (mon_Timeout d TimeoutUpdate) = 0
        \<longrightarrow> diags = diag_Errorf (''Unable to update openstack_lb_monitor_v2 '' @ mon_Id d @ '': ''
                         @ errorString (TimeoutError [''success''] [] (mon_Timeout d TimeoutUpdate)))
           \<and> d' = d
           \<and> tr = [E_LoadBalancerV2Client (GetRegion env d) None,
                 E_pools_Get (getS (mon_pool_id d)) (Inr p),
                 E_monitors_Get (mon_Id d) (Inr m),
                 E_waitForLBV2Pool p ''ACTIVE'' (getLbPendingStatuses env) (mon_Timeout d TimeoutUpdate) None,
                 E_waitForLBV2Monitor p m ''ACTIVE'' (getLbPendingStatuses env) (mon_Timeout d TimeoutUpdate) None])"
    by (intro impI, (elim conjE)?, rule Update_failure(6)[OF run]) (simp_all add: update_opts_fst)
  from old f0 f1 f2 f3 f4 f5 show ?thesis by (intro conjI) (elim conjE, assumption)+
qed

theorem C6_update_only_on_change_witness:
  "mon_HasChange ex_monitorData_changed ''url_path''
   \<and> 0 < attempts_within ex_lb_env (600 * Second)
   \<and> snd (snd (resourceMonitorV2Update ex_lb_env ex_monitorData_changed [])) =
       [E_LoadBalancerV2Client ''RegionOne'' None,
        E_pools_Get ''pool-1'' (Inr \<lparr>pool_ID = ''pool-1''\<rparr>),
        E_monitors_Get ''mon-1'' (Inr ex_Monitor),
        E_waitForLBV2Pool \<lparr>pool_ID = ''pool-1''\<rparr> ''ACTIVE'' [''PENDING_CREATE'', ''PENDING_UPDATE'']
          (600 * Second) None,
        E_waitForLBV2Monitor \<lparr>pool_ID = ''pool-1''\<rparr> ex_Monitor ''ACTIVE''
          [''PENDING_CREATE'', ''PENDING_UPDATE''] (600 * Second) None]
       @ E_monitors_Update ''mon-1'' (zero_UpdateOpts\<lparr>uo_URLPath := ''/health''\<rparr>) (Inr ex_Monitor)
       # [E_waitForLBV2Monitor \<lparr>pool_ID = ''pool-1''\<rparr> ex_Monitor ''ACTIVE''
            [''PENDING_CREATE'', ''PENDING_UPDATE''] (600 * Second) None,
          E_LoadBalancerV2Client ''RegionOne'' None,
          E_monitors_Get ''mon-1'' (Inr ex_Monitor)]
   \<and> list_all is_Read_call (snd (snd (resourceMonitorV2Update ex_lb_env ex_monitorData [])))
   \<and> resourceMonitorV2Read ex_lb_env ex_monitorData [E_LoadBalancerV2Client ''RegionOne'' None]
       = resourceMonitorV2Update ex_lb_env ex_monitorData []
   \<and> resourceMonitorV2Update ex_lb_env_no_client ex_monitorData_changed [] =
     ([''Error creating OpenStack networking client: No suitable endpoint''],
      ex_monitorData_changed,
      [E_LoadBalancerV2Client ''RegionOne'' (Some (ErrOther ''No suitable endpoint''))])
   \<and> resourceMonitorV2Update ex_lb_env_no_pool ex_monitorData_changed [] =
     ([''Unable to retrieve parent openstack_lb_pool_v2 pool-1: Resource not found''],
      ex_monitorData_changed,
      [E_LoadBalancerV2Client ''RegionOne'' None,
       E_pools_Get ''pool-1'' (Inl (ErrDefault404 ''Resource not found''))])
   \<and> resourceMonitorV2Update ex_lb_env_no_monitor ex_monitorData_changed [] =
     ([''Unable to retrieve openstack_lb_monitor_v2 mon-1: Resource not found''],
      ex_monitorData_changed,
      [E_LoadBalancerV2Client ''RegionOne'' None,
       E_pools_Get ''pool-1'' (Inr \<lparr>pool_ID = ''pool-1''\<rparr>),
       E_monitors_Get ''mon-1'' (Inl (ErrDefault404 ''Resource not found''))])
   \<and> resourceMonitorV2Update ex_lb_env_pool_stuck ex_monitorData_changed [] =
     ([errorString (TimeoutError [''ACTIVE''] ''PENDING_UPDATE'' (600 * Second))],
      ex_monitorData_changed,
      [E_LoadBalancerV2Client ''RegionOne'' None,
       E_pools_Get ''pool-1'' (Inr \<lparr>pool_ID = ''pool-1''\<rparr>),
       E_monitors_Get ''mon-1'' (Inr ex_Monitor),
       E_waitForLBV2Pool \<lparr>pool_ID = ''pool-1''\<rparr> ''ACTIVE'' [''PENDING_CREATE'', ''PENDING_UPDATE''] (600 * Second) (Some (TimeoutError [''ACTIVE''] ''PENDING_UPDATE'' (600 * Second)))])
   \<and> resourceMonitorV2Update ex_lb_env_monitor_stuck ex_monitorData_changed [] =
     ([errorString (TimeoutError [''ACTIVE''] ''PENDING_UPDATE'' (600 * Second))],
      ex_monitorData_changed,
      [E_LoadBalancerV2Client ''RegionOne'' None,
       E_pools_Get ''pool-1'' (Inr \<lparr>pool_ID = ''pool-1''\<rparr>),
       E_monitors_Get ''mon-1'' (Inr ex_Monitor),
       E_waitForLBV2Pool \<lparr>pool_ID = ''pool-1''\<rparr> ''ACTIVE'' [''PENDING_CREATE'', ''PENDING_UPDATE''] (600 * Second) None,
       E_waitForLBV2Monitor \<lparr>pool_ID = ''pool-1''\<rparr> ex_Monitor ''ACTIVE'' [''PENDING_CREATE'', ''PENDING_UPDATE''] (600 * Second) (Some (TimeoutError [''ACTIVE''] ''PENDING_UPDATE'' (600 * Second)))])
   \<and> resourceMonitorV2Update ex_lb_env_no_time ex_monitorData_changed [] =
     ([''Unable to update openstack_lb_monitor_v2 mon-1: ''
         @ errorString (TimeoutError [''success''] [] (600 * Second))],
      ex_monitorData_changed,
      [E_LoadBalancerV2Client ''RegionOne'' None,
       E_pools_Get ''pool-1'' (Inr \<lparr>pool_ID = ''pool-1''\<rparr>),
       E_monitors_Get ''mon-1'' (Inr ex_Monitor),
       E_waitForLBV2Pool \<lparr>pool_ID = ''pool-1''\<rparr> ''ACTIVE'' [''PENDING_CREATE'', ''PENDING_UPDATE''] (600 * Second) None,
       E_waitForLBV2Monitor \<lparr>pool_ID = ''pool-1''\<rparr> ex_Monitor ''ACTIVE'' [''PENDING_CREATE'', ''PENDING_UPDATE''] (600 * Second) None])"
proof -
  have ch: "\<exists>k \<in> set monitor_tracked. mon_HasChange ex_monitorData_changed k"
    by (simp add: monitor_tracked_def ex_monitorData_changed_def)
  have f4: "resourceMonitorV2Update ex_lb_env_no_client ex_monitorData_changed [] =
     ([''Error creating OpenStack networking client: No suitable endpoint''],
      ex_monitorData_changed,
      [E_LoadBalancerV2Client ''RegionOne'' (Some (ErrOther ''No suitable endpoint''))])"
  proof -
    let ?R = "resourceMonitorV2Update ex_lb_env_no_client ex_monitorData_changed []"
    have run: "?R = (fst ?R, fst (snd ?R), snd (snd ?R))" by simp
    have hyp: "LoadBalancerV2Client ex_lb_env_no_client [] (GetRegion ex_lb_env_no_client ex_monitorData_changed) = Some (ErrOther ''No suitable endpoint'')"
      using ch by (simp add: ex_lb_env_no_client_def ex_lb_env_def ex_monitorData_changed_def ex_monitorData_def getS_def)
    from C6_update_only_on_change[OF run, THEN conjunct2, THEN conjunct2, THEN conjunct2, THEN conjunct1, rule_format, OF hyp]
    have "fst ?R = [''Error creating OpenStack networking client: No suitable endpoint'']
        \<and> fst (snd ?R) = ex_monitorData_changed
        \<and> snd (snd ?R) = [E_LoadBalancerV2Client ''RegionOne'' (Some (ErrOther ''No suitable endpoint''))]"
      by (simp add: ex_lb_env_no_client_def ex_lb_env_def ex_monitorData_changed_def ex_monitorData_def getS_def
            diag_Errorf_def diag_FromErr_def)
    then show ?thesis by (metis prod.collapse)
  qed
  have f5: "resourceMonitorV2Update ex_lb_env_no_pool ex_monitorData_changed [] =
     ([''Unable to retrieve parent openstack_lb_pool_v2 pool-1: Resource not found''],
      ex_monitorData_changed,
      [E_LoadBalancerV2Client ''RegionOne'' None,
       E_pools_Get ''pool-1'' (Inl (ErrDefault404 ''Resource not found''))])"
  proof -
    let ?R = "resourceMonitorV2Update ex_lb_env_no_pool ex_monitorData_changed []"
    have run: "?R = (fst ?R, fst (snd ?R), snd (snd ?R))" by simp
    have hyp: "(\<exists>k \<in> set monitor_tracked. mon_HasChange ex_monitorData_changed k)
          \<and> LoadBalancerV2Client ex_lb_env_no_pool [] (GetRegion ex_lb_env_no_pool ex_monitorData_changed) = None
          \<and> pools_Get ex_lb_env_no_pool [E_LoadBalancerV2Client (GetRegion ex_lb_env_no_pool ex_monitorData_changed) None] (getS (mon_pool_id ex_monitorData_changed)) = Inl (ErrDefault404 ''Resource not found'')"
      using ch by (simp add: ex_lb_env_no_pool_def ex_lb_env_def ex_monitorData_changed_def ex_monitorData_def getS_def)
    from C6_update_only_on_change[OF run, THEN conjunct2, THEN conjunct2, THEN conjunct2, THEN conjunct2, THEN conjunct1, rule_format, OF hyp]
    have "fst ?R = [''Unable to retrieve parent openstack_lb_pool_v2 pool-1: Resource not found'']
        \<and> fst (snd ?R) = ex_monitorData_changed
        \<and> snd (snd ?R) = [E_LoadBalancerV2Client ''RegionOne'' None,
                    E_pools_Get ''pool-1'' (Inl (ErrDefault404 ''Resource not found''))]"
      by (simp add: ex_lb_env_no_pool_def ex_lb_env_def ex_monitorData_changed_def ex_monitorData_def getS_def
            diag_Errorf_def diag_FromErr_def)
    then show ?thesis by (metis prod.collapse)
  qed
  have f6: "resourceMonitorV2Update ex_lb_env_no_monitor ex_monitorData_changed [] =
     ([''Unable to retrieve openstack_lb_monitor_v2 mon-1: Resource not found''],
      ex_monitorData_changed,
      [E_LoadBalancerV2Client ''RegionOne'' None,
       E_pools_Get ''pool-1'' (Inr \<lparr>pool_ID = ''pool-1''\<rparr>),
       E_monitors_Get ''mon-1'' (Inl (ErrDefault404 ''Resource not found''))])"
  proof -
    let ?R = "resourceMonitorV2Update ex_lb_env_no_monitor ex_monitorData_changed []"
    have run: "?R = (fst ?R, fst (snd ?R), snd (snd ?R))" by simp
    have hyp: "(\<exists>k \<in> set monitor_tracked. mon_HasChange ex_monitorData_changed k)
          \<and> LoadBalancerV2Client ex_lb_env_no_monitor [] (GetRegion ex_lb_env_no_monitor ex_monitorData_changed) = None
          \<and> pools_Get ex_lb_env_no_monitor [E_LoadBalancerV2Client (GetRegion ex_lb_env_no_monitor ex_monitorData_changed) None] (getS (mon_pool_id ex_monitorData_changed)) = Inr \<lparr>pool_ID = ''pool-1''\<rparr>
          \<and> monitors_Get ex_lb_env_no_monitor [E_LoadBalancerV2Client (GetRegion ex_lb_env_no_monitor ex_monitorData_changed) None, E_pools_Get (getS (mon_pool_id ex_monitorData_changed)) (Inr \<lparr>pool_ID = ''pool-1''\<rparr>)] (mon_Id ex_monitorData_changed) = Inl (ErrDefault404 ''Resource not found'')"
      using ch by (simp add: ex_lb_env_no_monitor_def ex_lb_env_def ex_monitorData_changed_def ex_monitorData_def getS_def)
    from C6_update_only_on_change[OF run, THEN conjunct2, THEN conjunct2, THEN conjunct2, THEN conjunct2, THEN conjunct2, THEN conjunct1, rule_format, OF hyp]
    have "fst ?R = [''Unable to retrieve openstack_lb_monitor_v2 mon-1: Resource not found'']
        \<and> fst (snd ?R) = ex_monitorData_changed
        \<and> snd (snd ?R) = [E_LoadBalancerV2Client ''RegionOne'' None,
                    E_pools_Get ''pool-1'' (Inr \<lparr>pool_ID = ''pool-1''\<rparr>),
                    E_monitors_Get ''mon-1'' (Inl (ErrDefault404 ''Resource not found''))]"
      by (simp add: ex_lb_env_no_monitor_def ex_lb_env_def ex_monitorData_changed_def ex_monitorData_def getS_def
            diag_Errorf_def diag_FromErr_def)
    then show ?thesis by (metis prod.collapse)
  qed
  have f7: "resourceMonitorV2Update ex_lb_env_pool_stuck ex_monitorData_changed [] =
     ([errorString (TimeoutError [''ACTIVE''] ''PENDING_UPDATE'' (600 * Second))],
      ex_monitorData_changed,
      [E_LoadBalancerV2Client ''RegionOne'' None,
       E_pools_Get ''pool-1'' (Inr \<lparr>pool_ID = ''pool-1''\<rparr>),
       E_monitors_Get ''mon-1'' (Inr ex_Monitor),
       E_waitForLBV2Pool \<lparr>pool_ID = ''pool-1''\<rparr> ''ACTIVE'' [''PENDING_CREATE'', ''PENDING_UPDATE''] (600 * Second) (Some (TimeoutError [''ACTIVE''] ''PENDING_UPDATE'' (600 * Second)))])"
  proof -
    let ?R = "resourceMonitorV2Update ex_lb_env_pool_stuck ex_monitorData_changed []"
    have run: "?R = (fst ?R, fst (snd ?R), snd (snd ?R))" by simp
    have hyp: "(\<exists>k \<in> set monitor_tracked. mon_HasChange ex_monitorData_changed k)
          \<and> LoadBalancerV2Client ex_lb_env_pool_stuck [] (GetRegion ex_lb_env_pool_stuck ex_monitorData_changed) = None
          \<and> pools_Get ex_lb_env_pool_stuck [E_LoadBalancerV2Client (GetRegion ex_lb_env_pool_stuck ex_monitorData_changed) None] (getS (mon_pool_id ex_monitorData_changed)) = Inr \<lparr>pool_ID = ''pool-1''\<rparr>
          \<and> monitors_Get ex_lb_env_pool_stuck [E_LoadBalancerV2Client (GetRegion ex_lb_env_pool_stuck ex_monitorData_changed) None, E_pools_Get (getS (mon_pool_id ex_monitorData_changed)) (Inr \<lparr>pool_ID = ''pool-1''\<rparr>)] (mon_Id ex_monitorData_changed) = Inr ex_Monitor
          \<and> waitForLBV2Pool ex_lb_env_pool_stuck [E_LoadBalancerV2Client (GetRegion ex_lb_env_pool_stuck ex_monitorData_changed) None, E_pools_Get (getS (mon_pool_id ex_monitorData_changed)) (Inr \<lparr>pool_ID = ''pool-1''\<rparr>), E_monitors_Get (mon_Id ex_monitorData_changed) (Inr ex_Monitor)] \<lparr>pool_ID = ''pool-1''\<rparr> ''ACTIVE'' (getLbPendingStatuses ex_lb_env_pool_stuck) (mon_Timeout ex_monitorData_changed TimeoutUpdate) = Some (TimeoutError [''ACTIVE''] ''PENDING_UPDATE'' (600 * Second))"
      using ch by (simp add: ex_lb_env_pool_stuck_def ex_lb_env_def ex_monitorData_changed_def ex_monitorData_def getS_def)
    from C6_update_only_on_change[OF run, THEN conjunct2, THEN conjunct2, THEN conjunct2, THEN conjunct2, THEN conjunct2, THEN conjunct2, THEN conjunct1, rule_format, OF hyp]
    have "fst ?R = [errorString (TimeoutError [''ACTIVE''] ''PENDING_UPDATE'' (600 * Second))]
        \<and> fst (snd ?R) = ex_monitorData_changed
        \<and> snd (snd ?R) = [E_LoadBalancerV2Client ''RegionOne'' None,
                    E_pools_Get ''pool-1'' (Inr \<lparr>pool_ID = ''pool-1''\<rparr>),
                    E_monitors_Get ''mon-1'' (Inr ex_Monitor),
                    E_waitForLBV2Pool \<lparr>pool_ID = ''pool-1''\<rparr> ''ACTIVE'' [''PENDING_CREATE'', ''PENDING_UPDATE''] (600 * Second) (Some (TimeoutError [''ACTIVE''] ''PENDING_UPDATE'' (600 * Second)))]"
      by (simp add: ex_lb_env_pool_stuck_def ex_lb_env_def ex_monitorData_changed_def ex_monitorData_def getS_def
            diag_Errorf_def diag_FromErr_def)
    then show ?thesis by (metis prod.collapse)
  qed
  have f8: "resourceMonitorV2Update ex_lb_env_monitor_stuck ex_monitorData_changed [] =
     ([errorString (TimeoutError [''ACTIVE''] ''PENDING_UPDATE'' (600 * Second))],
      ex_monitorData_changed,
      [E_LoadBalancerV2Client ''RegionOne'' None,
       E_pools_Get ''pool-1'' (Inr \<lparr>pool_ID = ''pool-1''\<rparr>),
       E_monitors_Get ''mon-1'' (Inr ex_Monitor),
       E_waitForLBV2Pool \<lparr>pool_ID = ''pool-1''\<rparr> ''ACTIVE'' [''PENDING_CREATE'', ''PENDING_UPDATE''] (600 * Second) None,
       E_waitForLBV2Monitor \<lparr>pool_ID = ''pool-1''\<rparr> ex_Monitor ''ACTIVE'' [''PENDING_CREATE'', ''PENDING_UPDATE''] (600 * Second) (Some (TimeoutError [''ACTIVE''] ''PENDING_UPDATE'' (600 * Second)))])"
  proof -
    let ?R = "resourceMonitorV2Update ex_lb_env_monitor_stuck ex_monitorData_changed []"
    have run: "?R = (fst ?R, fst (snd ?R), snd (snd ?R))" by simp
    have hyp: "(\<exists>k \<in> set monitor_tracked. mon_HasChange ex_monitorData_changed k)
          \<and> LoadBalancerV2Client ex_lb_env_monitor_stuck [] (GetRegion ex_lb_env_monitor_stuck ex_monitorData_changed) = None
          \<and> pools_Get ex_lb_env_monitor_stuck [E_LoadBalancerV2Client (GetRegion ex_lb_env_monitor_stuck ex_monitorData_changed) None] (getS (mon_pool_id ex_monitorData_changed)) = Inr \<lparr>pool_ID = ''pool-1''\<rparr>
          \<and> monitors_Get ex_lb_env_monitor_stuck [E_LoadBalancerV2Client (GetRegion ex_lb_env_monitor_stuck ex_monitorData_changed) None, E_pools_Get (getS (mon_pool_id ex_monitorData_changed)) (Inr \<lparr>pool_ID = ''pool-1''\<rparr>)] (mon_Id ex_monitorData_changed) = Inr ex_Monitor
          \<and> waitForLBV2Pool ex_lb_env_monitor_stuck [E_LoadBalancerV2Client (GetRegion ex_lb_env_monitor_stuck ex_monitorData_changed) None, E_pools_Get (getS (mon_pool_id ex_monitorData_changed)) (Inr \<lparr>pool_ID = ''pool-1''\<rparr>), E_monitors_Get (mon_Id ex_monitorData_changed) (Inr ex_Monitor)] \<lparr>pool_ID = ''pool-1''\<rparr> ''ACTIVE'' (getLbPendingStatuses ex_lb_env_monitor_stuck) (mon_Timeout ex_monitorData_changed TimeoutUpdate) = None
          \<and> waitForLBV2Monitor ex_lb_env_monitor_stuck [E_LoadBalancerV2Client (GetRegion ex_lb_env_monitor_stuck ex_monitorData_changed) None, E_pools_Get (getS (mon_pool_id ex_monitorData_changed)) (Inr \<lparr>pool_ID = ''pool-1''\<rparr>), E_monitors_Get (mon_Id ex_monitorData_changed) (Inr ex_Monitor), E_waitForLBV2Pool \<lparr>pool_ID = ''pool-1''\<rparr> ''ACTIVE'' (getLbPendingStatuses ex_lb_env_monitor_stuck) (mon_Timeout ex_monitorData_changed TimeoutUpdate) None] \<lparr>pool_ID = ''pool-1''\<rparr> ex_Monitor ''ACTIVE'' (getLbPendingStatuses ex_lb_env_monitor_stuck) (mon_Timeout ex_monitorData_changed TimeoutUpdate) = Some (TimeoutError [''ACTIVE''] ''PENDING_UPDATE'' (600 * Second))"
      using ch by (simp add: ex_lb_env_monitor_stuck_def ex_lb_env_def ex_monitorData_changed_def ex_monitorData_def getS_def)
    from C6_update_only_on_change[OF run, THEN conjunct2, THEN conjunct2, THEN conjunct2, THEN conjunct2, THEN conjunct2, THEN conjunct2, THEN conjunct2, THEN conjunct1, rule_format, OF hyp]
    have "fst ?R = [errorString (TimeoutError [''ACTIVE''] ''PENDING_UPDATE'' (600 * Second))]
        \<and> fst (snd ?R) = ex_monitorData_changed
        \<and> snd (snd ?R) = [E_LoadBalancerV2Client ''RegionOne'' None,
                    E_pools_Get ''pool-1'' (Inr \<lparr>pool_ID = ''pool-1''\<rparr>),
                    E_monitors_Get ''mon-1'' (Inr ex_Monitor),
                    E_waitForLBV2Pool \<lparr>pool_ID = ''pool-1''\<rparr> ''ACTIVE'' [''PENDING_CREATE'', ''PENDING_UPDATE''] (600 * Second) None,
                    E_waitForLBV2Monitor \<lparr>pool_ID = ''pool-1''\<rparr> ex_Monitor ''ACTIVE'' [''PENDING_CREATE'', ''PENDING_UPDATE''] (600 * Second) (Some (TimeoutError [''ACTIVE''] ''PENDING_UPDATE'' (600 * Second)))]"
      by (simp add: ex_lb_env_monitor_stuck_def ex_lb_env_def ex_monitorData_changed_def ex_monitorData_def getS_def
            diag_Errorf_def diag_FromErr_def)
    then show ?thesis by (metis prod.collapse)
  qed
  have f9: "resourceMonitorV2Update ex_lb_env_no_time ex_monitorData_changed [] =
     ([''Unable to update openstack_lb_monitor_v2 mon-1: ''
         @ errorString (TimeoutError [''success''] [] (600 * Second))],
      ex_monitorData_changed,
      [E_LoadBalancerV2Client ''RegionOne'' None,
       E_pools_Get ''pool-1'' (Inr \<lparr>pool_ID = ''pool-1''\<rparr>),
       E_monitors_Get ''mon-1'' (Inr ex_Monitor),
       E_waitForLBV2Pool \<lparr>pool_ID = ''pool-1''\<rparr> ''ACTIVE'' [''PENDING_CREATE'', ''PENDING_UPDATE''] (600 * Second) None,
       E_waitForLBV2Monitor \<lparr>pool_ID = ''pool-1''\<rparr> ex_Monitor ''ACTIVE'' [''PENDING_CREATE'', ''PENDING_UPDATE''] (600 * Second) None])"
  proof -
    let ?R = "resourceMonitorV2Update ex_lb_env_no_time ex_monitorData_changed []"
    have run: "?R = (fst ?R, fst (snd ?R), snd (snd ?R))" by simp
    have hyp: "(\<exists>k \<in> set monitor_tracked. mon_HasChange ex_monitorData_changed k)
          \<and> LoadBalancerV2Client ex_lb_env_no_time [] (GetRegion ex_lb_env_no_time ex_monitorData_changed) = None
          \<and> pools_Get ex_lb_env_no_time [E_LoadBalancerV2Client (GetRegion ex_lb_env_no_time ex_monitorData_changed) None] (getS (mon_pool_id ex_monitorData_changed)) = Inr \<lparr>pool_ID = ''pool-1''\<rparr>
          \<and> monitors_Get ex_lb_env_no_time [E_LoadBalancerV2Client (GetRegion ex_lb_env_no_time ex_monitorData_changed) None, E_pools_Get (getS (mon_pool_id ex_monitorData_changed)) (Inr \<lparr>pool_ID = ''pool-1''\<rparr>)] (mon_Id ex_monitorData_changed) = Inr ex_Monitor
          \<and> waitForLBV2Pool ex_lb_env_no_time [E_LoadBalancerV2Client (GetRegion ex_lb_env_no_time ex_monitorData_changed) None, E_pools_Get (getS (mon_pool_id ex_monitorData_changed)) (Inr \<lparr>pool_ID = ''pool-1''\<rparr>), E_monitors_Get (mon_Id ex_monitorData_changed) (Inr ex_Monitor)] \<lparr>pool_ID = ''pool-1''\<rparr> ''ACTIVE'' (getLbPendingStatuses ex_lb_env_no_time) (mon_Timeout ex_monitorData_changed TimeoutUpdate) = None
          \<and> waitForLBV2Monitor ex_lb_env_no_time [E_LoadBalancerV2Client (GetRegion ex_lb_env_no_time ex_monitorData_changed) None, E_pools_Get (getS (mon_pool_id ex_monitorData_changed)) (Inr \<lparr>pool_ID = ''pool-1''\<rparr>), E_monitors_Get (mon_Id ex_monitorData_changed) (Inr ex_Monitor), E_waitForLBV2Pool \<lparr>pool_ID = ''pool-1''\<rparr> ''ACTIVE'' (getLbPendingStatuses ex_lb_env_no_time) (mon_Timeout ex_monitorData_changed TimeoutUpdate) None] \<lparr>pool_ID = ''pool-1''\<rparr> ex_Monitor ''ACTIVE'' (getLbPendingStatuses ex_lb_env_no_time) (mon_Timeout ex_monitorData_changed TimeoutUpdate) = None
          \<and> attempts_within ex_lb_env_no_time (mon_Timeout ex_monitorData_changed TimeoutUpdate) = 0"
      using ch by (simp add: ex_lb_env_no_time_def ex_lb_env_def ex_monitorData_changed_def ex_monitorData_def getS_def)
    from C6_update_only_on_change[OF run, THEN conjunct2, THEN conjunct2, THEN conjunct2, THEN conjunct2, THEN conjunct2, THEN conjunct2, THEN conjunct2, THEN conjunct2, rule_format, OF hyp]
    have "fst ?R = [''Unable to update openstack_lb_monitor_v2 mon-1: ''
         @ errorString (TimeoutError [''success''] [] (600 * Second))]
        \<and> fst (snd ?R) = ex_monitorData_changed
        \<and> snd (snd ?R) = [E_LoadBalancerV2Client ''RegionOne'' None,
                    E_pools_Get ''pool-1'' (Inr \<lparr>pool_ID = ''pool-1''\<rparr>),
                    E_monitors_Get ''mon-1'' (Inr ex_Monitor),
                    E_waitForLBV2Pool \<lparr>pool_ID = ''pool-1''\<rparr> ''ACTIVE'' [''PENDING_CREATE'', ''PENDING_UPDATE''] (600 * Second) None,
                    E_waitForLBV2Monitor \<lparr>pool_ID = ''pool-1''\<rparr> ex_Monitor ''ACTIVE'' [''PENDING_CREATE'', ''PENDING_UPDATE''] (600 * Second) None]"
      by (simp add: ex_lb_env_no_time_def ex_lb_env_def ex_monitorData_changed_def ex_monitorData_def getS_def
            diag_Errorf_def diag_FromErr_def)
    then show ?thesis by (metis prod.collapse)
  qed
  have un: "\<not> (\<exists>k \<in> set monitor_tracked. mon_HasChange ex_monitorData k)"
    by (simp add: ex_monitorData_def)
  have c: "LoadBalancerV2Client ex_lb_env [] (GetRegion ex_lb_env ex_monitorData) = None"
          "GetRegion ex_lb_env ex_monitorData = ''RegionOne''"
    by (simp_all add: ex_lb_env_def)
  have hyp: "(\<exists>k \<in> set monitor_tracked. mon_HasChange ex_monitorData_changed k)
        \<and> LoadBalancerV2Client ex_lb_env [] (GetRegion ex_lb_env ex_monitorData_changed) = None
        \<and> pools_Get ex_lb_env [E_LoadBalancerV2Client (GetRegion ex_lb_env ex_monitorData_changed) None]
            (getS (mon_pool_id ex_monitorData_changed)) = Inr \<lparr>pool_ID = ''pool-1''\<rparr>
        \<and> monitors_Get ex_lb_env
             [E_LoadBalancerV2Client (GetRegion ex_lb_env ex_monitorData_changed) None,
              E_pools_Get (getS (mon_pool_id ex_monitorData_changed)) (Inr \<lparr>pool_ID = ''pool-1''\<rparr>)]
             (mon_Id ex_monitorData_changed) = Inr ex_Monitor
        \<and> waitForLBV2Pool ex_lb_env
             [E_LoadBalancerV2Client (GetRegion ex_lb_env ex_monitorData_changed) None,
              E_pools_Get (getS (mon_pool_id ex_monitorData_changed)) (Inr \<lparr>pool_ID = ''pool-1''\<rparr>),
              E_monitors_Get (mon_Id ex_monitorData_changed) (Inr ex_Monitor)]
             \<lparr>pool_ID = ''pool-1''\<rparr> ''ACTIVE'' (getLbPendingStatuses ex_lb_env)
             (mon_Timeout ex_monitorData_changed TimeoutUpdate) = None
        \<and> waitForLBV2Monitor ex_lb_env
             [E_LoadBalancerV2Client (GetRegion ex_lb_env ex_monitorData_changed) None,
              E_pools_Get (getS (mon_pool_id ex_monitorData_changed)) (Inr \<lparr>pool_ID = ''pool-1''\<rparr>),
              E_monitors_Get (mon_Id ex_monitorData_changed) (Inr ex_Monitor),
              E_waitForLBV2Pool \<lparr>pool_ID = ''pool-1''\<rparr> ''ACTIVE'' (getLbPendingStatuses ex_lb_env)
                (mon_Timeout ex_monitorData_changed TimeoutUpdate) None]
             \<lparr>pool_ID = ''pool-1''\<rparr> ex_Monitor ''ACTIVE'' (getLbPendingStatuses ex_lb_env)
             (mon_Timeout ex_monitorData_changed TimeoutUpdate) = None
        \<and> 0 < attempts_within ex_lb_env (mon_Timeout ex_monitorData_changed TimeoutUpdate)"
    using ch by (simp add: ex_lb_env_def ex_monitorData_changed_def ex_monitorData_def getS_def)
  from C6_update_only_on_change[OF ex_Update_run, THEN conjunct2, THEN conjunct1, rule_format, OF hyp]
  have "\<exists>r rest. snd (snd (resourceMonitorV2Update ex_lb_env ex_monitorData_changed [])) =
          [E_LoadBalancerV2Client (GetRegion ex_lb_env ex_monitorData_changed) None,
           E_pools_Get (getS (mon_pool_id ex_monitorData_changed)) (Inr \<lparr>pool_ID = ''pool-1''\<rparr>),
           E_monitors_Get (mon_Id ex_monitorData_changed) (Inr ex_Monitor),
           E_waitForLBV2Pool \<lparr>pool_ID = ''pool-1''\<rparr> ''ACTIVE'' (getLbPendingStatuses ex_lb_env)
             (mon_Timeout ex_monitorData_changed TimeoutUpdate) None,
           E_waitForLBV2Monitor \<lparr>pool_ID = ''pool-1''\<rparr> ex_Monitor ''ACTIVE''
             (getLbPendingStatuses ex_lb_env) (mon_Timeout ex_monitorData_changed TimeoutUpdate) None]
          @ E_monitors_Update (mon_Id ex_monitorData_changed) (snd (update_opts ex_monitorData_changed)) r
          # rest"
    by (simp add: ex_Update_run)
  moreover
  from C6_update_only_on_change[OF ex_Update_unchanged_run, THEN conjunct2, THEN conjunct2, THEN conjunct1, rule_format, OF un]
  have "list_all is_Read_call (snd (snd (resourceMonitorV2Update ex_lb_env ex_monitorData [])))
        \<and> resourceMonitorV2Read ex_lb_env ex_monitorData [E_LoadBalancerV2Client ''RegionOne'' None]
            = resourceMonitorV2Update ex_lb_env ex_monitorData []"
    using c by (simp add: ex_Update_unchanged_run list_all_iff)
  moreover have "mon_HasChange ex_monitorData_changed ''url_path''"
    by (simp add: ex_monitorData_changed_def)
  moreover have "0 < attempts_within ex_lb_env (600 * Second)"
    by (simp add: ex_lb_env_def)
  moreover note f4 f5 f6 f7 f8 f9
  ultimately show ?thesis
    by (simp add: ex_Update_run)
qed

section \<open>Image IDs: name and name_regex\<close>

text \<open>
  C7. When \<open>name\<close> and \<open>name_regex\<close> are both set to non-empty values, the read
  returns an error and makes no \<open>images.List\<close> call. Otherwise the read does not return
  the error about the two attributes, and with a client it goes on to list the images.
\<close>

theorem C7_name_and_regex_exclusive:
  assumes run: "dataSourceImagesImageIdsV2Read env d [] = (res, d', tr)"
  shows "((\<exists>n. ids_name d = Some n \<and> n \<noteq> []) \<and> (\<exists>r. ids_name_regex d = Some r \<and> r \<noteq> [])
            \<longrightarrow> res \<noteq> None \<and> (\<forall>ev \<in> set tr. \<not> is_images_List ev))
       \<and> (\<not> ((\<exists>n. ids_name d = Some n \<and> n \<noteq> []) \<and> (\<exists>r. ids_name_regex d = Some r \<and> r \<noteq> []))
            \<longrightarrow> res \<noteq> Some (fmt_Errorf
                             ''Attributes name and name_regexp can not be used at the same time'')
                \<and> (ImageV2Client env [] (ids_GetRegion env d) = None
                     \<longrightarrow> (\<exists>ev \<in> set tr. is_images_List ev)))"
proof -
  have ok: "snd (GetOkS a) \<longleftrightarrow> (\<exists>n. a = Some n \<and> n \<noteq> [])" for a
    by (cases a) (auto simp: GetOkS_def getS_def)
  show ?thesis
    using run
    by (auto simp: dataSourceImagesImageIdsV2Read_def Let_def ok fmt_Errorf_def
             split: option.splits sum.splits if_splits)
qed

theorem C7_name_and_regex_exclusive_witness:
  "fst (dataSourceImagesImageIdsV2Read ex_img_env (ex_idsData (Some ''cirros'') (Some ''^c'')) [])
     = Some (fmt_Errorf ''Attributes name and name_regexp can not be used at the same time'')
   \<and> list_all (\<lambda>ev. \<not> is_images_List ev)
       (snd (snd (dataSourceImagesImageIdsV2Read ex_img_env (ex_idsData (Some ''cirros'') (Some ''^c'')) [])))
   \<and> fst (dataSourceImagesImageIdsV2Read ex_img_env (ex_idsData (Some ''cirros'') None) []) = None
   \<and> list_ex is_images_List
       (snd (snd (dataSourceImagesImageIdsV2Read ex_img_env (ex_idsData (Some ''cirros'') None) [])))"
proof -
  have both: "(\<exists>n. ids_name (ex_idsData (Some ''cirros'') (Some ''^c'')) = Some n \<and> n \<noteq> [])
            \<and> (\<exists>r. ids_name_regex (ex_idsData (Some ''cirros'') (Some ''^c'')) = Some r \<and> r \<noteq> [])"
    by (simp add: ex_idsData_def)
  have one: "\<not> ((\<exists>n. ids_name (ex_idsData (Some ''cirros'') None) = Some n \<and> n \<noteq> [])
            \<and> (\<exists>r. ids_name_regex (ex_idsData (Some ''cirros'') None) = Some r \<and> r \<noteq> []))"
    by (simp add: ex_idsData_def)
  have c: "ImageV2Client ex_img_env [] (ids_GetRegion ex_img_env (ex_idsData (Some ''cirros'') None)) = None"
    by (simp add: ex_img_env_def)
  from C7_name_and_regex_exclusive[OF ex_ids_both_run, THEN conjunct1, rule_format, OF both]
  have a: "list_all (\<lambda>ev. \<not> is_images_List ev)
       (snd (snd (dataSourceImagesImageIdsV2Read ex_img_env (ex_idsData (Some ''cirros'') (Some ''^c'')) [])))"
    by (simp add: ex_ids_both_run list_all_iff)
  from C7_name_and_regex_exclusive[OF ex_ids_name_run, THEN conjunct2, rule_format, OF one]
  have b: "list_ex is_images_List
       (snd (snd (dataSourceImagesImageIdsV2Read ex_img_env (ex_idsData (Some ''cirros'') None) [])))"
    using c by (simp add: ex_ids_name_run list_ex_iff)
  show ?thesis using a b by (simp add: ex_ids_both_run ex_ids_name_run fmt_Errorf_def)
qed

section \<open>Subnet route IDs: building and parsing\<close>

text \<open>
  C8, as stated: for every \<open>subnetID\<close> without the substring \<open>-route-\<close> and every
  \<open>dstCIDR\<close> and \<open>nextHop\<close> without a dash, parsing the built ID gives back the
  three parts. It fails when \<open>subnetID\<close> ends in \<open>-route\<close>: the dash that ends
  \<open>a-route\<close> and the separator that follows make an earlier occurrence of
  \<open>-route-\<close>, \<open>strings.Split\<close> cuts there, and the last part has two dashes.
\<close>

theorem C8_roundtrip_counterexample:
  "\<not> sublist ''-route-'' ''a-route'' \<and> CHR ''-'' \<notin> set ''x'' \<and> CHR ''-'' \<notin> set ''y'' \<and>
   resourceNetworkingSubnetRouteV2ParseID
     (resourceNetworkingSubnetRouteV2BuildID ''a-route'' ''x'' ''y'')
   = Inl ''invalid last part format for a-route-route-x-y: route-x-y''"
  by code_simp

text \<open>
  C8, amended: for every \<open>subnetID\<close> that neither contains \<open>-route-\<close> nor ends in
  \<open>-route\<close>, and every \<open>dstCIDR\<close> and \<open>nextHop\<close> without a dash, parsing the built
  ID returns exactly \<open>(subnetID, dstCIDR, nextHop)\<close> and no error.
\<close>

theorem C8_roundtrip:
  assumes "\<not> sublist ''-route-'' subnetID" and "\<not> suffix ''-route'' subnetID"
      and "CHR ''-'' \<notin> set dstCIDR" and "CHR ''-'' \<notin> set nextHop"
  shows "resourceNetworkingSubnetRouteV2ParseID
           (resourceNetworkingSubnetRouteV2BuildID subnetID dstCIDR nextHop)
         = Inr (subnetID, dstCIDR, nextHop)"
proof -
  have "filter (\<lambda>c. c = CHR ''-'') dstCIDR = []" "filter (\<lambda>c. c = CHR ''-'') nextHop = []"
    using assms(3,4) by (auto simp: filter_empty_conv)
  then have "length (filter (\<lambda>c. c = CHR ''-'') (dstCIDR @ ''-'' @ nextHop)) < 2" by simp
  from Split_route[OF assms(1,2) this] Split_dash[OF assms(3,4)]
  show ?thesis
    by (simp add: resourceNetworkingSubnetRouteV2ParseID_def
        resourceNetworkingSubnetRouteV2BuildID_def)
qed

theorem C8_roundtrip_witness:
  "\<not> sublist ''-route-'' ''subnet1'' \<and> \<not> suffix ''-route'' ''subnet1'' \<and>
   CHR ''-'' \<notin> set ''10.0.0.0/24'' \<and> CHR ''-'' \<notin> set ''10.0.0.1'' \<and>
   resourceNetworkingSubnetRouteV2ParseID
     (resourceNetworkingSubnetRouteV2BuildID ''subnet1'' ''10.0.0.0/24'' ''10.0.0.1'')
   = Inr (''subnet1'', ''10.0.0.0/24'', ''10.0.0.1'')"
  using C8_roundtrip[of "''subnet1''" "''10.0.0.0/24''" "''10.0.0.1''"]
  by (simp add: sublist_code suffix_to_prefix)

section \<open>Port security-group association: the groups sent\<close>

text \<open>
  C9, as stated: Create sends the union of the port's groups and the configured ones
  when \<open>enforce\<close> is false or unset. For an \<open>enforce\<close> that the configuration leaves
  unset this fails: the schema gives the attribute the default \<open>true\<close>, so Create sends
  the configured groups \<open>sg-b\<close>, \<open>sg-c\<close> alone to a port that has \<open>sg-a\<close>, \<open>sg-b\<close>, and
  \<open>sg-a\<close> is not among the groups sent.
\<close>

theorem C9_enforce_unset_counterexample:
  "schema_enforce None
   \<and> port_SecurityGroups ex_Port = [''sg-a'', ''sg-b'']
   \<and> psg_security_group_ids (ex_psgData (schema_enforce None)) = [''sg-b'', ''sg-c'']
   \<and> resourceNetworkingPortSecGroupAssociateV2Create ex_port_env (ex_psgData (schema_enforce None)) [] =
     (None,
      (ex_psgData True)\<lparr>psg_Id := ''port-1'', psg_security_group_ids := [''sg-a'', ''sg-b''],
         psg_all_security_group_ids := [''sg-a'', ''sg-b''], psg_region := Some ''RegionOne''\<rparr>,
      [E_networkingV2Client ''RegionOne'' None,
       E_ports_Get ''port-1'' (Inr ex_Port),
       E_ports_Update ''port-1'' \<lparr>puo_SecurityGroups = Some [''sg-b'', ''sg-c'']\<rparr> (Inr ex_Port),
       E_networkingV2Client ''RegionOne'' None,
       E_ports_Get ''port-1'' (Inr ex_Port)])
   \<and> ''sg-a'' \<notin> set [''sg-b'', ''sg-c'']"
  by (simp add: schema_enforce_def ex_psg_Create_enforce_run) (simp add: ex_Port_def ex_psgData_def)

text \<open>
  C9, amended. When \<open>ports.Get\<close> returns the port, Create sends exactly one
  \<open>ports.Update\<close>, for the configured port. Its security-group list is the configured
  list when \<open>enforce\<close> is true, which it is for a configuration that sets it to true and
  for one that does not set it (the default of the schema). When \<open>enforce\<close> is false,
  which only a configuration that sets it to false gives, the list is \<open>sliceUnion\<close> of the
  port's groups and the configured ones: their union, for a \<open>sliceUnion\<close> whose result
  has the elements of its two arguments.
\<close>

theorem C9_secgroups_sent:
  assumes run: "resourceNetworkingPortSecGroupAssociateV2Create env d [] = (res, d', tr)"
      and c: "networkingV2Client env [] (psg_GetRegion env d) = None"
      and g: "ports_Get env [E_networkingV2Client (psg_GetRegion env d) None] (getS (psg_port_id d))
                = Inr port"
  shows "\<exists>sent u rest.
           tr = [E_networkingV2Client (psg_GetRegion env d) None,
                 E_ports_Get (getS (psg_port_id d)) (Inr port)]
                @ E_ports_Update (getS (psg_port_id d)) \<lparr>puo_SecurityGroups = Some sent\<rparr> u # rest
           \<and> (\<forall>ev \<in> set rest. \<not> is_ports_Update ev)
           \<and> (psg_enforce d \<longrightarrow> sent = psg_security_group_ids d)
           \<and> (\<not> psg_enforce d \<longrightarrow>
                sent = sliceUnion env (port_SecurityGroups port) (psg_security_group_ids d))
           \<and> (\<not> psg_enforce d
                \<and> (\<forall>a b. set (sliceUnion env a b) = set a \<union> set b) \<longrightarrow>
                set sent = set (port_SecurityGroups port) \<union> set (psg_security_group_ids d))
           \<and> (\<forall>cfg. psg_enforce d = schema_enforce cfg \<longrightarrow>
                (cfg = Some True \<or> cfg = None \<longrightarrow> sent = psg_security_group_ids d)
                \<and> (cfg = Some False \<longrightarrow>
                     sent = sliceUnion env (port_SecurityGroups port) (psg_security_group_ids d)))"
proof -
  from psg_Create_sends[OF run c g] obtain u rest where
    "tr = [E_networkingV2Client (psg_GetRegion env d) None,
                 E_ports_Get (getS (psg_port_id d)) (Inr port)]
                @ E_ports_Update (getS (psg_port_id d))
                    \<lparr>puo_SecurityGroups =
                       Some (if psg_enforce d
                             then psg_security_group_ids d
                             else sliceUnion env (port_SecurityGroups port) (psg_security_group_ids d))\<rparr>
                    u
                # rest"
    "\<forall>ev \<in> set rest. \<not> is_ports_Update ev" by metis
  then show ?thesis
    by (intro exI[of _ "if psg_enforce d
                             then psg_security_group_ids d
                             else sliceUnion env (port_SecurityGroups port) (psg_security_group_ids d)"]
              exI[of _ u] exI[of _ rest])
       (auto simp: schema_enforce_def)
qed

theorem C9_secgroups_sent_witness:
  "networkingV2Client ex_port_env [] ''RegionOne'' = None
   \<and> ports_Get ex_port_env [E_networkingV2Client ''RegionOne'' None] ''port-1'' = Inr ex_Port
   \<and> port_SecurityGroups ex_Port = [''sg-a'', ''sg-b'']
   \<and> psg_security_group_ids (ex_psgData False) = [''sg-b'', ''sg-c'']
   \<and> schema_enforce (Some True) \<and> schema_enforce None \<and> \<not> schema_enforce (Some False)
   \<and> E_ports_Update ''port-1'' \<lparr>puo_SecurityGroups = Some [''sg-b'', ''sg-c'']\<rparr> (Inr ex_Port)
       \<in> set (snd (snd (resourceNetworkingPortSecGroupAssociateV2Create ex_port_env
                          (ex_psgData (schema_enforce (Some True))) [])))
   \<and> E_ports_Update ''port-1'' \<lparr>puo_SecurityGroups = Some [''sg-b'', ''sg-c'']\<rparr> (Inr ex_Port)
       \<in> set (snd (snd (resourceNetworkingPortSecGroupAssociateV2Create ex_port_env
                          (ex_psgData (schema_enforce None)) [])))
   \<and> E_ports_Update ''port-1'' \<lparr>puo_SecurityGroups = Some [''sg-a'', ''sg-b'', ''sg-c'']\<rparr> (Inr ex_Port)
       \<in> set (snd (snd (resourceNetworkingPortSecGroupAssociateV2Create ex_port_env
                          (ex_psgData (schema_enforce (Some False))) [])))
   \<and> set [''sg-a'', ''sg-b'', ''sg-c'']
       = set (port_SecurityGroups ex_Port) \<union> set (psg_security_group_ids (ex_psgData False))"
proof -
  have c: "networkingV2Client ex_port_env [] (psg_GetRegion ex_port_env d) = None" for d
    by (simp add: ex_port_env_def)
  have g: "ports_Get ex_port_env [E_networkingV2Client (psg_GetRegion ex_port_env d) None]
             (getS (psg_port_id d)) = Inr ex_Port" for d
    by (simp add: ex_port_env_def)
  have su: "\<forall>a b. set (sliceUnion ex_port_env a b) = set a \<union> set b"
    by (simp add: ex_port_env_def)
  have s: "schema_enforce (Some True)" "schema_enforce None" "\<not> schema_enforce (Some False)"
    by (simp_all add: schema_enforce_def)
  have nf: "\<not> psg_enforce (ex_psgData False)" and tt: "psg_enforce (ex_psgData True)"
    by (simp_all add: ex_psgData_def)
  from C9_secgroups_sent[OF ex_psg_Create_enforce_run c g] tt
  have e: "E_ports_Update ''port-1'' \<lparr>puo_SecurityGroups = Some [''sg-b'', ''sg-c'']\<rparr> (Inr ex_Port)
       \<in> set (snd (snd (resourceNetworkingPortSecGroupAssociateV2Create ex_port_env
                          (ex_psgData True) [])))"
    by (simp add: ex_psg_Create_enforce_run)
  from C9_secgroups_sent[OF ex_psg_Create_append_run c g] obtain sent u rest where
    tr: "[E_networkingV2Client ''RegionOne'' None,
          E_ports_Get ''port-1'' (Inr ex_Port),
          E_ports_Update ''port-1'' \<lparr>puo_SecurityGroups = Some [''sg-a'', ''sg-b'', ''sg-c'']\<rparr> (Inr ex_Port),
          E_networkingV2Client ''RegionOne'' None,
          E_ports_Get ''port-1'' (Inr ex_Port)]
         = [E_networkingV2Client (psg_GetRegion ex_port_env (ex_psgData False)) None,
            E_ports_Get (getS (psg_port_id (ex_psgData False))) (Inr ex_Port)]
           @ E_ports_Update (getS (psg_port_id (ex_psgData False))) \<lparr>puo_SecurityGroups = Some sent\<rparr> u # rest"
    and un: "\<not> psg_enforce (ex_psgData False)
                \<and> (\<forall>a b. set (sliceUnion ex_port_env a b) = set a \<union> set b) \<longrightarrow>
             set sent = set (port_SecurityGroups ex_Port) \<union> set (psg_security_group_ids (ex_psgData False))"
    by blast
  from tr have "sent = [''sg-a'', ''sg-b'', ''sg-c'']" by simp
  with un nf su
  have a: "set [''sg-a'', ''sg-b'', ''sg-c'']
       = set (port_SecurityGroups ex_Port) \<union> set (psg_security_group_ids (ex_psgData False))"
    by simp
  have v: "networkingV2Client ex_port_env [] ''RegionOne'' = None"
       "ports_Get ex_port_env [E_networkingV2Client ''RegionOne'' None] ''port-1'' = Inr ex_Port"
       "port_SecurityGroups ex_Port = [''sg-a'', ''sg-b'']"
       "psg_security_group_ids (ex_psgData False) = [''sg-b'', ''sg-c'']"
    by (simp_all add: ex_port_env_def ex_Port_def ex_psgData_def)
  have se: "schema_enforce (Some True) = True" "schema_enforce None = True"
           "schema_enforce (Some False) = False"
    by (simp_all add: schema_enforce_def)
  show ?thesis
    unfolding se using e a v by (simp add: ex_psg_Create_append_run)
qed

section \<open>Importing a monitor\<close>

text \<open>
  C10. For every import ID, \<open>resourceMonitorV2Import\<close> returns an error exactly when
  the part before the first slash is empty, that is when the ID is empty or starts with
  a slash. Otherwise it returns the resource data with the ID set to that part; when the
  ID contains a slash, \<open>pool_id\<close> is set to what follows the first slash, and
  otherwise \<open>pool_id\<close> is not written: unset in the data to import, it stays unset.
\<close>

theorem C10_import:
  fixes d :: monitorData
  defines "before \<equiv> takeWhile (\<lambda>x. x \<noteq> CHR ''/'') (mon_Id d)"
  shows "((\<exists>e. resourceMonitorV2Import d = Inl e) \<longleftrightarrow> before = [])
       \<and> (before = [] \<longleftrightarrow> (mon_Id d = [] \<or> prefix ''/'' (mon_Id d)))
       \<and> (before \<noteq> [] \<longrightarrow>
            resourceMonitorV2Import d =
              Inr [if CHR ''/'' \<in> set (mon_Id d)
                   then d\<lparr>mon_Id := before,
                          mon_pool_id := Some (tl (dropWhile (\<lambda>x. x \<noteq> CHR ''/'') (mon_Id d)))\<rparr>
                   else d\<lparr>mon_Id := before\<rparr>])"
proof -
  have a: "before = [] \<longleftrightarrow> (mon_Id d = [] \<or> prefix ''/'' (mon_Id d))"
    unfolding before_def by (cases "mon_Id d") auto
  show ?thesis
  proof (cases "CHR ''/'' \<in> set (mon_Id d)")
    case True
    then have "SplitN (mon_Id d) ''/'' 2 = [before, tl (dropWhile (\<lambda>x. x \<noteq> CHR ''/'') (mon_Id d))]"
      by (simp add: SplitN_slash before_def)
    then show ?thesis
      using a True by (auto simp: resourceMonitorV2Import_def fmt_Errorf_def Let_def)
  next
    case False
    then have b: "before = mon_Id d"
      unfolding before_def by (auto simp: takeWhile_eq_all_conv)
    from False have "SplitN (mon_Id d) ''/'' 2 = [before]"
      by (simp add: SplitN_slash b)
    then show ?thesis
      using a False by (auto simp: resourceMonitorV2Import_def fmt_Errorf_def Let_def)
  qed
qed

theorem C10_import_witness:
  "resourceMonitorV2Import
     \<lparr>mon_Id = ''mon1/pool1'', mon_region = None, mon_pool_id = None, mon_name = None,
      mon_tenant_id = None, mon_type = None, mon_delay = None, mon_timeout = None,
      mon_max_retries = None, mon_max_retries_down = None, mon_url_path = None,
      mon_http_method = None, mon_expected_codes = None, mon_admin_state_up = None,
      mon_HasChange = (\<lambda>k. False), mon_Timeout = (\<lambda>k. 0)\<rparr>
   = Inr [\<lparr>mon_Id = ''mon1'', mon_region = None, mon_pool_id = Some ''pool1'', mon_name = None,
      mon_tenant_id = None, mon_type = None, mon_delay = None, mon_timeout = None,
      mon_max_retries = None, mon_max_retries_down = None, mon_url_path = None,
      mon_http_method = None, mon_expected_codes = None, mon_admin_state_up = None,
      mon_HasChange = (\<lambda>k. False), mon_Timeout = (\<lambda>k. 0)\<rparr>]"
  using C10_import[of "\<lparr>mon_Id = ''mon1/pool1'', mon_region = None, mon_pool_id = None, mon_name = None,
      mon_tenant_id = None, mon_type = None, mon_delay = None, mon_timeout = None,
      mon_max_retries = None, mon_max_retries_down = None, mon_url_path = None,
      mon_http_method = None, mon_expected_codes = None, mon_admin_state_up = None,
      mon_HasChange = (\<lambda>k. False), mon_Timeout = (\<lambda>k. 0)\<rparr>"]
  by simp

end
